theory Spec2Isabelle
  imports Main "HOL-Library.Word" "HOL-Library.Signed_Division" "HOL-Library.Sublist"
    "HOL-Library.AList"
begin

unbundle bit_operations_syntax

section \<open>Go runtime and standard library, as far as the provider uses them\<close>

text \<open>
  A Go \<^verbatim>\<open>error\<close> value is a message; a run-time panic (index out of range) is kept
  apart from it, since no caller of the provider recovers from it.
\<close>

datatype error = Err string | Panic string

type_synonym byte = "8 word"

subsection \<open>strings.Contains\<close>

fun strings_Contains :: "string \<Rightarrow> string \<Rightarrow> bool" where
  "strings_Contains [] substr = (substr = [])"
| "strings_Contains (c # s) substr = (prefix substr (c # s) \<or> strings_Contains s substr)"

subsection \<open>encoding/base64, StdEncoding\<close>

text \<open>
  The standard alphabet with padding, in the non-strict mode of \<^verbatim>\<open>StdEncoding\<close>.
  Bytes are numbers below 256; the \<^verbatim>\<open>uint\<close> accumulator \<^verbatim>\<open>val\<close> never exceeds 24 bits,
  so shifts and masks are written as division and remainder.
\<close>

definition encodeStd :: string where
  "encodeStd = ''ABCDEFGHIJKLMNOPQRSTUVWXYZabcdefghijklmnopqrstuvwxyz0123456789+/''"

definition padChar :: char where
  "padChar = CHR ''=''"

definition encode :: "nat \<Rightarrow> char" where
  "encode i = encodeStd ! (i mod 64)"

fun index_of :: "char \<Rightarrow> string \<Rightarrow> nat \<Rightarrow> nat option" where
  "index_of c [] i = None"
| "index_of c (x # xs) i = (if c = x then Some i else index_of c xs (Suc i))"

text \<open>\<^verbatim>\<open>decodeMap\<close> holds the alphabet index of a byte, and \<^verbatim>\<open>0xff\<close> for every other byte.\<close>

definition decodeMap :: "char \<Rightarrow> nat" where
  "decodeMap c = (case index_of c encodeStd 0 of Some i \<Rightarrow> i | None \<Rightarrow> 255)"

fun Encode :: "nat list \<Rightarrow> string" where
  "Encode (a # b # c # rest) =
     (let val = a * 65536 + b * 256 + c
      in encode (val div 262144 mod 64) # encode (val div 4096 mod 64)
           # encode (val div 64 mod 64) # encode (val mod 64) # Encode rest)"
| "Encode [a, b] =
     (let val = a * 65536 + b * 256
      in [encode (val div 262144 mod 64), encode (val div 4096 mod 64),
          encode (val div 64 mod 64), padChar])"
| "Encode [a] =
     (let val = a * 65536
      in [encode (val div 262144 mod 64), encode (val div 4096 mod 64), padChar, padChar])"
| "Encode [] = []"

definition EncodeToString :: "string \<Rightarrow> string" where
  "EncodeToString s = Encode (map of_char s)"

definition is_newline :: "char \<Rightarrow> bool" where
  "is_newline c = (c = CHR 0x0A \<or> c = CHR 0x0D)"

fun skip_newlines :: "string \<Rightarrow> string" where
  "skip_newlines [] = []"
| "skip_newlines (c # cs) = (if is_newline c then skip_newlines cs else c # cs)"

text \<open>
  The bytes of one quantum: \<^verbatim>\<open>dlen\<close> sextets were read (the missing ones are zero) and
  \<^verbatim>\<open>dlen - 1\<close> bytes come out.
\<close>

definition quantum_bytes :: "nat \<Rightarrow> nat list \<Rightarrow> nat list" where
  "quantum_bytes dlen dbuf =
     (let sx = dbuf @ replicate (4 - length dbuf) 0;
          val = sx ! 0 * 262144 + sx ! 1 * 4096 + sx ! 2 * 64 + sx ! 3
      in take (dlen - 1) [val div 65536 mod 256, val div 256 mod 256, val mod 256])"

text \<open>
  \<^verbatim>\<open>Decode\<close> with \<^verbatim>\<open>decodeQuantum\<close> unrolled over the input: \<^verbatim>\<open>j\<close> sextets of the
  current quantum are in \<^verbatim>\<open>dbuf\<close>. \<^verbatim>\<open>None\<close> is \<^verbatim>\<open>CorruptInputError\<close>. Line feeds and
  carriage returns are skipped; the input may end only between quanta; padding may only
  close the last quantum, at its third or fourth place, followed by nothing but newlines.
\<close>

fun Decode :: "nat \<Rightarrow> nat list \<Rightarrow> string \<Rightarrow> nat list option" where
  "Decode j dbuf [] = (if j = 0 then Some [] else None)"
| "Decode j dbuf (c # cs) =
     (let out = decodeMap c in
      if out \<noteq> 255 then
        (if j = 3 then map_option (\<lambda>r. quantum_bytes 4 (dbuf @ [out]) @ r) (Decode 0 [] cs)
         else Decode (Suc j) (dbuf @ [out]) cs)
      else if is_newline c then Decode j dbuf cs
      else if c \<noteq> padChar then None
      else if j < 2 then None
      else if j = 2 then
        (case skip_newlines cs of
           [] \<Rightarrow> None
         | c' # cs' \<Rightarrow>
             if c' \<noteq> padChar then None
             else if skip_newlines cs' \<noteq> [] then None
             else Some (quantum_bytes 2 dbuf))
      else if skip_newlines cs \<noteq> [] then None
      else Some (quantum_bytes 3 dbuf))"

definition DecodeString :: "string \<Rightarrow> nat list option" where
  "DecodeString s = Decode 0 [] s"

subsection \<open>fmt: the verb \%d\<close>

definition digit_char :: "nat \<Rightarrow> char" where
  "digit_char n = ''0123456789'' ! (n mod 10)"

fun itoa :: "nat \<Rightarrow> string" where
  "itoa n = (if n < 10 then [digit_char n] else itoa (n div 10) @ [digit_char n])"

text \<open>\<^verbatim>\<open>fmt.Sprintf("%d.%d.%d.%d", a, b, c, d)\<close> for bytes.\<close>

definition Sprintf_dotted :: "byte \<Rightarrow> byte \<Rightarrow> byte \<Rightarrow> byte \<Rightarrow> string" where
  "Sprintf_dotted a b c d =
     itoa (unat a) @ ''.'' @ itoa (unat b) @ ''.'' @ itoa (unat c) @ ''.'' @ itoa (unat d)"

subsection \<open>net: ParseCIDR, CIDRMask, IP.Mask\<close>

definition is_digit :: "char \<Rightarrow> bool" where
  "is_digit c = (c \<in> set ''0123456789'')"

definition atoi :: "string \<Rightarrow> nat" where
  "atoi s = foldl (\<lambda>n c. n * 10 + (of_char c - 48)) 0 s"

fun split_on :: "char \<Rightarrow> string \<Rightarrow> string list" where
  "split_on sep [] = [[]]"
| "split_on sep (c # cs) =
     (if c = sep then [] # split_on sep cs
      else (case split_on sep cs of [] \<Rightarrow> [[c]] | f # fs \<Rightarrow> (c # f) # fs))"

text \<open>
  One field of a dotted quad: at least one digit, nothing but digits, no leading zero
  before another digit, and a value of at most 255.
\<close>

definition parse_octet :: "string \<Rightarrow> byte option" where
  "parse_octet f =
     (if f = [] \<or> \<not> list_all is_digit f \<or> (length f > 1 \<and> hd f = CHR ''0'') \<or> atoi f > 255
      then None else Some (of_nat (atoi f)))"

definition parseIPv4 :: "string \<Rightarrow> byte list option" where
  "parseIPv4 s =
     (let fields = split_on (CHR ''.'') s
      in if length fields = 4 then those (map parse_octet fields) else None)"

text \<open>
  \<^verbatim>\<open>CIDRMask(ones, 32)\<close>: the loop over the \<^verbatim>\<open>l\<close> bytes of the mask, with \<^verbatim>\<open>n\<close> ones
  left to place.
\<close>

fun CIDRMask_loop :: "nat \<Rightarrow> nat \<Rightarrow> byte list" where
  "CIDRMask_loop 0 n = []"
| "CIDRMask_loop (Suc l) n =
     (if n \<ge> 8 then 0xff # CIDRMask_loop l (n - 8)
      else NOT (drop_bit n 0xff) # CIDRMask_loop l 0)"

definition CIDRMask :: "nat \<Rightarrow> byte list" where
  "CIDRMask ones = CIDRMask_loop 4 ones"

text \<open>\<^verbatim>\<open>ip.Mask(mask)\<close> for an address and a mask of the same length.\<close>

definition IP_Mask :: "byte list \<Rightarrow> byte list \<Rightarrow> byte list" where
  "IP_Mask ip msk = map (\<lambda>(i, m). i AND m) (zip ip msk)"

text \<open>
  \<^verbatim>\<open>net.ParseCIDR\<close> on the text \<^verbatim>\<open>a.b.c.d/n\<close>: the text is cut at the first slash, the
  address is a dotted quad, the prefix length is a decimal number of at most 32. The
  result is the address and the mask, four bytes each. Addresses in IPv6 notation are
  outside this model, which answers for them as for a malformed text.
\<close>

fun cut_slash :: "string \<Rightarrow> (string \<times> string) option" where
  "cut_slash [] = None"
| "cut_slash (c # cs) =
     (if c = CHR ''/'' then Some ([], cs)
      else map_option (\<lambda>(addr, ones). (c # addr, ones)) (cut_slash cs))"

definition net_ParseCIDR :: "string \<Rightarrow> (byte list \<times> byte list) option" where
  "net_ParseCIDR s =
     (case cut_slash s of
        None \<Rightarrow> None
      | Some (addr, ones) \<Rightarrow>
          (case parseIPv4 addr of
             None \<Rightarrow> None
           | Some ip \<Rightarrow>
               if ones = [] \<or> \<not> list_all is_digit ones \<or> atoi ones > 32 then None
               else Some (ip, CIDRMask (atoi ones))))"

section \<open>The remote API and the resource data\<close>

subsection \<open>Requests, responses and the log of remote calls\<close>

text \<open>
  A parameter struct of the SDK is a table from parameter names to values, filled by
  the \<^verbatim>\<open>SetX\<close> methods. A request is the name of the client method with its table.
\<close>

datatype pval = PStr string | PInt int | PBool bool | PList "string list"
  | PMap "(string \<times> string) list" | PMaps "(string \<times> string) list list"

type_synonym params = "(string \<times> pval) list"

datatype call = Call (cmd: string) (params: params)

text \<open>
  A response object is decoded from JSON; a field that the response does not carry reads
  as the zero value of its Go type. Field names are the Go field names in lower case.
\<close>

datatype json = JNull | JStr string | JInt int | JBool bool | JArr "json list"
  | JObj "(string \<times> json) list"

definition jfield :: "json \<Rightarrow> string \<Rightarrow> json" where
  "jfield j k = (case j of JObj kvs \<Rightarrow> (case map_of kvs k of Some v \<Rightarrow> v | None \<Rightarrow> JNull)
                 | _ \<Rightarrow> JNull)"

definition jstr :: "json \<Rightarrow> string \<Rightarrow> string" where
  "jstr j k = (case jfield j k of JStr s \<Rightarrow> s | _ \<Rightarrow> [])"

definition jint :: "json \<Rightarrow> string \<Rightarrow> int" where
  "jint j k = (case jfield j k of JInt i \<Rightarrow> i | _ \<Rightarrow> 0)"

definition jbool :: "json \<Rightarrow> string \<Rightarrow> bool" where
  "jbool j k = (case jfield j k of JBool b \<Rightarrow> b | _ \<Rightarrow> False)"

definition jarr :: "json \<Rightarrow> string \<Rightarrow> json list" where
  "jarr j k = (case jfield j k of JArr xs \<Rightarrow> xs | _ \<Rightarrow> [])"

text \<open>
  A remote call either fails with a message, or succeeds with a response object. The
  by-ID lookups of the SDK return a match count beside the error; it is the second
  argument of \<^verbatim>\<open>Failed\<close> and is read by no other caller.
\<close>

datatype reply = Failed string int | Succeeded json

type_synonym event = "call \<times> reply"

text \<open>
  The remote side is any function from the calls made so far, with their replies, and the
  next call to its reply. \<^verbatim>\<open>isID\<close> is the SDK's test whether a string has the form of
  an ID.
\<close>

record env =
  api :: "event list \<Rightarrow> call \<Rightarrow> reply"
  isID :: "string \<Rightarrow> bool"

subsection \<open>schema.ResourceData\<close>

datatype val = VStr string | VInt int | VBool bool | VList "string list"
  | VMap "(string \<times> string) list"

record ResourceData =
  ID :: string
  attrs :: "string \<Rightarrow> val"
  prior :: "string \<Rightarrow> val"
  ConnInfo :: "(string \<times> string) list"

definition getS :: "ResourceData \<Rightarrow> string \<Rightarrow> string" where
  "getS d k = (case attrs d k of VStr s \<Rightarrow> s | _ \<Rightarrow> [])"

definition getI :: "ResourceData \<Rightarrow> string \<Rightarrow> int" where
  "getI d k = (case attrs d k of VInt i \<Rightarrow> i | _ \<Rightarrow> 0)"

definition getB :: "ResourceData \<Rightarrow> string \<Rightarrow> bool" where
  "getB d k = (case attrs d k of VBool b \<Rightarrow> b | _ \<Rightarrow> False)"

definition getL :: "ResourceData \<Rightarrow> string \<Rightarrow> string list" where
  "getL d k = (case attrs d k of VList xs \<Rightarrow> xs | _ \<Rightarrow> [])"

definition getM :: "ResourceData \<Rightarrow> string \<Rightarrow> (string \<times> string) list" where
  "getM d k = (case attrs d k of VMap m \<Rightarrow> m | _ \<Rightarrow> [])"

fun isZero :: "val \<Rightarrow> bool" where
  "isZero (VStr s) = (s = [])"
| "isZero (VInt i) = (i = 0)"
| "isZero (VBool b) = (\<not> b)"
| "isZero (VList xs) = (xs = [])"
| "isZero (VMap m) = (m = [])"

text \<open>\<^verbatim>\<open>GetOk\<close> reports a value only when it differs from the zero value of its type.\<close>

definition GetOk :: "ResourceData \<Rightarrow> string \<Rightarrow> bool" where
  "GetOk d k = (\<not> isZero (attrs d k))"

definition HasChange :: "ResourceData \<Rightarrow> string \<Rightarrow> bool" where
  "HasChange d k = (prior d k \<noteq> attrs d k)"

definition SetId :: "string \<Rightarrow> ResourceData \<Rightarrow> ResourceData" where
  "SetId v d = d\<lparr>ID := v\<rparr>"

definition dSet :: "string \<Rightarrow> val \<Rightarrow> ResourceData \<Rightarrow> ResourceData" where
  "dSet k v d = d\<lparr>attrs := (attrs d)(k := v)\<rparr>"

definition SetConnInfo :: "(string \<times> string) list \<Rightarrow> ResourceData \<Rightarrow> ResourceData" where
  "SetConnInfo m d = d\<lparr>ConnInfo := m\<rparr>"

subsection \<open>Sequencing\<close>

text \<open>
  A provider function runs on the resource data and the log of the remote calls made
  before it. It returns its Go result (\<^verbatim>\<open>Inl\<close> for a returned error or a panic), the
  resource data as it has left them, and the remote calls it has made itself, in order,
  each with its reply.
\<close>

type_synonym 'a op = "ResourceData \<Rightarrow> event list \<Rightarrow> (error + 'a) \<times> ResourceData \<times> event list"

definition ret :: "'a \<Rightarrow> 'a op" where
  "ret x = (\<lambda>d h. (Inr x, d, []))"

definition fail :: "error \<Rightarrow> 'a op" where
  "fail e = (\<lambda>d h. (Inl e, d, []))"

definition getD :: "ResourceData op" where
  "getD = (\<lambda>d h. (Inr d, d, []))"

definition modD :: "(ResourceData \<Rightarrow> ResourceData) \<Rightarrow> unit op" where
  "modD f = (\<lambda>d h. (Inr (), f d, []))"

definition thenDo :: "'a op \<Rightarrow> ('a \<Rightarrow> 'b op) \<Rightarrow> 'b op" where
  "thenDo f g = (\<lambda>d h.
     case f d h of
       (Inl e, d1, n1) \<Rightarrow> (Inl e, d1, n1)
     | (Inr a, d1, n1) \<Rightarrow> (case g a d1 (h @ n1) of (r, d2, n2) \<Rightarrow> (r, d2, n1 @ n2)))"

definition invoke :: "env \<Rightarrow> call \<Rightarrow> reply op" where
  "invoke cs c = (\<lambda>d h. let r = api cs h c in (Inr r, d, [(c, r)]))"

definition setIf :: "bool \<Rightarrow> string \<Rightarrow> pval \<Rightarrow> params \<Rightarrow> params" where
  "setIf b k v p = (if b then AList.update k v p else p)"

text \<open>
  \<^verbatim>\<open>if err != nil { return fmt.Errorf(..., err) }\<close>: the message of a returned error is
  rewritten; a panic passes.
\<close>

definition wrapErr :: "(string \<Rightarrow> string) \<Rightarrow> 'a op \<Rightarrow> 'a op" where
  "wrapErr f m = (\<lambda>d h.
     case m d h of
       (Inl (Err err), d1, n1) \<Rightarrow> (Inl (Err (f err)), d1, n1)
     | res \<Rightarrow> res)"

text \<open>A call whose response object the caller drops: only the error is looked at.\<close>

definition invoke_unit :: "env \<Rightarrow> call \<Rightarrow> unit op" where
  "invoke_unit cs c =
     thenDo (invoke cs c) (\<lambda>r. case r of Failed err _ \<Rightarrow> fail (Err err) | Succeeded _ \<Rightarrow> ret ())"

text \<open>
  \<^verbatim>\<open>d.Get(k).(string)\<close> on resource data whose schema has the keys \<open>keys\<close>. For a key
  that the schema does not have \<^verbatim>\<open>d.Get\<close> returns nil, and the type assertion of nil to
  \<^verbatim>\<open>string\<close> panics.
\<close>

definition Get_string :: "string list \<Rightarrow> string \<Rightarrow> string op" where
  "Get_string keys k =
     (if k \<in> set keys then thenDo getD (\<lambda>d. ret (getS d k))
      else fail (Panic ''interface conversion: interface {} is nil, not string''))"

definition map_get :: "(string \<times> string) list \<Rightarrow> string \<Rightarrow> string" where
  "map_get m k = (case map_of m k of Some v \<Rightarrow> v | None \<Rightarrow> [])"

definition not_found_msg :: "string \<Rightarrow> string" where
  "not_found_msg id' = ''Invalid parameter id value='' @ id'
     @ '' due to incorrect long value format, or entity does not exist''"

section \<open>Helpers of the provider that the resource files call\<close>

text \<open>
  Modelled from the spec: \<^verbatim>\<open>retrieveID\<close> and \<^verbatim>\<open>retrieveTemplateID\<close> (the identifier
  resolver) are not among the source files. A value that has the form of an ID is returned
  unchanged; any other is looked up by name at the remote API for its category, for a
  template within the given zone; the lookup fails when there is no match or more than one.
\<close>

definition retrieveID :: "env \<Rightarrow> string \<Rightarrow> string \<Rightarrow> string op" where
  "retrieveID cs name v =
     (if isID cs v then ret v
      else thenDo (invoke cs (Call ''retrieveID'' [(''category'', PStr name), (''name'', PStr v)]))
        (\<lambda>r. case r of Failed err _ \<Rightarrow> fail (Err err) | Succeeded j \<Rightarrow> ret (jstr j ''id'')))"

definition retrieveTemplateID :: "env \<Rightarrow> string \<Rightarrow> string \<Rightarrow> string op" where
  "retrieveTemplateID cs zoneid v =
     (if isID cs v then ret v
      else thenDo (invoke cs (Call ''retrieveTemplateID'' [(''zoneid'', PStr zoneid), (''name'', PStr v)]))
        (\<lambda>r. case r of Failed err _ \<Rightarrow> fail (Err err) | Succeeded j \<Rightarrow> ret (jstr j ''id'')))"

text \<open>
  Modelled from the spec: \<^verbatim>\<open>setProjectid\<close> is not among the source files. Its callers
  say: if there is a project supplied, the project id is retrieved and set in the
  parameter struct; a failed retrieval is the error of the caller.
\<close>

definition setProjectid :: "params \<Rightarrow> env \<Rightarrow> ResourceData \<Rightarrow> params op" where
  "setProjectid p cs d =
     (if GetOk d ''project''
      then thenDo (retrieveID cs ''project'' (getS d ''project''))
             (\<lambda>projectid. ret (AList.update ''projectid'' (PStr projectid) p))
      else ret p)"

text \<open>
  Modelled from the spec: the tag synchronizer (\<^verbatim>\<open>setTags\<close>, \<^verbatim>\<open>updateTags\<close>,
  \<^verbatim>\<open>tagsToMap\<close>) is not among the source files. \<^verbatim>\<open>setTags\<close> applies one create-tags call
  for the desired tags, if there are any. \<^verbatim>\<open>updateTags\<close> deletes the tags of the old
  mapping that are absent from the new one or changed in it, and creates those of the new
  mapping that are absent from the old one or changed, each by one call. An error of a
  tag call is the error of the helper; nothing is retried.
\<close>

definition setTags :: "env \<Rightarrow> string \<Rightarrow> unit op" where
  "setTags cs resourcetype =
     thenDo getD (\<lambda>d.
       if GetOk d ''tags''
       then thenDo (invoke cs (Call ''Resourcetags.CreateTags''
                [(''resourceids'', PList [ID d]), (''resourcetype'', PStr resourcetype),
                 (''tags'', PMap (getM d ''tags''))]))
              (\<lambda>r. case r of Failed err _ \<Rightarrow> fail (Err err) | Succeeded _ \<Rightarrow> ret ())
       else ret ())"

definition updateTags :: "env \<Rightarrow> string \<Rightarrow> unit op" where
  "updateTags cs resourcetype =
     thenDo getD (\<lambda>d.
       let old = (case prior d ''tags'' of VMap m \<Rightarrow> m | _ \<Rightarrow> []);
           new = getM d ''tags'';
           remove = filter (\<lambda>kv. map_of new (fst kv) \<noteq> Some (snd kv)) old;
           create = filter (\<lambda>kv. map_of old (fst kv) \<noteq> Some (snd kv)) new
       in thenDo (if remove = [] then ret ()
                  else thenDo (invoke cs (Call ''Resourcetags.DeleteTags''
                         [(''resourceids'', PList [ID d]), (''resourcetype'', PStr resourcetype),
                          (''tags'', PMap remove)]))
                       (\<lambda>r. case r of Failed err _ \<Rightarrow> fail (Err err) | Succeeded _ \<Rightarrow> ret ()))
          (\<lambda>_. if create = [] then ret ()
                else thenDo (invoke cs (Call ''Resourcetags.CreateTags''
                       [(''resourceids'', PList [ID d]), (''resourcetype'', PStr resourcetype),
                        (''tags'', PMap create)]))
                     (\<lambda>r. case r of Failed err _ \<Rightarrow> fail (Err err) | Succeeded _ \<Rightarrow> ret ())))"

definition tagsToMap :: "json list \<Rightarrow> (string \<times> string) list" where
  "tagsToMap tags = map (\<lambda>tag. (jstr tag ''key'', jstr tag ''value'')) tags"

text \<open>
  Modelled from the spec: \<^verbatim>\<open>setValueOrID\<close> is not among the source files. The read path
  writes back the name of a referenced entity when the remote API reports one, and its ID
  otherwise.
\<close>

definition setValueOrID :: "string \<Rightarrow> string \<Rightarrow> string \<Rightarrow> ResourceData \<Rightarrow> ResourceData" where
  "setValueOrID key v id' d = dSet key (VStr (if v \<noteq> [] then v else id')) d"

text \<open>
  Modelled from the spec: \<^verbatim>\<open>Retry\<close> is not among the source files. It invokes the
  operation up to \<^verbatim>\<open>maxAttempts\<close> times and returns at the first success; when every
  attempt has failed it returns the last error. The delay between attempts is not
  modelled. With no attempt at all there is no error to return.
\<close>

fun Retry_loop :: "nat \<Rightarrow> reply op \<Rightarrow> reply \<Rightarrow> reply op" where
  "Retry_loop 0 f lastErr = ret lastErr"
| "Retry_loop (Suc n) f lastErr =
     thenDo f (\<lambda>r. case r of Succeeded j \<Rightarrow> ret (Succeeded j)
                            | Failed err c \<Rightarrow> Retry_loop n f (Failed err c))"

definition Retry :: "nat \<Rightarrow> reply op \<Rightarrow> reply op" where
  "Retry n f = Retry_loop n f (Succeeded JNull)"

section \<open>resource\_cloudstack\_instance.go\<close>

text \<open>
  The parameter struct of the deploy request, up to the project: \<^verbatim>\<open>vmDetails\<close>,
  \<^verbatim>\<open>vmProperties\<close>, the name and display name, the root disk size, UEFI boot, the
  default network in an Advanced zone, the IP address, the group, the affinity and
  security groups by ID and by name.
\<close>

definition deploy_params_head :: "ResourceData \<Rightarrow> string \<Rightarrow> string \<Rightarrow> json \<Rightarrow> params" where
  "deploy_params_head d serviceofferingid templateid zone =
     (let hasName = GetOk d ''name'';
          name = getS d ''name''
      in foldl (\<lambda>p (b, k, v). setIf b k v p)
           [(''serviceofferingid'', PStr serviceofferingid), (''templateid'', PStr templateid),
            (''zoneid'', PStr (jstr zone ''id''))]
           [(True, ''startvm'', PBool (getB d ''start_vm'')),
            (GetOk d ''details'', ''details'', PMap (getM d ''details'')),
            (GetOk d ''properties'', ''properties'', PMap (getM d ''properties'')),
            (GetOk d ''nicnetworklist'', ''nicnetworklist'',
               PMaps [[(''nic'', map_get (getM d ''nicnetworklist'') ''nic''),
                       (''network'', map_get (getM d ''nicnetworklist'') ''network'')]]),
            (hasName, ''name'', PStr name),
            (GetOk d ''display_name'', ''displayname'', PStr (getS d ''display_name'')),
            (\<not> GetOk d ''display_name'' \<and> hasName, ''displayname'', PStr name),
            (GetOk d ''root_disk_size'', ''rootdisksize'', PInt (getI d ''root_disk_size'')),
            (getB d ''uefi'', ''boottype'', PStr ''UEFI''),
            (getB d ''uefi'', ''bootmode'', PStr ''Legacy''),
            (jstr zone ''networktype'' = ''Advanced'', ''networkids'', PList [getS d ''network_id'']),
            (GetOk d ''ip_address'', ''ipaddress'', PStr (getS d ''ip_address'')),
            (GetOk d ''group'', ''group'', PStr (getS d ''group'')),
            (getL d ''affinity_group_ids'' \<noteq> [], ''affinitygroupids'', PList (getL d ''affinity_group_ids'')),
            (getL d ''affinity_group_names'' \<noteq> [], ''affinitygroupnames'', PList (getL d ''affinity_group_names'')),
            (getL d ''security_group_ids'' \<noteq> [], ''securitygroupids'', PList (getL d ''security_group_ids'')),
            (getL d ''security_group_names'' \<noteq> [], ''securitygroupnames'', PList (getL d ''security_group_names''))])"

text \<open>After the project: the keypair or keypairs, the host, pod and cluster.\<close>

definition deploy_params_tail :: "ResourceData \<Rightarrow> params \<Rightarrow> params" where
  "deploy_params_tail d p =
     foldl (\<lambda>p (b, k, v). setIf b k v p) p
       [(GetOk d ''keypair'', ''keypair'', PStr (getS d ''keypair'')),
        (GetOk d ''keypairs'', ''keypairs'', PList (getL d ''keypairs'')),
        (GetOk d ''host_id'', ''hostid'', PStr (getS d ''host_id'')),
        (GetOk d ''pod_id'', ''podid'', PStr (getS d ''pod_id'')),
        (GetOk d ''cluster_id'', ''clusterid'', PStr (getS d ''cluster_id''))]"

text \<open>
  \<^verbatim>\<open>getUserData\<close> returns the user data as a base64 encoded string: the input itself when
  it decodes, its encoding otherwise. The second component is the Go error result.
\<close>

definition getUserData :: "string \<Rightarrow> string \<times> error option" where
  "getUserData userData =
     (let ud = userData;
          ud = (case DecodeString ud of None \<Rightarrow> EncodeToString userData | Some _ \<Rightarrow> ud)
      in (ud, None))"

text \<open>The fields that Read copies from the virtual machine, before it lists the root disk.\<close>

definition instance_read_vm :: "json \<Rightarrow> ResourceData \<Rightarrow> ResourceData" where
  "instance_read_vm vm d =
     (let d = dSet ''name'' (VStr (jstr vm ''name'')) d;
          d = dSet ''display_name'' (VStr (jstr vm ''displayname'')) d;
          d = dSet ''group'' (VStr (jstr vm ''group'')) d
      in if length (jarr vm ''nic'') > 0
         then (let nic0 = jarr vm ''nic'' ! 0;
                   d = dSet ''network_id'' (VStr (jstr nic0 ''networkid'')) d;
                   d = dSet ''ip_address'' (VStr (jstr nic0 ''ipaddress'')) d
               in if jstr nic0 ''ip6address'' \<noteq> []
                  then dSet ''ip6_cidr'' (VStr (jstr nic0 ''ip6cidr''))
                         (dSet ''ip6_address'' (VStr (jstr nic0 ''ip6address'')) d)
                  else d)
         else d)"

text \<open>The fields that Read sets once the root disk has been listed.\<close>

definition instance_read_rest :: "json \<Rightarrow> json \<Rightarrow> ResourceData \<Rightarrow> ResourceData" where
  "instance_read_rest vm l d =
     (let d = (if length (jarr l ''volume'') \<noteq> 1 then d
               else dSet ''root_disk_size'' (VInt (jint (jarr l ''volume'' ! 0) ''size'' div 2 ^ 30)) d);
          d = (if GetOk d ''affinity_group_ids''
               then dSet ''affinity_group_ids''
                      (VList (remdups (map (\<lambda>g. jstr g ''id'') (jarr vm ''affinitygroup'')))) d
               else d);
          d = (if GetOk d ''affinity_group_names''
               then dSet ''affinity_group_names''
                      (VList (remdups (map (\<lambda>g. jstr g ''name'') (jarr vm ''affinitygroup'')))) d
               else d);
          d = (if GetOk d ''security_group_ids''
               then dSet ''security_group_ids''
                      (VList (remdups (map (\<lambda>g. jstr g ''id'') (jarr vm ''securitygroup'')))) d
               else d);
          d = (if GetOk d ''security_group_names''
               then dSet ''security_group_names''
                      (VList (remdups (map (\<lambda>g. jstr g ''name'') (jarr vm ''securitygroup'')))) d
               else d);
          d = dSet ''tags'' (VMap (tagsToMap (jarr vm ''tags''))) d;
          d = setValueOrID ''service_offering'' (jstr vm ''serviceofferingname'') (jstr vm ''serviceofferingid'') d;
          d = setValueOrID ''template'' (jstr vm ''templatename'') (jstr vm ''templateid'') d;
          d = setValueOrID ''project'' (jstr vm ''project'') (jstr vm ''projectid'') d
      in setValueOrID ''zone'' (jstr vm ''zonename'') (jstr vm ''zoneid'') d)"

definition resourceCloudStackInstanceRead :: "env \<Rightarrow> unit op" where
  "resourceCloudStackInstanceRead cs =
     thenDo getD (\<lambda>d.
     thenDo (invoke cs (Call ''VirtualMachine.GetVirtualMachineByID''
               [(''id'', PStr (ID d)), (''project'', PStr (getS d ''project''))])) (\<lambda>r.
     case r of
       Failed err count \<Rightarrow>
         if count = 0 then modD (SetId []) else fail (Err err)
     | Succeeded vm \<Rightarrow>
         thenDo (modD (instance_read_vm vm)) (\<lambda>_.
         thenDo (invoke cs (Call ''Volume.ListVolumes''
                   [(''type'', PStr ''ROOT''), (''virtualmachineid'', PStr (ID d))])) (\<lambda>r.
         case r of
           Failed err _ \<Rightarrow> fail (Err err)
         | Succeeded l \<Rightarrow> modD (instance_read_rest vm l)))))"

text \<open>
  Create. The map of \<^verbatim>\<open>nicnetworklist\<close> is read at the keys \<^verbatim>\<open>nic\<close> and \<^verbatim>\<open>network\<close>
  with a type assertion, which panics when a key is missing. After the deploy call the
  connection info is built from \<^verbatim>\<open>r.Nic[0]\<close>, read without a length check: indexing an
  empty slice panics.
\<close>

definition resourceCloudStackInstanceCreate :: "env \<Rightarrow> unit op" where
  "resourceCloudStackInstanceCreate cs =
     thenDo getD (\<lambda>d.
     thenDo (retrieveID cs ''service_offering'' (getS d ''service_offering'')) (\<lambda>serviceofferingid.
     thenDo (retrieveID cs ''zone'' (getS d ''zone'')) (\<lambda>zoneid.
     thenDo (invoke cs (Call ''Zone.GetZoneByID'' [(''id'', PStr zoneid)])) (\<lambda>r.
     case r of
       Failed err _ \<Rightarrow> fail (Err err)
     | Succeeded zone \<Rightarrow>
     thenDo (retrieveTemplateID cs (jstr zone ''id'') (getS d ''template'')) (\<lambda>templateid.
     thenDo (if GetOk d ''nicnetworklist''
                \<and> (map_of (getM d ''nicnetworklist'') ''nic'' = None
                   \<or> map_of (getM d ''nicnetworklist'') ''network'' = None)
             then fail (Panic ''interface conversion: interface {} is nil, not string'')
             else ret (deploy_params_head d serviceofferingid templateid zone)) (\<lambda>p.
     thenDo (setProjectid p cs d) (\<lambda>p.
     thenDo (let p = deploy_params_tail d p in
             if GetOk d ''user_data''
             then (case getUserData (getS d ''user_data'') of
                     (ud, Some err) \<Rightarrow> fail err
                   | (ud, None) \<Rightarrow> ret (AList.update ''userdata'' (PStr ud) p))
             else ret p) (\<lambda>p.
     thenDo (invoke cs (Call ''VirtualMachine.DeployVirtualMachine'' p)) (\<lambda>r.
     case r of
       Failed err _ \<Rightarrow>
         fail (Err (''Error creating the new instance '' @ getS d ''name'' @ '': '' @ err))
     | Succeeded r \<Rightarrow>
     thenDo (modD (SetId (jstr r ''id''))) (\<lambda>_.
     thenDo (wrapErr (\<lambda>err. ''Error setting tags on the new instance '' @ getS d ''name''
                               @ '': '' @ err)
               (setTags cs ''userVm'')) (\<lambda>_.
     thenDo (case jarr r ''nic'' of
               [] \<Rightarrow> fail (Panic ''index out of range [0] with length 0'')
             | nic0 # _ \<Rightarrow> modD (SetConnInfo [(''host'', jstr nic0 ''ipaddress''),
                                             (''password'', jstr r ''password'')])) (\<lambda>_.
     resourceCloudStackInstanceRead cs))))))))))))"

text \<open>
  Update. The attributes that need a stopped machine are changed between a stop and a
  start call; every failed call returns at once. The steps of that block follow.
\<close>

definition update_name :: "env \<Rightarrow> ResourceData \<Rightarrow> unit op" where
  "update_name cs d =
     (if HasChange d ''name''
      then wrapErr (\<lambda>err. ''Error updating the name for instance '' @ getS d ''name'' @ '': '' @ err)
             (invoke_unit cs (Call ''VirtualMachine.UpdateVirtualMachine''
                [(''id'', PStr (ID d)), (''name'', PStr (getS d ''name''))]))
      else ret ())"

definition update_service_offering :: "env \<Rightarrow> ResourceData \<Rightarrow> unit op" where
  "update_service_offering cs d =
     (if HasChange d ''service_offering''
      then thenDo (retrieveID cs ''service_offering'' (getS d ''service_offering''))
             (\<lambda>serviceofferingid.
                wrapErr (\<lambda>err. ''Error changing the service offering for instance ''
                                @ getS d ''name'' @ '': '' @ err)
                  (invoke_unit cs (Call ''VirtualMachine.ChangeServiceForVirtualMachine''
                     [(''id'', PStr (ID d)), (''serviceofferingid'', PStr serviceofferingid)])))
      else ret ())"

definition update_affinity_group_ids :: "env \<Rightarrow> ResourceData \<Rightarrow> unit op" where
  "update_affinity_group_ids cs d =
     (if HasChange d ''affinity_group_ids''
      then wrapErr (\<lambda>err. ''Error updating the affinity groups for instance ''
                           @ getS d ''name'' @ '': '' @ err)
             (invoke_unit cs (Call ''AffinityGroup.UpdateVMAffinityGroup''
                [(''id'', PStr (ID d)), (''affinitygroupids'', PList (getL d ''affinity_group_ids''))]))
      else ret ())"

definition update_affinity_group_names :: "env \<Rightarrow> ResourceData \<Rightarrow> unit op" where
  "update_affinity_group_names cs d =
     (if HasChange d ''affinity_group_names''
      then wrapErr (\<lambda>err. ''Error updating the affinity groups for instance ''
                           @ getS d ''name'' @ '': '' @ err)
             (invoke_unit cs (Call ''AffinityGroup.UpdateVMAffinityGroup''
                [(''id'', PStr (ID d)),
                 (''affinitygroupnames'', PList (getL d ''affinity_group_names''))]))
      else ret ())"

definition update_keypairs :: "env \<Rightarrow> ResourceData \<Rightarrow> unit op" where
  "update_keypairs cs d =
     (if HasChange d ''keypair'' \<or> HasChange d ''keypairs''
      then (let p = [(''id'', PStr (ID d))];
                p = setIf (GetOk d ''keypair'') ''keypair'' (PStr (getS d ''keypair'')) p;
                p = setIf (GetOk d ''keypairs'') ''keypairs'' (PList (getL d ''keypairs'')) p
            in thenDo (setProjectid p cs d) (\<lambda>p.
                 wrapErr (\<lambda>err. ''Error changing the SSH keypair(s) for instance ''
                                 @ getS d ''name'' @ '': '' @ err)
                   (invoke_unit cs (Call ''SSH.ResetSSHKeyForVirtualMachine'' p))))
      else ret ())"

definition update_user_data :: "env \<Rightarrow> ResourceData \<Rightarrow> unit op" where
  "update_user_data cs d =
     (if HasChange d ''user_data''
      then (case getUserData (getS d ''user_data'') of
              (ud, Some err) \<Rightarrow> fail err
            | (ud, None) \<Rightarrow>
                wrapErr (\<lambda>err. ''Error updating user_data for instance '' @ getS d ''name''
                                @ '': '' @ err)
                  (invoke_unit cs (Call ''VirtualMachine.UpdateVirtualMachine''
                     [(''id'', PStr (ID d)), (''userdata'', PStr ud)])))
      else ret ())"

definition StopVirtualMachine :: "string \<Rightarrow> call" where
  "StopVirtualMachine id' = Call ''VirtualMachine.StopVirtualMachine'' [(''id'', PStr id')]"

definition StartVirtualMachine :: "string \<Rightarrow> call" where
  "StartVirtualMachine id' = Call ''VirtualMachine.StartVirtualMachine'' [(''id'', PStr id')]"

text \<open>The error of a failed start call is dropped from the message.\<close>

definition update_stopped :: "env \<Rightarrow> ResourceData \<Rightarrow> unit op" where
  "update_stopped cs d =
     thenDo (wrapErr (\<lambda>err. ''Error stopping instance '' @ getS d ''name''
                             @ '' before making changes: '' @ err)
               (invoke_unit cs (StopVirtualMachine (ID d)))) (\<lambda>_.
     thenDo (update_name cs d) (\<lambda>_.
     thenDo (update_service_offering cs d) (\<lambda>_.
     thenDo (update_affinity_group_ids cs d) (\<lambda>_.
     thenDo (update_affinity_group_names cs d) (\<lambda>_.
     thenDo (update_keypairs cs d) (\<lambda>_.
     thenDo (update_user_data cs d) (\<lambda>_.
     wrapErr (\<lambda>err. ''Error starting instance '' @ getS d ''name'' @ '' after making changes'')
       (invoke_unit cs (StartVirtualMachine (ID d))))))))))"

text \<open>
  The display name and the group are updated in place, before the block above; the tags
  after it. A change of \<^verbatim>\<open>details\<close> only fills a parameter struct that is never sent, so
  it has no step here. Update ends with Read.
\<close>

definition resourceCloudStackInstanceUpdate :: "env \<Rightarrow> unit op" where
  "resourceCloudStackInstanceUpdate cs =
     thenDo getD (\<lambda>d.
     let name = getS d ''name'' in
     thenDo (if HasChange d ''display_name''
             then wrapErr (\<lambda>err. ''Error updating the display name for instance '' @ name
                                  @ '': '' @ err)
                    (invoke_unit cs (Call ''VirtualMachine.UpdateVirtualMachine''
                       [(''id'', PStr (ID d)), (''displayname'', PStr (getS d ''display_name''))]))
             else ret ()) (\<lambda>_.
     thenDo (if HasChange d ''group''
             then wrapErr (\<lambda>err. ''Error updating the group for instance '' @ name @ '': '' @ err)
                    (invoke_unit cs (Call ''VirtualMachine.UpdateVirtualMachine''
                       [(''id'', PStr (ID d)), (''group'', PStr (getS d ''group''))]))
             else ret ()) (\<lambda>_.
     thenDo (if HasChange d ''name'' \<or> HasChange d ''service_offering''
                \<or> HasChange d ''affinity_group_ids'' \<or> HasChange d ''affinity_group_names''
                \<or> HasChange d ''keypair'' \<or> HasChange d ''keypairs'' \<or> HasChange d ''user_data''
             then update_stopped cs d
             else ret ()) (\<lambda>_.
     thenDo (if HasChange d ''tags''
             then wrapErr (\<lambda>err. ''Error updating tags on instance '' @ name @ '': '' @ err)
                    (updateTags cs ''UserVm'')
             else ret ()) (\<lambda>_.
     resourceCloudStackInstanceRead cs)))))"

text \<open>
  The three calls of the stop, change and start cycle, and the calls of a log that belong
  to it, by method name and in the order of the log.
\<close>

definition stop_cmd :: string where "stop_cmd = ''VirtualMachine.StopVirtualMachine''"
definition change_cmd :: string where "change_cmd = ''VirtualMachine.ChangeServiceForVirtualMachine''"
definition start_cmd :: string where "start_cmd = ''VirtualMachine.StartVirtualMachine''"

definition lifecycle :: "event \<Rightarrow> bool" where
  "lifecycle ev = (cmd (fst ev) \<in> {stop_cmd, change_cmd, start_cmd})"

definition lifecycle_cmds :: "event list \<Rightarrow> string list" where
  "lifecycle_cmds evs = map (cmd \<circ> fst) (filter lifecycle evs)"

definition is_failed :: "reply \<Rightarrow> bool" where
  "is_failed r = (case r of Failed _ _ \<Rightarrow> True | Succeeded _ \<Rightarrow> False)"

text \<open>
  Delete. The remote message that the ID no longer exists counts as success.
\<close>

definition resourceCloudStackInstanceDelete :: "env \<Rightarrow> unit op" where
  "resourceCloudStackInstanceDelete cs =
     thenDo getD (\<lambda>d.
     let p = setIf (getB d ''expunge'') ''expunge'' (PBool True) [(''id'', PStr (ID d))] in
     thenDo (invoke cs (Call ''VirtualMachine.DestroyVirtualMachine'' p)) (\<lambda>r.
     case r of
       Failed err _ \<Rightarrow>
         if strings_Contains err (not_found_msg (ID d)) then ret ()
         else fail (Err (''Error destroying instance: '' @ err))
     | Succeeded _ \<Rightarrow> ret ()))"

section \<open>resource\_cloudstack\_disk.go\<close>

definition GetVolumeByID :: "ResourceData \<Rightarrow> call" where
  "GetVolumeByID d =
     Call ''Volume.GetVolumeByID'' [(''id'', PStr (ID d)), (''project'', PStr (getS d ''project''))]"

definition DetachVolume :: "string \<Rightarrow> call" where
  "DetachVolume id' = Call ''Volume.DetachVolume'' [(''id'', PStr id')]"

definition isAttached :: "env \<Rightarrow> bool op" where
  "isAttached cs =
     thenDo getD (\<lambda>d.
     thenDo (invoke cs (GetVolumeByID d)) (\<lambda>r.
     case r of
       Failed err _ \<Rightarrow> fail (Err err)
     | Succeeded v \<Rightarrow> ret (jstr v ''virtualmachineid'' \<noteq> [])))"

definition resourceCloudStackDiskRead :: "env \<Rightarrow> unit op" where
  "resourceCloudStackDiskRead cs =
     thenDo getD (\<lambda>d.
     thenDo (invoke cs (GetVolumeByID d)) (\<lambda>r.
     case r of
       Failed err count \<Rightarrow>
         if count = 0 then modD (SetId []) else fail (Err err)
     | Succeeded v \<Rightarrow>
         modD (\<lambda>d.
           let d = dSet ''name'' (VStr (jstr v ''name'')) d;
               d = dSet ''attach'' (VBool (jstr v ''virtualmachineid'' \<noteq> [])) d;
               d = dSet ''size'' (VInt (jint v ''size'' sdiv (1024 * 1024 * 1024))) d;
               d = dSet ''tags'' (VMap (tagsToMap (jarr v ''tags''))) d;
               d = setValueOrID ''disk_offering'' (jstr v ''diskofferingname'') (jstr v ''diskofferingid'') d;
               d = setValueOrID ''project'' (jstr v ''project'') (jstr v ''projectid'') d;
               d = setValueOrID ''zone'' (jstr v ''zonename'') (jstr v ''zoneid'') d
           in if jstr v ''virtualmachineid'' \<noteq> []
              then dSet ''virtual_machine_id'' (VStr (jstr v ''virtualmachineid''))
                     (dSet ''device_id'' (VInt (jint v ''deviceid'')) d)
              else d)))"

text \<open>
  Attach, when a virtual machine is given and the volume is not attached yet: the attach
  call is retried up to ten times, and the ID of its response replaces the ID.
\<close>

definition resourceCloudStackDiskAttach :: "env \<Rightarrow> unit op" where
  "resourceCloudStackDiskAttach cs =
     thenDo getD (\<lambda>d.
     if GetOk d ''virtual_machine_id''
     then thenDo (isAttached cs) (\<lambda>attached.
            if attached then ret ()
            else (let p = setIf (GetOk d ''device_id'') ''deviceid'' (PInt (getI d ''device_id''))
                            [(''id'', PStr (ID d)),
                             (''virtualmachineid'', PStr (getS d ''virtual_machine_id''))]
                  in thenDo (Retry 10 (invoke cs (Call ''Volume.AttachVolume'' p))) (\<lambda>r.
                     case r of
                       Failed err _ \<Rightarrow> fail (Err (''Error attaching volume to VM: '' @ err))
                     | Succeeded r \<Rightarrow> modD (SetId (jstr r ''id'')))))
     else ret ())"

text \<open>
  Detach. When the detach call fails and a virtual machine is known, the machine is
  stopped, the detach call is repeated and the machine is started again; each of the three
  returns its own error. The function ends with \<^verbatim>\<open>return err\<close>, where \<^verbatim>\<open>err\<close> is the
  variable of the first detach call: the errors of the three later calls live in
  variables of their own \<^verbatim>\<open>if\<close> statements.
\<close>

definition resourceCloudStackDiskDetach :: "env \<Rightarrow> unit op" where
  "resourceCloudStackDiskDetach cs =
     thenDo (isAttached cs) (\<lambda>attached.
     if \<not> attached then ret ()
     else
       thenDo getD (\<lambda>d.
       let p = DetachVolume (ID d) in
       thenDo (invoke cs p) (\<lambda>r.
       case r of
         Succeeded _ \<Rightarrow> ret ()
       | Failed err _ \<Rightarrow>
           thenDo (if GetOk d ''virtual_machine_id''
                   then thenDo (invoke_unit cs (StopVirtualMachine (getS d ''virtual_machine_id''))) (\<lambda>_.
                        thenDo (invoke_unit cs p) (\<lambda>_.
                        invoke_unit cs (StartVirtualMachine (getS d ''virtual_machine_id''))))
                   else ret ()) (\<lambda>_.
           fail (Err err)))))"

definition resourceCloudStackDiskCreate :: "env \<Rightarrow> unit op" where
  "resourceCloudStackDiskCreate cs =
     thenDo getD (\<lambda>d.
     let name = getS d ''name'';
         p = [(''name'', PStr name)] in
     thenDo (retrieveID cs ''disk_offering'' (getS d ''disk_offering'')) (\<lambda>diskofferingid.
     let p = AList.update ''diskofferingid'' (PStr diskofferingid) p;
         p = setIf (getI d ''size'' \<noteq> 0) ''size'' (PInt (getI d ''size'')) p in
     thenDo (setProjectid p cs d) (\<lambda>p.
     thenDo (retrieveID cs ''zone'' (getS d ''zone'')) (\<lambda>zoneid.
     let p = AList.update ''zoneid'' (PStr zoneid) p in
     thenDo (invoke cs (Call ''Volume.CreateVolume'' p)) (\<lambda>r.
     case r of
       Failed err _ \<Rightarrow> fail (Err (''Error creating the new disk '' @ name @ '': '' @ err))
     | Succeeded r \<Rightarrow>
     thenDo (modD (SetId (jstr r ''id''))) (\<lambda>_.
     thenDo (wrapErr (\<lambda>err. ''Error setting tags on the new disk '' @ name @ '': '' @ err)
               (setTags cs ''Volume'')) (\<lambda>_.
     thenDo (if getB d ''attach''
             then wrapErr (\<lambda>err. ''Error attaching the new disk '' @ name
                                  @ '' to virtual machine: '' @ err)
                    (resourceCloudStackDiskAttach cs)
             else ret ()) (\<lambda>_.
     resourceCloudStackDiskRead cs))))))))"

text \<open>Delete detaches first; the error of the delete call is returned as it is.\<close>

definition resourceCloudStackDiskDelete :: "env \<Rightarrow> unit op" where
  "resourceCloudStackDiskDelete cs =
     thenDo (resourceCloudStackDiskDetach cs) (\<lambda>_.
     thenDo getD (\<lambda>d.
     thenDo (invoke cs (Call ''Volume.DeleteVolume'' [(''id'', PStr (ID d))])) (\<lambda>r.
     case r of
       Failed err _ \<Rightarrow>
         if strings_Contains err (not_found_msg (ID d)) then ret () else fail (Err err)
     | Succeeded _ \<Rightarrow> ret ())))"

section \<open>resource\_cloudstack\_network.go\<close>

definition none :: string where
  "none = ''none''"

text \<open>
  \<^verbatim>\<open>parseCIDR\<close>. The bytes of the mask and of the masked address are Go bytes:
  \<^verbatim>\<open>sub[3]+1\<close>, \<^verbatim>\<open>sub[3]+2\<close> and \<^verbatim>\<open>sub[i]+(0xff-msk[i])\<close> wrap around at 256, and nothing
  is carried from one byte to the next.
\<close>

definition parseCIDR :: "ResourceData \<Rightarrow> bool \<Rightarrow> error + (string \<rightharpoonup> string)" where
  "parseCIDR d specifyiprange =
     (let cidr = getS d ''cidr'' in
      case net_ParseCIDR cidr of
        None \<Rightarrow> Inl (Err (''Unable to parse cidr '' @ cidr @ '': invalid CIDR address: '' @ cidr))
      | Some (ip, msk) \<Rightarrow>
          (let sub = IP_Mask ip msk;
               m = [''netmask'' \<mapsto> Sprintf_dotted (msk ! 0) (msk ! 1) (msk ! 2) (msk ! 3)];
               m = (if GetOk d ''gateway'' then m(''gateway'' \<mapsto> getS d ''gateway'')
                    else m(''gateway'' \<mapsto>
                           Sprintf_dotted (sub ! 0) (sub ! 1) (sub ! 2) (sub ! 3 + 1)));
               m = (if GetOk d ''startip'' then m(''startip'' \<mapsto> getS d ''startip'')
                    else if specifyiprange
                    then m(''startip'' \<mapsto>
                           Sprintf_dotted (sub ! 0) (sub ! 1) (sub ! 2) (sub ! 3 + 2))
                    else m);
               m = (if GetOk d ''endip'' then m(''endip'' \<mapsto> getS d ''endip'')
                    else if specifyiprange
                    then m(''endip'' \<mapsto>
                           Sprintf_dotted (sub ! 0 + (0xff - msk ! 0)) (sub ! 1 + (0xff - msk ! 1))
                             (sub ! 2 + (0xff - msk ! 2)) (sub ! 3 + (0xff - msk ! 3 - 1)))
                    else m)
           in Inr m))"

text \<open>\<^verbatim>\<open>strconv.Itoa\<close>.\<close>

definition Itoa :: "int \<Rightarrow> string" where
  "Itoa i = (if i < 0 then ''-'' @ itoa (nat (- i)) else itoa (nat i))"

definition resourceCloudStackNetworkRead :: "env \<Rightarrow> unit op" where
  "resourceCloudStackNetworkRead cs =
     thenDo getD (\<lambda>d.
     thenDo (invoke cs (Call ''Network.GetNetworkByID''
               [(''id'', PStr (ID d)), (''project'', PStr (getS d ''project''))])) (\<lambda>r.
     case r of
       Failed err count \<Rightarrow>
         if count = 0 then modD (SetId []) else fail (Err err)
     | Succeeded n \<Rightarrow>
         thenDo (modD (\<lambda>d.
           let d = dSet ''name'' (VStr (jstr n ''name'')) d;
               d = dSet ''display_text'' (VStr (jstr n ''displaytext'')) d;
               d = dSet ''cidr'' (VStr (jstr n ''cidr'')) d;
               d = dSet ''gateway'' (VStr (jstr n ''gateway'')) d;
               d = dSet ''network_domain'' (VStr (jstr n ''networkdomain'')) d;
               d = dSet ''vpc_id'' (VStr (jstr n ''vpcid'')) d;
               d = dSet ''acl_id'' (VStr (if jstr n ''aclid'' = [] then none else jstr n ''aclid'')) d;
               d = dSet ''tags'' (VMap (tagsToMap (jarr n ''tags''))) d;
               d = setValueOrID ''network_offering'' (jstr n ''networkofferingname'')
                     (jstr n ''networkofferingid'') d;
               d = setValueOrID ''project'' (jstr n ''project'') (jstr n ''projectid'') d
           in setValueOrID ''zone'' (jstr n ''zonename'') (jstr n ''zoneid'') d)) (\<lambda>_.
         thenDo getD (\<lambda>d.
         if getB d ''source_nat_ip''
         then thenDo (invoke cs (Call ''Address.GetPublicIpAddressByID''
                        [(''id'', PStr (getS d ''source_nat_ip_id'')),
                         (''project'', PStr (getS d ''project''))])) (\<lambda>r.
              case r of
                Failed err count \<Rightarrow>
                  if count = 0
                  then modD (\<lambda>d. dSet ''source_nat_ip_id'' (VStr [])
                                    (dSet ''source_nat_ip'' (VBool False) d))
                  else fail (Err err)
              | Succeeded ip \<Rightarrow>
                  if jstr n ''id'' \<noteq> jstr ip ''associatednetworkid''
                  then modD (\<lambda>d. dSet ''source_nat_ip_id'' (VStr [])
                                    (dSet ''source_nat_ip'' (VBool False) d))
                  else ret ())
         else ret ()))))"

definition network_create_params ::
  "ResourceData \<Rightarrow> string \<Rightarrow> string \<Rightarrow> (string \<rightharpoonup> string) \<Rightarrow> params" where
  "network_create_params d networkofferingid zoneid m =
     (let name = getS d ''name''
      in foldl (\<lambda>p (b, k, v). setIf b k v p)
           [(''name'', PStr name), (''networkofferingid'', PStr networkofferingid),
            (''zoneid'', PStr zoneid)]
           [(True, ''displaytext'',
               PStr (if GetOk d ''display_text'' then getS d ''display_text'' else name)),
            (True, ''gateway'', PStr (case m ''gateway'' of Some v \<Rightarrow> v | None \<Rightarrow> [])),
            (True, ''netmask'', PStr (case m ''netmask'' of Some v \<Rightarrow> v | None \<Rightarrow> [])),
            (m ''startip'' \<noteq> None, ''startip'', PStr (case m ''startip'' of Some v \<Rightarrow> v | None \<Rightarrow> [])),
            (m ''endip'' \<noteq> None, ''endip'', PStr (case m ''endip'' of Some v \<Rightarrow> v | None \<Rightarrow> [])),
            (GetOk d ''network_domain'', ''networkdomain'', PStr (getS d ''network_domain'')),
            (GetOk d ''vlan'', ''vlan'', PStr (Itoa (getI d ''vlan''))),
            (True, ''bypassvlanoverlapcheck'', PBool (getB d ''bypass_vlan_check'')),
            (GetOk d ''vpc_id'', ''vpcid'', PStr (getS d ''vpc_id'')),
            (GetOk d ''vpc_id'' \<and> GetOk d ''acl_id'' \<and> getS d ''acl_id'' \<noteq> none,
               ''aclid'', PStr (getS d ''acl_id''))])"

definition resourceCloudStackNetworkCreate :: "env \<Rightarrow> unit op" where
  "resourceCloudStackNetworkCreate cs =
     thenDo getD (\<lambda>d.
     let name = getS d ''name'' in
     thenDo (retrieveID cs ''network_offering'' (getS d ''network_offering'')) (\<lambda>networkofferingid.
     thenDo (retrieveID cs ''zone'' (getS d ''zone'')) (\<lambda>zoneid.
     thenDo (invoke cs (Call ''NetworkOffering.GetNetworkOfferingByID''
               [(''id'', PStr networkofferingid)])) (\<lambda>r.
     case r of
       Failed err _ \<Rightarrow> fail (Err err)
     | Succeeded no \<Rightarrow>
     (case parseCIDR d (jbool no ''specifyipranges'') of
        Inl err \<Rightarrow> fail err
      | Inr m \<Rightarrow>
     thenDo (setProjectid (network_create_params d networkofferingid zoneid m) cs d) (\<lambda>p.
     thenDo (invoke cs (Call ''Network.CreateNetwork'' p)) (\<lambda>r.
     case r of
       Failed err _ \<Rightarrow> fail (Err (''Error creating network '' @ name @ '': '' @ err))
     | Succeeded r \<Rightarrow>
     thenDo (modD (SetId (jstr r ''id''))) (\<lambda>_.
     thenDo (wrapErr (\<lambda>err. ''Error setting tags: '' @ err) (setTags cs ''network'')) (\<lambda>_.
     thenDo (if getB d ''source_nat_ip''
             then (let p = setIf (GetOk d ''vpc_id'') ''vpcid'' (PStr (getS d ''vpc_id''))
                             [(''networkid'', PStr (jstr r ''id'')), (''zoneid'', PStr zoneid)]
                   in thenDo (setProjectid p cs d) (\<lambda>p.
                      thenDo (invoke cs (Call ''Address.AssociateIpAddress'' p)) (\<lambda>r.
                      case r of
                        Failed err _ \<Rightarrow>
                          fail (Err (''Error associating a new IP address: '' @ err))
                      | Succeeded ip \<Rightarrow>
                          modD (\<lambda>d. dSet ''source_nat_ip_id'' (VStr (jstr ip ''id''))
                                   (dSet ''source_nat_ip_address'' (VStr (jstr ip ''ipaddress'')) d)))))
             else ret ()) (\<lambda>_.
     resourceCloudStackNetworkRead cs))))))))))"

definition resourceCloudStackNetworkDelete :: "env \<Rightarrow> unit op" where
  "resourceCloudStackNetworkDelete cs =
     thenDo getD (\<lambda>d.
     thenDo (invoke cs (Call ''Network.DeleteNetwork'' [(''id'', PStr (ID d))])) (\<lambda>r.
     case r of
       Failed err _ \<Rightarrow>
         if strings_Contains err (not_found_msg (ID d)) then ret ()
         else fail (Err (''Error deleting network '' @ getS d ''name'' @ '': '' @ err))
     | Succeeded _ \<Rightarrow> ret ()))"

section \<open>resource\_cloudstack\_vpc.go\<close>

text \<open>
  Read takes the first public IP address of the list when the response counts one: an
  index into the list, which panics should the list be empty.
\<close>

definition resourceCloudStackVPCRead :: "env \<Rightarrow> unit op" where
  "resourceCloudStackVPCRead cs =
     thenDo getD (\<lambda>d.
     thenDo (invoke cs (Call ''VPC.GetVPCByID''
               [(''id'', PStr (ID d)), (''project'', PStr (getS d ''project''))])) (\<lambda>r.
     case r of
       Failed err count \<Rightarrow>
         if count = 0 then modD (SetId []) else fail (Err err)
     | Succeeded v \<Rightarrow>
         thenDo (modD (\<lambda>d.
           let d = dSet ''name'' (VStr (jstr v ''name'')) d;
               d = dSet ''display_text'' (VStr (jstr v ''displaytext'')) d;
               d = dSet ''cidr'' (VStr (jstr v ''cidr'')) d;
               d = dSet ''network_domain'' (VStr (jstr v ''networkdomain'')) d
           in dSet ''tags'' (VMap (tagsToMap (jarr v ''tags''))) d)) (\<lambda>_.
         thenDo (invoke cs (Call ''VPC.GetVPCOfferingByID''
                   [(''id'', PStr (jstr v ''vpcofferingid''))])) (\<lambda>r.
         case r of
           Failed err _ \<Rightarrow> fail (Err err)
         | Succeeded offering \<Rightarrow>
         thenDo (modD (\<lambda>d.
           let d = setValueOrID ''vpc_offering'' (jstr offering ''name'') (jstr v ''vpcofferingid'') d;
               d = setValueOrID ''project'' (jstr v ''project'') (jstr v ''projectid'') d
           in setValueOrID ''zone'' (jstr v ''zonename'') (jstr v ''zoneid'') d)) (\<lambda>_.
         thenDo getD (\<lambda>d.
         thenDo (setProjectid [(''vpcid'', PStr (ID d)), (''issourcenat'', PBool True)] cs d) (\<lambda>p.
         thenDo (invoke cs (Call ''Address.ListPublicIpAddresses'' p)) (\<lambda>r.
         case r of
           Failed err _ \<Rightarrow> fail (Err err)
         | Succeeded l \<Rightarrow>
             if jint l ''count'' = 1
             then (case jarr l ''publicipaddress'' of
                     [] \<Rightarrow> fail (Panic ''index out of range [0] with length 0'')
                   | ip0 # _ \<Rightarrow> modD (dSet ''source_nat_ip'' (VStr (jstr ip0 ''ipaddress''))))
             else ret ()))))))))"

definition resourceCloudStackVPCCreate :: "env \<Rightarrow> unit op" where
  "resourceCloudStackVPCCreate cs =
     thenDo getD (\<lambda>d.
     let name = getS d ''name'' in
     thenDo (retrieveID cs ''vpc_offering'' (getS d ''vpc_offering'')) (\<lambda>vpcofferingid.
     thenDo (retrieveID cs ''zone'' (getS d ''zone'')) (\<lambda>zoneid.
     let displaytext = (if GetOk d ''display_text'' then getS d ''display_text'' else name);
         p = [(''displaytext'', PStr displaytext), (''name'', PStr name),
              (''vpcofferingid'', PStr vpcofferingid), (''zoneid'', PStr zoneid)];
         p = AList.update ''cidr'' (PStr (getS d ''cidr'')) p;
         p = setIf (GetOk d ''network_domain'') ''networkdomain'' (PStr (getS d ''network_domain'')) p in
     thenDo (setProjectid p cs d) (\<lambda>p.
     thenDo (invoke cs (Call ''VPC.CreateVPC'' p)) (\<lambda>r.
     case r of
       Failed err _ \<Rightarrow> fail (Err (''Error creating VPC '' @ name @ '': '' @ err))
     | Succeeded r \<Rightarrow>
     thenDo (modD (SetId (jstr r ''id''))) (\<lambda>_.
     thenDo (wrapErr (\<lambda>err. ''Error setting tags on the VPC: '' @ err) (setTags cs ''Vpc'')) (\<lambda>_.
     resourceCloudStackVPCRead cs)))))))"

definition resourceCloudStackVPCDelete :: "env \<Rightarrow> unit op" where
  "resourceCloudStackVPCDelete cs =
     thenDo getD (\<lambda>d.
     thenDo (invoke cs (Call ''VPC.DeleteVPC'' [(''id'', PStr (ID d))])) (\<lambda>r.
     case r of
       Failed err _ \<Rightarrow>
         if strings_Contains err (not_found_msg (ID d)) then ret ()
         else fail (Err (''Error deleting VPC '' @ getS d ''name'' @ '': '' @ err))
     | Succeeded _ \<Rightarrow> ret ()))"

section \<open>Private gateway\<close>

text \<open>\<^verbatim>\<open>strings.Replace(s, old, "", -1)\<close> for a non-empty \<^verbatim>\<open>old\<close>.\<close>

fun strings_Remove :: "string \<Rightarrow> string \<Rightarrow> string" where
  "strings_Remove old [] = []"
| "strings_Remove old (c # s) =
     (if old \<noteq> [] \<and> prefix old (c # s)
      then strings_Remove old (drop (length old - 1) s)
      else c # strings_Remove old s)"

definition resourceCloudStackPrivateGatewayRead :: "env \<Rightarrow> unit op" where
  "resourceCloudStackPrivateGatewayRead cs =
     thenDo getD (\<lambda>d.
     thenDo (invoke cs (Call ''VPC.GetPrivateGatewayByID'' [(''id'', PStr (ID d))])) (\<lambda>r.
     case r of
       Failed err count \<Rightarrow>
         if count = 0 then modD (SetId []) else fail (Err err)
     | Succeeded gw \<Rightarrow>
         modD (\<lambda>d.
           let d = dSet ''gateway'' (VStr (jstr gw ''gateway'')) d;
               d = dSet ''ip_address'' (VStr (jstr gw ''ipaddress'')) d;
               d = dSet ''netmask'' (VStr (jstr gw ''netmask'')) d;
               d = dSet ''vlan'' (VStr (strings_Remove ''vlan://'' (jstr gw ''vlan''))) d;
               d = dSet ''acl_id'' (VStr (jstr gw ''aclid'')) d
           in dSet ''vpc_id'' (VStr (jstr gw ''vpcid'')) d)))"

definition resourceCloudStackPrivateGatewayCreate :: "env \<Rightarrow> unit op" where
  "resourceCloudStackPrivateGatewayCreate cs =
     thenDo getD (\<lambda>d.
     let ipaddress = getS d ''ip_address'';
         networkofferingid = getS d ''network_offering'';
         p = [(''gateway'', PStr (getS d ''gateway'')), (''ipaddress'', PStr ipaddress),
              (''netmask'', PStr (getS d ''netmask'')), (''vpcid'', PStr (getS d ''vpc_id''))];
         p = AList.update ''vlan'' (PStr (getS d ''vlan'')) p;
         p = AList.update ''bypassvlanoverlapcheck'' (PBool (getB d ''bypass_vlan_check'')) p in
     thenDo (if networkofferingid \<noteq> []
             then thenDo (retrieveID cs ''network_offering'' networkofferingid)
                    (\<lambda>networkofferingid.
                       ret (AList.update ''networkofferingid'' (PStr networkofferingid) p))
             else ret p) (\<lambda>p.
     let p = setIf (GetOk d ''acl_id'') ''aclid'' (PStr (getS d ''acl_id'')) p in
     thenDo (invoke cs (Call ''VPC.CreatePrivateGateway'' p)) (\<lambda>r.
     case r of
       Failed err _ \<Rightarrow>
         fail (Err (''Error creating private gateway for '' @ ipaddress @ '': '' @ err))
     | Succeeded r \<Rightarrow>
     thenDo (modD (SetId (jstr r ''id''))) (\<lambda>_.
     resourceCloudStackPrivateGatewayRead cs))))"

text \<open>The fields of the schema of the private gateway.\<close>

definition privateGateway_fields :: "string list" where
  "privateGateway_fields =
     [''gateway'', ''ip_address'', ''netmask'', ''vlan'', ''physical_network_id'',
      ''network_offering'', ''acl_id'', ''vpc_id'', ''bypass_vlan_check'']"

text \<open>
  Update replaces the ACL when its ID has changed, and ends with
  \<^verbatim>\<open>resourceCloudStackNetworkRead(d, meta)\<close>, the Read of the network, on the data of the
  private gateway. That Read starts by evaluating \<^verbatim>\<open>d.Get("project").(string)\<close>, an
  argument of \<^verbatim>\<open>GetNetworkByID\<close>, before the call is made.
\<close>

definition resourceCloudStackPrivateGatewayUpdate :: "env \<Rightarrow> unit op" where
  "resourceCloudStackPrivateGatewayUpdate cs =
     thenDo getD (\<lambda>d.
     thenDo (if HasChange d ''acl_id''
             then wrapErr (\<lambda>err. ''Error replacing ACL: '' @ err)
                    (invoke_unit cs (Call ''NetworkACL.ReplaceNetworkACLList''
                       [(''aclid'', PStr (getS d ''acl_id'')), (''networkid'', PStr (ID d))]))
             else ret ()) (\<lambda>_.
     thenDo (Get_string privateGateway_fields ''project'') (\<lambda>_.
     resourceCloudStackNetworkRead cs)))"

definition resourceCloudStackPrivateGatewayDelete :: "env \<Rightarrow> unit op" where
  "resourceCloudStackPrivateGatewayDelete cs =
     thenDo getD (\<lambda>d.
     thenDo (invoke cs (Call ''VPC.DeletePrivateGateway'' [(''id'', PStr (ID d))])) (\<lambda>r.
     case r of
       Failed err _ \<Rightarrow>
         if strings_Contains err (not_found_msg (ID d)) then ret ()
         else fail (Err (''Error deleting private gateway '' @ ID d @ '': '' @ err))
     | Succeeded _ \<Rightarrow> ret ()))"

section \<open>Network ACL list\<close>

definition resourceCloudStackNetworkACLRead :: "env \<Rightarrow> unit op" where
  "resourceCloudStackNetworkACLRead cs =
     thenDo getD (\<lambda>d.
     thenDo (invoke cs (Call ''NetworkACL.GetNetworkACLListByID''
               [(''id'', PStr (ID d)), (''project'', PStr (getS d ''project''))])) (\<lambda>r.
     case r of
       Failed err count \<Rightarrow>
         if count = 0 then modD (SetId []) else fail (Err err)
     | Succeeded f \<Rightarrow>
         modD (\<lambda>d.
           let d = dSet ''name'' (VStr (jstr f ''name'')) d;
               d = dSet ''description'' (VStr (jstr f ''description'')) d
           in dSet ''vpc_id'' (VStr (jstr f ''vpcid'')) d)))"

definition resourceCloudStackNetworkACLCreate :: "env \<Rightarrow> unit op" where
  "resourceCloudStackNetworkACLCreate cs =
     thenDo getD (\<lambda>d.
     let name = getS d ''name'';
         p = [(''name'', PStr name), (''vpcid'', PStr (getS d ''vpc_id''))];
         p = AList.update ''description''
               (PStr (if GetOk d ''description'' then getS d ''description'' else name)) p in
     thenDo (invoke cs (Call ''NetworkACL.CreateNetworkACLList'' p)) (\<lambda>r.
     case r of
       Failed err _ \<Rightarrow> fail (Err (''Error creating network ACL list '' @ name @ '': '' @ err))
     | Succeeded r \<Rightarrow>
     thenDo (modD (SetId (jstr r ''id''))) (\<lambda>_.
     resourceCloudStackNetworkACLRead cs)))"

text \<open>The delete call runs inside \<^verbatim>\<open>Retry(3, ...)\<close>.\<close>

definition resourceCloudStackNetworkACLDelete :: "env \<Rightarrow> unit op" where
  "resourceCloudStackNetworkACLDelete cs =
     thenDo getD (\<lambda>d.
     thenDo (Retry 3 (invoke cs (Call ''NetworkACL.DeleteNetworkACLList'' [(''id'', PStr (ID d))]))) (\<lambda>r.
     case r of
       Failed err _ \<Rightarrow>
         if strings_Contains err (not_found_msg (ID d)) then ret ()
         else fail (Err (''Error deleting network ACL list '' @ getS d ''name'' @ '': '' @ err))
     | Succeeded _ \<Rightarrow> ret ()))"

section \<open>VPN customer gateway\<close>

definition resourceCloudStackVPNCustomerGatewayRead :: "env \<Rightarrow> unit op" where
  "resourceCloudStackVPNCustomerGatewayRead cs =
     thenDo getD (\<lambda>d.
     thenDo (invoke cs (Call ''VPN.GetVpnCustomerGatewayByID'' [(''id'', PStr (ID d))])) (\<lambda>r.
     case r of
       Failed err count \<Rightarrow>
         if count = 0 then modD (SetId []) else fail (Err err)
     | Succeeded v \<Rightarrow>
         modD (\<lambda>d.
           let d = dSet ''name'' (VStr (jstr v ''name'')) d;
               d = dSet ''cidr'' (VStr (jstr v ''cidrlist'')) d;
               d = dSet ''esp_policy'' (VStr (jstr v ''esppolicy'')) d;
               d = dSet ''gateway'' (VStr (jstr v ''gateway'')) d;
               d = dSet ''ike_policy'' (VStr (jstr v ''ikepolicy'')) d;
               d = dSet ''ipsec_psk'' (VStr (jstr v ''ipsecpsk'')) d;
               d = dSet ''dpd'' (VBool (jbool v ''dpd'')) d;
               d = dSet ''esp_lifetime'' (VInt (jint v ''esplifetime'')) d;
               d = dSet ''ike_lifetime'' (VInt (jint v ''ikelifetime'')) d
           in setValueOrID ''project'' (jstr v ''project'') (jstr v ''projectid'') d)))"

definition resourceCloudStackVPNCustomerGatewayCreate :: "env \<Rightarrow> unit op" where
  "resourceCloudStackVPNCustomerGatewayCreate cs =
     thenDo getD (\<lambda>d.
     let p = [(''cidrlist'', PStr (getS d ''cidr'')), (''esppolicy'', PStr (getS d ''esp_policy'')),
              (''gateway'', PStr (getS d ''gateway'')), (''ikepolicy'', PStr (getS d ''ike_policy'')),
              (''ipsecpsk'', PStr (getS d ''ipsec_psk''))];
         p = AList.update ''name'' (PStr (getS d ''name'')) p;
         p = setIf (GetOk d ''dpd'') ''dpd'' (PBool (getB d ''dpd'')) p;
         p = setIf (GetOk d ''esp_lifetime'') ''esplifetime'' (PInt (getI d ''esp_lifetime'')) p;
         p = setIf (GetOk d ''ike_lifetime'') ''ikelifetime'' (PInt (getI d ''ike_lifetime'')) p in
     thenDo (setProjectid p cs d) (\<lambda>p.
     thenDo (invoke cs (Call ''VPN.CreateVpnCustomerGateway'' p)) (\<lambda>r.
     case r of
       Failed err _ \<Rightarrow>
         fail (Err (''Error creating VPN Customer Gateway '' @ getS d ''name'' @ '': '' @ err))
     | Succeeded v \<Rightarrow>
     thenDo (modD (SetId (jstr v ''id''))) (\<lambda>_.
     resourceCloudStackVPNCustomerGatewayRead cs))))"

definition resourceCloudStackVPNCustomerGatewayDelete :: "env \<Rightarrow> unit op" where
  "resourceCloudStackVPNCustomerGatewayDelete cs =
     thenDo getD (\<lambda>d.
     thenDo (invoke cs (Call ''VPN.DeleteVpnCustomerGateway'' [(''id'', PStr (ID d))])) (\<lambda>r.
     case r of
       Failed err _ \<Rightarrow>
         if strings_Contains err (not_found_msg (ID d)) then ret ()
         else fail (Err (''Error deleting VPN Customer Gateway '' @ getS d ''name'' @ '': '' @ err))
     | Succeeded _ \<Rightarrow> ret ()))"

section \<open>resource\_cloudstack\_affinity\_group.go\<close>

definition resourceCloudStackAffinityGroupRead :: "env \<Rightarrow> unit op" where
  "resourceCloudStackAffinityGroupRead cs =
     thenDo getD (\<lambda>d.
     thenDo (invoke cs (Call ''AffinityGroup.GetAffinityGroupByID''
               [(''id'', PStr (ID d)), (''project'', PStr (getS d ''project''))])) (\<lambda>r.
     case r of
       Failed err count \<Rightarrow>
         if count = 0 then modD (SetId []) else fail (Err err)
     | Succeeded ag \<Rightarrow>
         modD (\<lambda>d.
           let d = dSet ''name'' (VStr (jstr ag ''name'')) d;
               d = dSet ''description'' (VStr (jstr ag ''description'')) d
           in dSet ''type'' (VStr (jstr ag ''type'')) d)))"

text \<open>The error of the create call is returned as it is.\<close>

definition resourceCloudStackAffinityGroupCreate :: "env \<Rightarrow> unit op" where
  "resourceCloudStackAffinityGroupCreate cs =
     thenDo getD (\<lambda>d.
     let name = getS d ''name'';
         p = [(''name'', PStr name), (''type'', PStr (getS d ''type''))];
         p = AList.update ''description''
               (PStr (if GetOk d ''description'' then getS d ''description'' else name)) p in
     thenDo (setProjectid p cs d) (\<lambda>p.
     thenDo (invoke cs (Call ''AffinityGroup.CreateAffinityGroup'' p)) (\<lambda>r.
     case r of
       Failed err _ \<Rightarrow> fail (Err err)
     | Succeeded r \<Rightarrow>
     thenDo (modD (SetId (jstr r ''id''))) (\<lambda>_.
     resourceCloudStackAffinityGroupRead cs))))"

section \<open>resource\_cloudstack\_security\_group.go\<close>

definition resourceCloudStackSecurityGroupRead :: "env \<Rightarrow> unit op" where
  "resourceCloudStackSecurityGroupRead cs =
     thenDo getD (\<lambda>d.
     thenDo (invoke cs (Call ''SecurityGroup.GetSecurityGroupByID''
               [(''id'', PStr (ID d)), (''project'', PStr (getS d ''project''))])) (\<lambda>r.
     case r of
       Failed err count \<Rightarrow>
         if count = 0 then modD (SetId []) else fail (Err err)
     | Succeeded sg \<Rightarrow>
         modD (\<lambda>d.
           let d = dSet ''name'' (VStr (jstr sg ''name'')) d;
               d = dSet ''description'' (VStr (jstr sg ''description'')) d
           in setValueOrID ''project'' (jstr sg ''project'') (jstr sg ''projectid'') d)))"

definition resourceCloudStackSecurityGroupCreate :: "env \<Rightarrow> unit op" where
  "resourceCloudStackSecurityGroupCreate cs =
     thenDo getD (\<lambda>d.
     let name = getS d ''name'';
         p = [(''name'', PStr name)];
         p = AList.update ''description''
               (PStr (if GetOk d ''description'' then getS d ''description'' else name)) p in
     thenDo (setProjectid p cs d) (\<lambda>p.
     thenDo (invoke cs (Call ''SecurityGroup.CreateSecurityGroup'' p)) (\<lambda>r.
     case r of
       Failed err _ \<Rightarrow> fail (Err (''Error creating security group '' @ name @ '': '' @ err))
     | Succeeded r \<Rightarrow>
     thenDo (modD (SetId (jstr r ''id''))) (\<lambda>_.
     resourceCloudStackSecurityGroupRead cs))))"

text \<open>The delete functions of the two group kinds set the project before the call.\<close>

definition resourceCloudStackAffinityGroupDelete :: "env \<Rightarrow> unit op" where
  "resourceCloudStackAffinityGroupDelete cs =
     thenDo getD (\<lambda>d.
     thenDo (setProjectid [(''id'', PStr (ID d))] cs d) (\<lambda>p.
     thenDo (invoke cs (Call ''AffinityGroup.DeleteAffinityGroup'' p)) (\<lambda>r.
     case r of
       Failed err _ \<Rightarrow>
         if strings_Contains err (not_found_msg (ID d)) then ret ()
         else fail (Err (''Error deleting affinity group: '' @ err))
     | Succeeded _ \<Rightarrow> ret ())))"

definition resourceCloudStackSecurityGroupDelete :: "env \<Rightarrow> unit op" where
  "resourceCloudStackSecurityGroupDelete cs =
     thenDo getD (\<lambda>d.
     thenDo (setProjectid [(''id'', PStr (ID d))] cs d) (\<lambda>p.
     thenDo (invoke cs (Call ''SecurityGroup.DeleteSecurityGroup'' p)) (\<lambda>r.
     case r of
       Failed err _ \<Rightarrow>
         if strings_Contains err (not_found_msg (ID d)) then ret ()
         else fail (Err (''Error deleting security group: '' @ err))
     | Succeeded _ \<Rightarrow> ret ())))"

section \<open>The resource kinds\<close>

datatype kind = Instance | Disk | Network | VPC | PrivateGateway | NetworkACL
  | VPNCustomerGateway | AffinityGroup | SecurityGroup

text \<open>The \<^verbatim>\<open>Create\<close> and \<^verbatim>\<open>Read\<close> entries of each \<^verbatim>\<open>schema.Resource\<close>.\<close>

fun Create :: "kind \<Rightarrow> env \<Rightarrow> unit op" where
  "Create Instance = resourceCloudStackInstanceCreate"
| "Create Disk = resourceCloudStackDiskCreate"
| "Create Network = resourceCloudStackNetworkCreate"
| "Create VPC = resourceCloudStackVPCCreate"
| "Create PrivateGateway = resourceCloudStackPrivateGatewayCreate"
| "Create NetworkACL = resourceCloudStackNetworkACLCreate"
| "Create VPNCustomerGateway = resourceCloudStackVPNCustomerGatewayCreate"
| "Create AffinityGroup = resourceCloudStackAffinityGroupCreate"
| "Create SecurityGroup = resourceCloudStackSecurityGroupCreate"

fun Read :: "kind \<Rightarrow> env \<Rightarrow> unit op" where
  "Read Instance = resourceCloudStackInstanceRead"
| "Read Disk = resourceCloudStackDiskRead"
| "Read Network = resourceCloudStackNetworkRead"
| "Read VPC = resourceCloudStackVPCRead"
| "Read PrivateGateway = resourceCloudStackPrivateGatewayRead"
| "Read NetworkACL = resourceCloudStackNetworkACLRead"
| "Read VPNCustomerGateway = resourceCloudStackVPNCustomerGatewayRead"
| "Read AffinityGroup = resourceCloudStackAffinityGroupRead"
| "Read SecurityGroup = resourceCloudStackSecurityGroupRead"

text \<open>The SDK method that creates the remote entity of a kind, and the one that looks it up.\<close>

fun create_cmd :: "kind \<Rightarrow> string" where
  "create_cmd Instance = ''VirtualMachine.DeployVirtualMachine''"
| "create_cmd Disk = ''Volume.CreateVolume''"
| "create_cmd Network = ''Network.CreateNetwork''"
| "create_cmd VPC = ''VPC.CreateVPC''"
| "create_cmd PrivateGateway = ''VPC.CreatePrivateGateway''"
| "create_cmd NetworkACL = ''NetworkACL.CreateNetworkACLList''"
| "create_cmd VPNCustomerGateway = ''VPN.CreateVpnCustomerGateway''"
| "create_cmd AffinityGroup = ''AffinityGroup.CreateAffinityGroup''"
| "create_cmd SecurityGroup = ''SecurityGroup.CreateSecurityGroup''"

fun lookup_cmd :: "kind \<Rightarrow> string" where
  "lookup_cmd Instance = ''VirtualMachine.GetVirtualMachineByID''"
| "lookup_cmd Disk = ''Volume.GetVolumeByID''"
| "lookup_cmd Network = ''Network.GetNetworkByID''"
| "lookup_cmd VPC = ''VPC.GetVPCByID''"
| "lookup_cmd PrivateGateway = ''VPC.GetPrivateGatewayByID''"
| "lookup_cmd NetworkACL = ''NetworkACL.GetNetworkACLListByID''"
| "lookup_cmd VPNCustomerGateway = ''VPN.GetVpnCustomerGatewayByID''"
| "lookup_cmd AffinityGroup = ''AffinityGroup.GetAffinityGroupByID''"
| "lookup_cmd SecurityGroup = ''SecurityGroup.GetSecurityGroupByID''"

text \<open>
  The lookup by ID with which the Read of a kind starts. Every kind passes the ID; all but
  the private gateway and the VPN customer gateway pass the project as well.
\<close>

fun lookup_call :: "kind \<Rightarrow> ResourceData \<Rightarrow> call" where
  "lookup_call PrivateGateway d = Call (lookup_cmd PrivateGateway) [(''id'', PStr (ID d))]"
| "lookup_call VPNCustomerGateway d = Call (lookup_cmd VPNCustomerGateway) [(''id'', PStr (ID d))]"
| "lookup_call k d =
     Call (lookup_cmd k) [(''id'', PStr (ID d)), (''project'', PStr (getS d ''project''))]"

fun Delete :: "kind \<Rightarrow> env \<Rightarrow> unit op" where
  "Delete Instance = resourceCloudStackInstanceDelete"
| "Delete Disk = resourceCloudStackDiskDelete"
| "Delete Network = resourceCloudStackNetworkDelete"
| "Delete VPC = resourceCloudStackVPCDelete"
| "Delete PrivateGateway = resourceCloudStackPrivateGatewayDelete"
| "Delete NetworkACL = resourceCloudStackNetworkACLDelete"
| "Delete VPNCustomerGateway = resourceCloudStackVPNCustomerGatewayDelete"
| "Delete AffinityGroup = resourceCloudStackAffinityGroupDelete"
| "Delete SecurityGroup = resourceCloudStackSecurityGroupDelete"

fun delete_cmd :: "kind \<Rightarrow> string" where
  "delete_cmd Instance = ''VirtualMachine.DestroyVirtualMachine''"
| "delete_cmd Disk = ''Volume.DeleteVolume''"
| "delete_cmd Network = ''Network.DeleteNetwork''"
| "delete_cmd VPC = ''VPC.DeleteVPC''"
| "delete_cmd PrivateGateway = ''VPC.DeletePrivateGateway''"
| "delete_cmd NetworkACL = ''NetworkACL.DeleteNetworkACLList''"
| "delete_cmd VPNCustomerGateway = ''VPN.DeleteVpnCustomerGateway''"
| "delete_cmd AffinityGroup = ''AffinityGroup.DeleteAffinityGroup''"
| "delete_cmd SecurityGroup = ''SecurityGroup.DeleteSecurityGroup''"

text \<open>
  What the Delete of a kind does before its delete call: the disk is detached, the two group
  kinds resolve the project, every other kind starts with the delete call. The delete call
  of the network ACL list runs under \<^verbatim>\<open>Retry(3, ...)\<close>, every other one is made once.
\<close>

fun before_delete :: "kind \<Rightarrow> env \<Rightarrow> unit op" where
  "before_delete Disk cs = resourceCloudStackDiskDetach cs"
| "before_delete AffinityGroup cs =
     thenDo getD (\<lambda>d. thenDo (setProjectid [(''id'', PStr (ID d))] cs d) (\<lambda>_. ret ()))"
| "before_delete SecurityGroup cs =
     thenDo getD (\<lambda>d. thenDo (setProjectid [(''id'', PStr (ID d))] cs d) (\<lambda>_. ret ()))"
| "before_delete k cs = ret ()"

fun delete_attempts :: "kind \<Rightarrow> nat" where
  "delete_attempts NetworkACL = 3"
| "delete_attempts k = 1"

section \<open>The schema of the instance resource and its validation\<close>

text \<open>
  The \<^verbatim>\<open>Schema\<close> map of \<^verbatim>\<open>resourceCloudStackInstance\<close>, field by field. The state function
  of \<^verbatim>\<open>user_data\<close> is left out; \<^verbatim>\<open>tagsSchema()\<close> is not among the source files and is
  taken as an optional map.
\<close>

datatype ValueType = TypeString | TypeInt | TypeBool | TypeSet | TypeList | TypeMap

record Schema =
  Type :: ValueType
  Optional :: bool
  Required :: bool
  Computed :: bool
  ForceNew :: bool
  ConflictsWith :: "string list"
  Default :: "val option"

definition schema_of :: "ValueType \<Rightarrow> Schema" where
  "schema_of t = \<lparr>Type = t, Optional = False, Required = False, Computed = False,
                   ForceNew = False, ConflictsWith = [], Default = None\<rparr>"

definition instance_Schema :: "(string \<times> Schema) list" where
  "instance_Schema =
     [(''name'', (schema_of TypeString)\<lparr>Optional := True, Computed := True\<rparr>),
      (''display_name'', (schema_of TypeString)\<lparr>Optional := True, Computed := True\<rparr>),
      (''service_offering'', (schema_of TypeString)\<lparr>Required := True\<rparr>),
      (''network_id'', (schema_of TypeString)\<lparr>Optional := True, Computed := True, ForceNew := True\<rparr>),
      (''ip_address'', (schema_of TypeString)\<lparr>Optional := True, Computed := True, ForceNew := True\<rparr>),
      (''ip6_address'', (schema_of TypeString)\<lparr>Optional := True, Computed := True\<rparr>),
      (''ip6_cidr'', (schema_of TypeString)\<lparr>Optional := True, Computed := True\<rparr>),
      (''template'', (schema_of TypeString)\<lparr>Required := True, ForceNew := True\<rparr>),
      (''root_disk_size'', (schema_of TypeInt)\<lparr>Optional := True, Computed := True, ForceNew := True\<rparr>),
      (''group'', (schema_of TypeString)\<lparr>Optional := True, Computed := True\<rparr>),
      (''affinity_group_ids'',
         (schema_of TypeSet)\<lparr>Optional := True, ConflictsWith := [''affinity_group_names'']\<rparr>),
      (''affinity_group_names'',
         (schema_of TypeSet)\<lparr>Optional := True, ConflictsWith := [''affinity_group_ids'']\<rparr>),
      (''security_group_ids'',
         (schema_of TypeSet)\<lparr>Optional := True, ForceNew := True,
                               ConflictsWith := [''security_group_names'']\<rparr>),
      (''security_group_names'',
         (schema_of TypeSet)\<lparr>Optional := True, ForceNew := True,
                               ConflictsWith := [''security_group_ids'']\<rparr>),
      (''project'', (schema_of TypeString)\<lparr>Optional := True, Computed := True, ForceNew := True\<rparr>),
      (''zone'', (schema_of TypeString)\<lparr>Required := True, ForceNew := True\<rparr>),
      (''keypair'', (schema_of TypeString)\<lparr>Optional := True, ConflictsWith := [''keypairs'']\<rparr>),
      (''keypairs'', (schema_of TypeList)\<lparr>Optional := True, ConflictsWith := [''keypair'']\<rparr>),
      (''host_id'', (schema_of TypeString)\<lparr>Optional := True\<rparr>),
      (''cluster_id'', (schema_of TypeString)\<lparr>Optional := True\<rparr>),
      (''uefi'', (schema_of TypeBool)\<lparr>Optional := True, Default := Some (VBool False)\<rparr>),
      (''start_vm'',
         (schema_of TypeBool)\<lparr>Optional := True, ForceNew := True, Default := Some (VBool True)\<rparr>),
      (''user_data'', (schema_of TypeString)\<lparr>Optional := True\<rparr>),
      (''details'', (schema_of TypeMap)\<lparr>Optional := True\<rparr>),
      (''properties'', (schema_of TypeMap)\<lparr>Optional := True\<rparr>),
      (''nicnetworklist'', (schema_of TypeMap)\<lparr>Optional := True\<rparr>),
      (''expunge'', (schema_of TypeBool)\<lparr>Optional := True, Default := Some (VBool False)\<rparr>),
      (''pod_id'', (schema_of TypeString)\<lparr>Optional := True\<rparr>),
      (''tags'', (schema_of TypeMap)\<lparr>Optional := True\<rparr>)]"

text \<open>
  Modelled from the spec: the validation of a configuration against the conflict metadata
  of the schema belongs to the plugin framework and is not among the source files. A
  configuration supplies the fields it maps to a value. Each supplied field is in conflict
  with every supplied field that its schema lists under \<^verbatim>\<open>ConflictsWith\<close>. Validation
  runs before any remote request is built: a configuration with a conflict is rejected
  with an error that lists every conflicting pair, and Create is not called; any other
  configuration is handed to Create, each missing field at its default or zero value.
\<close>

definition conflicts :: "(string \<times> Schema) list \<Rightarrow> (string \<rightharpoonup> val) \<Rightarrow> (string \<times> string) list" where
  "conflicts sm config =
     concat (map (\<lambda>(k, s). if config k = None then []
                             else map (\<lambda>k'. (k, k')) (filter (\<lambda>k'. config k' \<noteq> None) (ConflictsWith s)))
                 sm)"

fun zero_of :: "ValueType \<Rightarrow> val" where
  "zero_of TypeString = VStr []"
| "zero_of TypeInt = VInt 0"
| "zero_of TypeBool = VBool False"
| "zero_of TypeSet = VList []"
| "zero_of TypeList = VList []"
| "zero_of TypeMap = VMap []"

definition configured :: "(string \<times> Schema) list \<Rightarrow> (string \<rightharpoonup> val) \<Rightarrow> string \<Rightarrow> val" where
  "configured sm config k =
     (case config k of
        Some v \<Rightarrow> v
      | None \<Rightarrow> (case map_of sm k of
                   None \<Rightarrow> VStr []
                 | Some s \<Rightarrow> (case Default s of Some v \<Rightarrow> v | None \<Rightarrow> zero_of (Type s))))"

definition conflict_message :: "(string \<times> string) list \<Rightarrow> string" where
  "conflict_message ps = concat (map (\<lambda>(k, k'). k @ '': conflicts with '' @ k' @ ''; '') ps)"

definition validated_InstanceCreate :: "env \<Rightarrow> (string \<rightharpoonup> val) \<Rightarrow> unit op" where
  "validated_InstanceCreate cs config = (\<lambda>d h.
     case conflicts instance_Schema config of
       [] \<Rightarrow> resourceCloudStackInstanceCreate cs (d\<lparr>attrs := configured instance_Schema config\<rparr>) h
     | ps \<Rightarrow> (Inl (Err (conflict_message ps)), d, []))"

text \<open>A configuration that supplies both \<^verbatim>\<open>keypair\<close> and \<^verbatim>\<open>keypairs\<close>.\<close>

definition config_both_keypairs :: "string \<rightharpoonup> val" where
  "config_both_keypairs =
     [''service_offering'' \<mapsto> VStr ''small'', ''template'' \<mapsto> VStr ''debian'',
      ''zone'' \<mapsto> VStr ''zone-1'', ''keypair'' \<mapsto> VStr ''k1'', ''keypairs'' \<mapsto> VList [''k1'', ''k2'']]"

section \<open>IPv4 addresses as numbers\<close>











section \<open>Concrete runs\<close>

text \<open>
  A resource with the ID 42 and no attribute set, and two remote sides that fail every
  call: the first counts no match, the second reports another error.
\<close>

definition d_42 :: ResourceData where
  "d_42 = \<lparr>ID = ''42'', attrs = (\<lambda>k. VStr []), prior = (\<lambda>k. VStr []), ConnInfo = []\<rparr>"

definition cs_gone :: env where
  "cs_gone = \<lparr>api = (\<lambda>h c. Failed (''No match found for 42'') 0), isID = (\<lambda>v. True)\<rparr>"

definition cs_down :: env where
  "cs_down = \<lparr>api = (\<lambda>h c. Failed ''connection refused'' (- 1)), isID = (\<lambda>v. True)\<rparr>"

text \<open>A remote side whose every call fails with the message that the ID 42 does not exist.\<close>

definition cs_no_entity :: env where
  "cs_no_entity =
     \<lparr>api = (\<lambda>h c. Failed (''CloudStack API error 431: '' @ not_found_msg ''42'') (- 1)),
      isID = (\<lambda>v. True)\<rparr>"

text \<open>
  The reply of that remote side, and a remote side that knows the volume 42, attached to
  nothing, and refuses to delete it with that reply.
\<close>

definition gone_42 :: reply where
  "gone_42 = Failed (''CloudStack API error 431: '' @ not_found_msg ''42'') (- 1)"

definition cs_volume_gone :: env where
  "cs_volume_gone =
     \<lparr>api = (\<lambda>h c. if cmd c = ''Volume.DeleteVolume'' then gone_42 else Succeeded JNull),
      isID = (\<lambda>v. True)\<rparr>"

text \<open>
  A resource that has no ID yet, named \<^verbatim>\<open>data\<close>, and a remote side that answers every
  call with an object of the ID 7.
\<close>

definition d_new :: ResourceData where
  "d_new = \<lparr>ID = [], attrs = (\<lambda>k. VStr [])(''name'' := VStr ''data''),
             prior = (\<lambda>k. VStr []), ConnInfo = []\<rparr>"

definition cs_ok :: env where
  "cs_ok = \<lparr>api = (\<lambda>h c. Succeeded (JObj [(''id'', JStr ''7'')])), isID = (\<lambda>v. True)\<rparr>"

text \<open>
  A volume attached to the running machine \<^verbatim>\<open>vm-1\<close>. The remote side refuses to detach
  it until the machine has been stopped, and accepts every other call.
\<close>

definition d_vol :: ResourceData where
  "d_vol = \<lparr>ID = ''vol-1'', attrs = (\<lambda>k. VStr [])(''virtual_machine_id'' := VStr ''vm-1''),
             prior = (\<lambda>k. VStr [])(''virtual_machine_id'' := VStr ''vm-1''), ConnInfo = []\<rparr>"

definition cs_running :: env where
  "cs_running =
     \<lparr>api = (\<lambda>h c.
         if c = DetachVolume ''vol-1'' \<and> \<not> list_ex (\<lambda>ev. fst ev = StopVirtualMachine ''vm-1'') h
         then Failed ''the virtual machine is running'' (- 1)
         else if cmd c = ''Volume.GetVolumeByID''
         then Succeeded (JObj [(''id'', JStr ''vol-1''), (''virtualmachineid'', JStr ''vm-1'')])
         else Succeeded JNull),
      isID = (\<lambda>v. True)\<rparr>"

text \<open>
  A remote side that knows the private gateway 42 and no network of that ID, and the
  private gateway 42 whose ACL has changed from \<^verbatim>\<open>acl-1\<close> to \<^verbatim>\<open>acl-2\<close>.
\<close>

definition d_gw :: ResourceData where
  "d_gw = \<lparr>ID = ''42'', attrs = (\<lambda>k. VStr [])(''acl_id'' := VStr ''acl-2''),
            prior = (\<lambda>k. VStr [])(''acl_id'' := VStr ''acl-1''), ConnInfo = []\<rparr>"

definition cs_gateway :: env where
  "cs_gateway =
     \<lparr>api = (\<lambda>h c.
         if cmd c = ''VPC.GetPrivateGatewayByID''
         then Succeeded (JObj [(''id'', JStr ''42''), (''gateway'', JStr ''10.0.0.1'')])
         else if cmd c = ''Network.GetNetworkByID'' then Failed ''No match found for 42'' 0
         else Succeeded JNull),
      isID = (\<lambda>v. True)\<rparr>"

text \<open>
  An instance whose service offering has changed from \<^verbatim>\<open>small\<close> to \<^verbatim>\<open>large\<close>, and a
  remote side that refuses every start call.
\<close>

definition d_upd :: ResourceData where
  "d_upd = \<lparr>ID = ''vm-9'',
             attrs = (\<lambda>k. VStr [])(''name'' := VStr ''web'', ''service_offering'' := VStr ''large''),
             prior = (\<lambda>k. VStr [])(''name'' := VStr ''web'', ''service_offering'' := VStr ''small''),
             ConnInfo = []\<rparr>"

definition cs_no_start :: env where
  "cs_no_start =
     \<lparr>api = (\<lambda>h c. if cmd c = ''VirtualMachine.StartVirtualMachine''
                     then Failed ''insufficient capacity'' (- 1) else Succeeded JNull),
      isID = (\<lambda>v. True)\<rparr>"



section \<open>Predicates on runs\<close>

text \<open>
  \<^verbatim>\<open>emits P f\<close>: every remote call that \<^verbatim>\<open>f\<close> makes, with its reply, satisfies \<^verbatim>\<open>P\<close>.
  \<^verbatim>\<open>keeps f\<close>: \<^verbatim>\<open>f\<close> leaves the resource data as they are.
\<close>

definition emits :: "(event \<Rightarrow> bool) \<Rightarrow> 'a op \<Rightarrow> bool" where
  "emits P f = (\<forall>d h. list_all P (snd (snd (f d h))))"

definition keeps :: "'a op \<Rightarrow> bool" where
  "keeps f = (\<forall>d h. fst (snd (f d h)) = d)"

text \<open>
  \<^verbatim>\<open>guarded X f\<close>: in every run of \<^verbatim>\<open>f\<close>, a failed call of the method \<^verbatim>\<open>X\<close> makes the
  run return an error with the resource data untouched, and the ID differs from the
  initial one only if a call of \<^verbatim>\<open>X\<close> has succeeded.
\<close>

definition guarded :: "string \<Rightarrow> 'a op \<Rightarrow> bool" where
  "guarded X f = (\<forall>d h res d' evs. f d h = (res, d', evs) \<longrightarrow>
      (\<forall>c err n. (c, Failed err n) \<in> set evs \<and> cmd c = X \<longrightarrow> (\<exists>e. res = Inl (Err e)) \<and> d' = d)
    \<and> (ID d' \<noteq> ID d \<longrightarrow> (\<exists>c j. (c, Succeeded j) \<in> set evs \<and> cmd c = X)))"

text \<open>
  \<^verbatim>\<open>nopanic f\<close>: no run of \<^verbatim>\<open>f\<close> ends in a panic. \<^verbatim>\<open>at_call X Q f\<close>: in every run of
  \<^verbatim>\<open>f\<close>, the reply to each call of the method \<^verbatim>\<open>X\<close> and the result of the run are
  related by \<^verbatim>\<open>Q\<close>; \<^verbatim>\<open>at_call_from\<close> lets \<^verbatim>\<open>Q\<close> see the initial resource data as well.
\<close>

definition nopanic :: "'a op \<Rightarrow> bool" where
  "nopanic f = (\<forall>d h p. fst (f d h) \<noteq> Inl (Panic p))"

definition at_call :: "string \<Rightarrow> (reply \<Rightarrow> (error + 'a) \<Rightarrow> bool) \<Rightarrow> 'a op \<Rightarrow> bool" where
  "at_call X Q f = (\<forall>d h res d' evs. f d h = (res, d', evs) \<longrightarrow>
      (\<forall>c r. (c, r) \<in> set evs \<and> cmd c = X \<longrightarrow> Q r res))"

definition at_call_from ::
  "string \<Rightarrow> (ResourceData \<Rightarrow> reply \<Rightarrow> (error + 'a) \<Rightarrow> bool) \<Rightarrow> 'a op \<Rightarrow> bool" where
  "at_call_from X Q f = (\<forall>d h res d' evs. f d h = (res, d', evs) \<longrightarrow>
      (\<forall>c r. (c, r) \<in> set evs \<and> cmd c = X \<longrightarrow> Q d r res))"

text \<open>
  \<^verbatim>\<open>seq L f\<close>: the calls of the cycle that a run of \<^verbatim>\<open>f\<close> makes are a prefix of \<^verbatim>\<open>L\<close>,
  and all of \<^verbatim>\<open>L\<close> when the run succeeds; \<^verbatim>\<open>seq_from\<close> restricts the initial resource data.
  \<^verbatim>\<open>failstop f\<close>: a failed call of the cycle is the last call of the run, and the run
  returns an error.
\<close>

definition seq :: "string list \<Rightarrow> 'a op \<Rightarrow> bool" where
  "seq L f = (\<forall>d h res d' evs. f d h = (res, d', evs) \<longrightarrow>
      prefix (lifecycle_cmds evs) L \<and> ((\<exists>a. res = Inr a) \<longrightarrow> lifecycle_cmds evs = L))"

definition seq_from :: "(ResourceData \<Rightarrow> bool) \<Rightarrow> string list \<Rightarrow> 'a op \<Rightarrow> bool" where
  "seq_from P L f = (\<forall>d h res d' evs. P d \<and> f d h = (res, d', evs) \<longrightarrow>
      prefix (lifecycle_cmds evs) L \<and> ((\<exists>a. res = Inr a) \<longrightarrow> lifecycle_cmds evs = L))"

definition failstop :: "'a op \<Rightarrow> bool" where
  "failstop f = (\<forall>d h res d' evs. f d h = (res, d', evs) \<longrightarrow>
      (\<forall>ev \<in> set evs. lifecycle ev \<and> is_failed (snd ev) \<longrightarrow>
         (\<exists>e. res = Inl (Err e)) \<and> last evs = ev))"

section \<open>Properties\<close>

subsection \<open>Sequencing\<close>

lemma thenDo_ret [simp]: "thenDo (ret x) g = g x"
  by (auto simp: thenDo_def ret_def fun_eq_iff split: prod.splits)

lemma thenDo_fail [simp]: "thenDo (fail e) g = fail e"
  by (auto simp: thenDo_def fail_def fun_eq_iff)

lemma thenDo_getD [simp]: "thenDo getD g d h = g d d h"
  by (auto simp: thenDo_def getD_def split: prod.splits)

lemma thenDo_modD [simp]: "thenDo (modD f) g d h = g () (f d) h"
  by (auto simp: thenDo_def modD_def split: prod.splits)

lemma thenDo_invoke:
  "thenDo (invoke cs c) g d h =
     (case g (api cs h c) d (h @ [(c, api cs h c)]) of (r, d2, n2) \<Rightarrow> (r, d2, (c, api cs h c) # n2))"
  by (auto simp: thenDo_def invoke_def Let_def split: prod.splits)

lemma ret_apply [simp]: "ret x d h = (Inr x, d, [])"
  by (simp add: ret_def)

lemma fail_apply [simp]: "fail e d h = (Inl e, d, [])"
  by (simp add: fail_def)

lemma modD_apply [simp]: "modD f d h = (Inr (), f d, [])"
  by (simp add: modD_def)

lemma invoke_apply: "invoke cs c d h = (Inr (api cs h c), d, [(c, api cs h c)])"
  by (simp add: invoke_def Let_def)

lemma thenDo_Inl: "f d h = (Inl e, d1, n1) \<Longrightarrow> thenDo f g d h = (Inl e, d1, n1)"
  by (simp add: thenDo_def)

lemma thenDo_Inr:
  "f d h = (Inr a, d1, n1) \<Longrightarrow>
   thenDo f g d h = (case g a d1 (h @ n1) of (r, d2, n2) \<Rightarrow> (r, d2, n1 @ n2))"
  by (simp add: thenDo_def)

lemma wrapErr_apply:
  "wrapErr f m d h =
     (case m d h of
        (Inl (Err err), d1, n1) \<Rightarrow> (Inl (Err (f err)), d1, n1)
      | (Inl (Panic p), d1, n1) \<Rightarrow> (Inl (Panic p), d1, n1)
      | (Inr a, d1, n1) \<Rightarrow> (Inr a, d1, n1))"
  by (simp add: wrapErr_def split: prod.splits sum.splits error.splits)

lemma invoke_unit_apply:
  "invoke_unit cs c d h =
     (case api cs h c of Failed err n \<Rightarrow> Inl (Err err) | Succeeded j \<Rightarrow> Inr (), d, [(c, api cs h c)])"
  by (simp add: invoke_unit_def thenDo_invoke split: reply.splits)

lemmas run_defs = thenDo_def invoke_def ret_def fail_def getD_def modD_def wrapErr_def
  invoke_unit_def Let_def

named_theorems emits_intros
named_theorems keeps_intros

lemma emits_ret [emits_intros]: "emits P (ret x)"
  and emits_fail [emits_intros]: "emits P (fail e)"
  and emits_getD [emits_intros]: "emits P getD"
  and emits_modD [emits_intros]: "emits P (modD f)"
  by (simp_all add: emits_def getD_def)

lemma emits_invoke [emits_intros]: "(\<And>r. P (c, r)) \<Longrightarrow> emits P (invoke cs c)"
  by (simp add: emits_def invoke_apply)

lemma emits_thenDo [emits_intros]:
  "emits P f \<Longrightarrow> (\<And>a. emits P (g a)) \<Longrightarrow> emits P (thenDo f g)"
  unfolding emits_def thenDo_def
  by (auto split: prod.splits sum.splits) (metis snd_conv)+

lemma emits_wrapErr [emits_intros]: "emits P m \<Longrightarrow> emits P (wrapErr f m)"
  unfolding emits_def
  by (auto simp: wrapErr_apply split: prod.splits sum.splits error.splits) (metis snd_conv)+

lemma emits_invoke_unit [emits_intros]: "(\<And>r. P (c, r)) \<Longrightarrow> emits P (invoke_unit cs c)"
  by (simp add: emits_def invoke_unit_apply)

lemma emits_if [emits_intros]:
  "(b \<Longrightarrow> emits P f) \<Longrightarrow> (\<not> b \<Longrightarrow> emits P g) \<Longrightarrow> emits P (if b then f else g)"
  by simp

lemma emits_case_reply [emits_intros]:
  "(\<And>err n. emits P (f err n)) \<Longrightarrow> (\<And>j. emits P (g j)) \<Longrightarrow>
   emits P (case r of Failed err n \<Rightarrow> f err n | Succeeded j \<Rightarrow> g j)"
  by (simp split: reply.splits)

lemma emits_case_sum [emits_intros]:
  "(\<And>a. emits P (f a)) \<Longrightarrow> (\<And>b. emits P (g b)) \<Longrightarrow>
   emits P (case r of Inl a \<Rightarrow> f a | Inr b \<Rightarrow> g b)"
  by (simp split: sum.splits)

lemma emits_case_list [emits_intros]:
  "emits P f \<Longrightarrow> (\<And>x xs. emits P (g x xs)) \<Longrightarrow>
   emits P (case l of [] \<Rightarrow> f | x # xs \<Rightarrow> g x xs)"
  by (simp split: list.splits)

lemma emits_case_option [emits_intros]:
  "emits P f \<Longrightarrow> (\<And>x. emits P (g x)) \<Longrightarrow>
   emits P (case l of None \<Rightarrow> f | Some x \<Rightarrow> g x)"
  by (simp split: option.splits)

lemma emits_case_prod [emits_intros]:
  "(\<And>a b. emits P (f a b)) \<Longrightarrow> emits P (case p of (a, b) \<Rightarrow> f a b)"
  by (simp split: prod.splits)

lemma emits_let [emits_intros]: "emits P (f v) \<Longrightarrow> emits P (let x = v in f x)"
  by simp

lemma keeps_ret [keeps_intros]: "keeps (ret x)"
  and keeps_fail [keeps_intros]: "keeps (fail e)"
  and keeps_getD [keeps_intros]: "keeps getD"
  and keeps_invoke [keeps_intros]: "keeps (invoke cs c)"
  and keeps_invoke_unit [keeps_intros]: "keeps (invoke_unit cs c)"
  by (simp_all add: keeps_def getD_def invoke_apply invoke_unit_apply)

lemma keeps_thenDo [keeps_intros]:
  "keeps f \<Longrightarrow> (\<And>a. keeps (g a)) \<Longrightarrow> keeps (thenDo f g)"
  unfolding keeps_def thenDo_def
  by (auto split: prod.splits sum.splits) (metis fst_conv snd_conv)+

lemma keeps_wrapErr [keeps_intros]: "keeps m \<Longrightarrow> keeps (wrapErr f m)"
  unfolding keeps_def
  by (auto simp: wrapErr_apply split: prod.splits sum.splits error.splits) (metis fst_conv snd_conv)+

lemma keeps_if [keeps_intros]:
  "(b \<Longrightarrow> keeps f) \<Longrightarrow> (\<not> b \<Longrightarrow> keeps g) \<Longrightarrow> keeps (if b then f else g)"
  by simp

lemma keeps_case_reply [keeps_intros]:
  "(\<And>err n. keeps (f err n)) \<Longrightarrow> (\<And>j. keeps (g j)) \<Longrightarrow>
   keeps (case r of Failed err n \<Rightarrow> f err n | Succeeded j \<Rightarrow> g j)"
  by (simp split: reply.splits)

lemma keeps_case_sum [keeps_intros]:
  "(\<And>a. keeps (f a)) \<Longrightarrow> (\<And>b. keeps (g b)) \<Longrightarrow>
   keeps (case r of Inl a \<Rightarrow> f a | Inr b \<Rightarrow> g b)"
  by (simp split: sum.splits)

lemma keeps_case_option [keeps_intros]:
  "keeps f \<Longrightarrow> (\<And>x. keeps (g x)) \<Longrightarrow>
   keeps (case l of None \<Rightarrow> f | Some x \<Rightarrow> g x)"
  by (simp split: option.splits)

lemma keeps_case_prod [keeps_intros]:
  "(\<And>a b. keeps (f a b)) \<Longrightarrow> keeps (case p of (a, b) \<Rightarrow> f a b)"
  by (simp split: prod.splits)

lemma keeps_let [keeps_intros]: "keeps (f v) \<Longrightarrow> keeps (let x = v in f x)"
  by simp

lemma emitsD: "emits P f \<Longrightarrow> f d h = (r, d', evs) \<Longrightarrow> ev \<in> set evs \<Longrightarrow> P ev"
  by (auto simp: emits_def list_all_iff) (metis snd_conv)

lemma keepsD: "keeps f \<Longrightarrow> f d h = (r, d', evs) \<Longrightarrow> d' = d"
  by (auto simp: keeps_def) (metis fst_conv snd_conv)


subsection \<open>Helpers and prefixes of runs\<close>

lemma emits_retrieveID [emits_intros]:
  "(\<And>p r. P (Call ''retrieveID'' p, r)) \<Longrightarrow> emits P (retrieveID cs name v)"
  unfolding retrieveID_def by (intro emits_intros) simp_all

lemma keeps_retrieveID [keeps_intros]: "keeps (retrieveID cs name v)"
  unfolding retrieveID_def by (intro keeps_intros)

lemma emits_retrieveTemplateID [emits_intros]:
  "(\<And>p r. P (Call ''retrieveTemplateID'' p, r)) \<Longrightarrow> emits P (retrieveTemplateID cs z v)"
  unfolding retrieveTemplateID_def by (intro emits_intros) simp_all

lemma keeps_retrieveTemplateID [keeps_intros]: "keeps (retrieveTemplateID cs z v)"
  unfolding retrieveTemplateID_def by (intro keeps_intros)

lemma emits_setProjectid [emits_intros]:
  "(\<And>p r. P (Call ''retrieveID'' p, r)) \<Longrightarrow> emits P (setProjectid p cs d)"
  unfolding setProjectid_def by (intro emits_intros) simp_all

lemma keeps_setProjectid [keeps_intros]: "keeps (setProjectid p cs d)"
  unfolding setProjectid_def by (intro keeps_intros)

lemma emits_isAttached [emits_intros]:
  "(\<And>d r. P (GetVolumeByID d, r)) \<Longrightarrow> emits P (isAttached cs)"
  unfolding isAttached_def by (intro emits_intros) simp_all

lemma keeps_isAttached [keeps_intros]: "keeps (isAttached cs)"
  unfolding isAttached_def by (intro keeps_intros)

lemma emits_detach:
  "emits (\<lambda>ev. cmd (fst ev) \<noteq> ''Volume.DeleteVolume'') (resourceCloudStackDiskDetach cs)"
  unfolding resourceCloudStackDiskDetach_def 
  by (intro emits_intros)
     (simp_all add: GetVolumeByID_def DetachVolume_def StopVirtualMachine_def StartVirtualMachine_def)

lemma keeps_detach: "keeps (resourceCloudStackDiskDetach cs)"
  unfolding resourceCloudStackDiskDetach_def 
  by (intro keeps_intros)

named_theorems guarded_intros

lemma guarded_create [guarded_intros]:
  assumes "\<And>j. emits (\<lambda>ev. cmd (fst ev) \<noteq> X) (g j)"
  shows "guarded X (thenDo (invoke cs (Call X p))
           (\<lambda>r. case r of Failed err n \<Rightarrow> fail (Err (e err n)) | Succeeded j \<Rightarrow> g j))"
  unfolding guarded_def
proof (intro allI impI)
  fix d h res d' evs
  assume run: "thenDo (invoke cs (Call X p))
           (\<lambda>r. case r of Failed err n \<Rightarrow> fail (Err (e err n)) | Succeeded j \<Rightarrow> g j) d h = (res, d', evs)"
  show "(\<forall>c err n. (c, Failed err n) \<in> set evs \<and> cmd c = X \<longrightarrow> (\<exists>e. res = Inl (Err e)) \<and> d' = d)
    \<and> (ID d' \<noteq> ID d \<longrightarrow> (\<exists>c j. (c, Succeeded j) \<in> set evs \<and> cmd c = X))"
  proof (cases "api cs h (Call X p)")
    case (Failed err n)
    with run show ?thesis by (auto simp: thenDo_invoke)
  next
    case (Succeeded j)
    obtain r2 d2 n2 where g: "g j d (h @ [(Call X p, Succeeded j)]) = (r2, d2, n2)"
      by (metis prod_cases3)
    with run Succeeded have evs: "evs = (Call X p, Succeeded j) # n2"
      by (auto simp: thenDo_invoke)
    from emitsD [OF assms g] have "\<forall>ev \<in> set n2. cmd (fst ev) \<noteq> X" by blast
    with evs show ?thesis by fastforce
  qed
qed

lemma guarded_quiet [guarded_intros]:
  assumes "emits (\<lambda>ev. cmd (fst ev) \<noteq> X) f" "keeps f" "\<And>a. guarded X (g a)"
  shows "guarded X (thenDo f g)"
  unfolding guarded_def
proof (intro allI impI)
  fix d h res d' evs
  assume run: "thenDo f g d h = (res, d', evs)"
  obtain r1 d1 n1 where f: "f d h = (r1, d1, n1)" by (metis prod_cases3)
  have d1: "d1 = d" using keepsD [OF assms(2) f] .
  have q: "\<forall>ev \<in> set n1. cmd (fst ev) \<noteq> X" using emitsD [OF assms(1) f] by blast
  show "(\<forall>c err n. (c, Failed err n) \<in> set evs \<and> cmd c = X \<longrightarrow> (\<exists>e. res = Inl (Err e)) \<and> d' = d)
    \<and> (ID d' \<noteq> ID d \<longrightarrow> (\<exists>c j. (c, Succeeded j) \<in> set evs \<and> cmd c = X))"
  proof (cases r1)
    case (Inl e)
    with f run d1 have "evs = n1" "d' = d" by (simp_all add: thenDo_Inl)
    with q show ?thesis by fastforce
  next
    case (Inr a)
    obtain r2 d2 n2 where g: "g a d (h @ n1) = (r2, d2, n2)" by (metis prod_cases3)
    with f run d1 Inr have e: "evs = n1 @ n2" "res = r2" "d' = d2" by (simp_all add: thenDo_Inr)
    from assms(3) [of a] g have
      "(\<forall>c err n. (c, Failed err n) \<in> set n2 \<and> cmd c = X \<longrightarrow> (\<exists>e. r2 = Inl (Err e)) \<and> d2 = d)
       \<and> (ID d2 \<noteq> ID d \<longrightarrow> (\<exists>c j. (c, Succeeded j) \<in> set n2 \<and> cmd c = X))"
      unfolding guarded_def by blast
    with e q show ?thesis by fastforce
  qed
qed

lemma guarded_fail [guarded_intros]: "guarded X (fail e)"
  by (simp add: guarded_def)

lemma guarded_if [guarded_intros]:
  "(b \<Longrightarrow> guarded X f) \<Longrightarrow> (\<not> b \<Longrightarrow> guarded X g) \<Longrightarrow> guarded X (if b then f else g)"
  by simp

lemma guarded_case_reply [guarded_intros]:
  "(\<And>err n. guarded X (f err n)) \<Longrightarrow> (\<And>j. guarded X (g j)) \<Longrightarrow>
   guarded X (case r of Failed err n \<Rightarrow> f err n | Succeeded j \<Rightarrow> g j)"
  by (simp split: reply.splits)

lemma guarded_case_sum [guarded_intros]:
  "(\<And>a. guarded X (f a)) \<Longrightarrow> (\<And>b. guarded X (g b)) \<Longrightarrow>
   guarded X (case r of Inl a \<Rightarrow> f a | Inr b \<Rightarrow> g b)"
  by (simp split: sum.splits)

lemma guarded_let [guarded_intros]: "guarded X (f v) \<Longrightarrow> guarded X (let x = v in f x)"
  by simp

lemma emits_setTags [emits_intros]:
  "(\<And>p r. P (Call ''Resourcetags.CreateTags'' p, r)) \<Longrightarrow> emits P (setTags cs t)"
  unfolding setTags_def by (intro emits_intros) simp_all

lemma emits_Retry_loop:
  "(\<And>r. P (c, r)) \<Longrightarrow> emits P (Retry_loop n (invoke cs c) lastErr)"
  by (induction n arbitrary: lastErr) (auto intro!: emits_intros)

lemma emits_Retry [emits_intros]: "(\<And>r. P (c, r)) \<Longrightarrow> emits P (Retry n (invoke cs c))"
  by (simp add: Retry_def emits_Retry_loop)



subsection \<open>Read when the remote entity is gone\<close>

text \<open>
  Claim C5. The Read of every resource kind starts with the lookup by ID. When the remote
  side answers it with an error and a match count of zero, Read clears the ID, changes
  nothing else and returns success; with any other count Read returns that error and
  changes nothing. The lookup is the only call made in either case.
\<close>

theorem read_gone:
  assumes "api cs h (lookup_call k d) = Failed err count"
  shows "Read k cs d h
         = (if count = 0 then Inr () else Inl (Err err),
            if count = 0 then SetId [] d else d,
            [(lookup_call k d, Failed err count)])
       \<and> cmd (lookup_call k d) = lookup_cmd k"
proof (cases k)
  case Instance
  with assms show ?thesis
    unfolding Instance Read.simps resourceCloudStackInstanceRead_def
    by (simp add: thenDo_invoke modD_def)
next
  case Disk
  with assms show ?thesis
    unfolding Disk Read.simps resourceCloudStackDiskRead_def
    by (simp add: thenDo_invoke modD_def GetVolumeByID_def)
next
  case Network
  with assms show ?thesis
    unfolding Network Read.simps resourceCloudStackNetworkRead_def
    by (simp add: thenDo_invoke modD_def)
next
  case VPC
  with assms show ?thesis
    unfolding VPC Read.simps resourceCloudStackVPCRead_def
    by (simp add: thenDo_invoke modD_def)
next
  case PrivateGateway
  with assms show ?thesis
    unfolding PrivateGateway Read.simps resourceCloudStackPrivateGatewayRead_def
    by (simp add: thenDo_invoke modD_def)
next
  case NetworkACL
  with assms show ?thesis
    unfolding NetworkACL Read.simps resourceCloudStackNetworkACLRead_def
    by (simp add: thenDo_invoke modD_def)
next
  case VPNCustomerGateway
  with assms show ?thesis
    unfolding VPNCustomerGateway Read.simps resourceCloudStackVPNCustomerGatewayRead_def
    by (simp add: thenDo_invoke modD_def)
next
  case AffinityGroup
  with assms show ?thesis
    unfolding AffinityGroup Read.simps resourceCloudStackAffinityGroupRead_def
    by (simp add: thenDo_invoke modD_def)
next
  case SecurityGroup
  with assms show ?thesis
    unfolding SecurityGroup Read.simps resourceCloudStackSecurityGroupRead_def
    by (simp add: thenDo_invoke modD_def)
qed


text \<open>
  All nine kinds on a remote side that counts no match, and the VPC on one that is down.
\<close>

theorem read_gone_witness:
  "Read Instance cs_gone d_42 [] =
     (Inr (), SetId [] d_42, [(lookup_call Instance d_42, Failed ''No match found for 42'' 0)])
   \<and> Read Disk cs_gone d_42 [] =
     (Inr (), SetId [] d_42, [(lookup_call Disk d_42, Failed ''No match found for 42'' 0)])
   \<and> Read Network cs_gone d_42 [] =
     (Inr (), SetId [] d_42, [(lookup_call Network d_42, Failed ''No match found for 42'' 0)])
   \<and> Read VPC cs_gone d_42 [] =
     (Inr (), SetId [] d_42, [(lookup_call VPC d_42, Failed ''No match found for 42'' 0)])
   \<and> Read PrivateGateway cs_gone d_42 [] =
     (Inr (), SetId [] d_42,
      [(lookup_call PrivateGateway d_42, Failed ''No match found for 42'' 0)])
   \<and> Read NetworkACL cs_gone d_42 [] =
     (Inr (), SetId [] d_42, [(lookup_call NetworkACL d_42, Failed ''No match found for 42'' 0)])
   \<and> Read VPNCustomerGateway cs_gone d_42 [] =
     (Inr (), SetId [] d_42,
      [(lookup_call VPNCustomerGateway d_42, Failed ''No match found for 42'' 0)])
   \<and> Read AffinityGroup cs_gone d_42 [] =
     (Inr (), SetId [] d_42,
      [(lookup_call AffinityGroup d_42, Failed ''No match found for 42'' 0)])
   \<and> Read SecurityGroup cs_gone d_42 [] =
     (Inr (), SetId [] d_42,
      [(lookup_call SecurityGroup d_42, Failed ''No match found for 42'' 0)])
   \<and> Read VPC cs_down d_42 [] =
     (Inl (Err ''connection refused''), d_42,
      [(Call ''VPC.GetVPCByID'' [(''id'', PStr ''42''), (''project'', PStr [])],
        Failed ''connection refused'' (- 1))])"
proof -
  have gone: "api cs_gone [] (lookup_call k d_42) = Failed ''No match found for 42'' 0" for k
    by (simp add: cs_gone_def)
  have down: "api cs_down [] (lookup_call VPC d_42) = Failed ''connection refused'' (- 1)"
    by (simp add: cs_down_def)
  have c: "ID d_42 = ''42''" "getS d_42 ''project'' = []"
    by (simp_all add: d_42_def getS_def)
  from read_gone [OF gone [of Instance]] read_gone [OF gone [of Disk]]
    read_gone [OF gone [of Network]] read_gone [OF gone [of VPC]]
    read_gone [OF gone [of PrivateGateway]] read_gone [OF gone [of NetworkACL]]
    read_gone [OF gone [of VPNCustomerGateway]] read_gone [OF gone [of AffinityGroup]]
    read_gone [OF gone [of SecurityGroup]] read_gone [OF down]
  show ?thesis by (simp add: c)
qed

subsection \<open>Delete when the remote entity is gone\<close>

text \<open>
  \<^verbatim>\<open>Retry\<close> on a call that the remote side refuses every time, and the delete call with
  the test of its error message.
\<close>

lemma Retry_loop_refused:
  assumes "\<And>h'. api cs h' c = Failed err n"
  shows "Retry_loop m (invoke cs c) lastErr d h
         = (Inr (if m = 0 then lastErr else Failed err n), d, replicate m (c, Failed err n))"
proof (induction m arbitrary: lastErr h)
  case 0
  then show ?case by simp
next
  case (Suc m)
  show ?case
    by (simp add: thenDo_invoke assms Suc.IH)
qed

lemma delete_direct_refused:
  assumes "api cs h c = Failed err n"
  shows "\<exists>res. thenDo (invoke cs c) (\<lambda>r.
                  case r of
                    Failed err _ \<Rightarrow> if strings_Contains err msg then ret () else fail (Err (w err))
                  | Succeeded _ \<Rightarrow> ret ()) d h = (res, d, [(c, Failed err n)])
            \<and> (strings_Contains err msg \<longrightarrow> res = Inr ())
            \<and> (\<not> strings_Contains err msg \<longrightarrow> (\<exists>m. res = Inl (Err m)))"
  by (simp add: thenDo_invoke assms)

text \<open>
  Claim C4. Let the remote side refuse every delete call of the kind with the error
  \<open>err\<close>. In the Delete of every resource kind the steps before the delete call leave the
  resource data as they were, and when they fail Delete returns their error. Otherwise
  Delete makes the delete call (three times for the network ACL list, under \<^verbatim>\<open>Retry\<close>),
  makes no call after it and leaves the resource data as they were; it returns success if
  \<open>err\<close> contains ``Invalid parameter id value=ID due to incorrect long value format, or
  entity does not exist'' for the ID of the resource, and an error otherwise. Only the disk
  and the two group kinds have a step before the delete call.
\<close>

theorem delete_gone:
  assumes refuse: "\<And>h' c. cmd c = delete_cmd k \<Longrightarrow> api cs h' c = Failed err n"
    and pre: "before_delete k cs d h = (r1, d1, n1)"
  shows "d1 = d
       \<and> (isl r1 \<longrightarrow> Delete k cs d h = (r1, d, n1))
       \<and> (\<not> isl r1 \<longrightarrow>
            (\<exists>c res. cmd c = delete_cmd k
               \<and> Delete k cs d h = (res, d, n1 @ replicate (delete_attempts k) (c, Failed err n))
               \<and> (strings_Contains err (not_found_msg (ID d)) \<longrightarrow> res = Inr ())
               \<and> (\<not> strings_Contains err (not_found_msg (ID d)) \<longrightarrow> (\<exists>msg. res = Inl (Err msg)))))"
proof (cases k)
  case Instance
  let ?c = "Call ''VirtualMachine.DestroyVirtualMachine''
              (setIf (getB d ''expunge'') ''expunge'' (PBool True) [(''id'', PStr (ID d))])"
  have "api cs h ?c = Failed err n" using refuse [of ?c h] Instance by simp
  from delete_direct_refused [OF this, of "not_found_msg (ID d)" _ d] pre Instance
  show ?thesis
    by (auto simp: resourceCloudStackInstanceDelete_def Let_def intro!: exI [of _ ?c])
next
  case Disk
  let ?c = "Call ''Volume.DeleteVolume'' [(''id'', PStr (ID d))]"
  from pre Disk have det: "resourceCloudStackDiskDetach cs d h = (r1, d1, n1)" by simp
  have d1: "d1 = d" using keepsD [OF keeps_detach det] .
  show ?thesis
  proof (cases r1)
    case (Inl e)
    with det d1 Disk show ?thesis
      by (simp add: resourceCloudStackDiskDelete_def thenDo_Inl)
  next
    case (Inr u)
    have "api cs (h @ n1) ?c = Failed err n" using refuse [of ?c "h @ n1"] Disk by simp
    from delete_direct_refused [OF this, of "not_found_msg (ID d)" "\<lambda>err. err" d]
    show ?thesis using det [unfolded Inr d1] d1 Disk Inr
      by (auto simp: resourceCloudStackDiskDelete_def thenDo_Inr intro!: exI [of _ ?c])
  qed
next
  case Network
  let ?c = "Call ''Network.DeleteNetwork'' [(''id'', PStr (ID d))]"
  have "api cs h ?c = Failed err n" using refuse [of ?c h] Network by simp
  from delete_direct_refused [OF this, of "not_found_msg (ID d)" _ d] pre Network
  show ?thesis
    by (auto simp: resourceCloudStackNetworkDelete_def intro!: exI [of _ ?c])
next
  case VPC
  let ?c = "Call ''VPC.DeleteVPC'' [(''id'', PStr (ID d))]"
  have "api cs h ?c = Failed err n" using refuse [of ?c h] VPC by simp
  from delete_direct_refused [OF this, of "not_found_msg (ID d)" _ d] pre VPC
  show ?thesis
    by (auto simp: resourceCloudStackVPCDelete_def intro!: exI [of _ ?c])
next
  case PrivateGateway
  let ?c = "Call ''VPC.DeletePrivateGateway'' [(''id'', PStr (ID d))]"
  have "api cs h ?c = Failed err n" using refuse [of ?c h] PrivateGateway by simp
  from delete_direct_refused [OF this, of "not_found_msg (ID d)" _ d] pre PrivateGateway
  show ?thesis
    by (auto simp: resourceCloudStackPrivateGatewayDelete_def intro!: exI [of _ ?c])
next
  case NetworkACL
  let ?c = "Call ''NetworkACL.DeleteNetworkACLList'' [(''id'', PStr (ID d))]"
  have "api cs h' ?c = Failed err n" for h' using refuse [of ?c h'] NetworkACL by simp
  from Retry_loop_refused [of cs ?c err n 3 "Succeeded JNull" d h, OF this] pre NetworkACL
  show ?thesis
    by (auto simp: resourceCloudStackNetworkACLDelete_def Retry_def thenDo_Inr
        intro!: exI [of _ ?c])
next
  case VPNCustomerGateway
  let ?c = "Call ''VPN.DeleteVpnCustomerGateway'' [(''id'', PStr (ID d))]"
  have "api cs h ?c = Failed err n" using refuse [of ?c h] VPNCustomerGateway by simp
  from delete_direct_refused [OF this, of "not_found_msg (ID d)" _ d] pre VPNCustomerGateway
  show ?thesis
    by (auto simp: resourceCloudStackVPNCustomerGatewayDelete_def intro!: exI [of _ ?c])
next
  case AffinityGroup
  obtain rs ds ns where sp: "setProjectid [(''id'', PStr (ID d))] cs d d h = (rs, ds, ns)"
    by (metis prod_cases3)
  have ds: "ds = d" using keepsD [OF keeps_setProjectid sp] .
  show ?thesis
  proof (cases rs)
    case (Inl e)
    with sp ds pre AffinityGroup show ?thesis
      by (auto simp: resourceCloudStackAffinityGroupDelete_def thenDo_Inl)
  next
    case (Inr p)
    let ?c = "Call ''AffinityGroup.DeleteAffinityGroup'' p"
    have "api cs (h @ ns) ?c = Failed err n" using refuse [of ?c "h @ ns"] AffinityGroup by simp
    from delete_direct_refused [OF this, of "not_found_msg (ID d)"
        "\<lambda>err. ''Error deleting affinity group: '' @ err" d]
    show ?thesis using sp [unfolded Inr ds] pre AffinityGroup
      by (auto simp: resourceCloudStackAffinityGroupDelete_def thenDo_Inr intro!: exI [of _ ?c])
  qed
next
  case SecurityGroup
  obtain rs ds ns where sp: "setProjectid [(''id'', PStr (ID d))] cs d d h = (rs, ds, ns)"
    by (metis prod_cases3)
  have ds: "ds = d" using keepsD [OF keeps_setProjectid sp] .
  show ?thesis
  proof (cases rs)
    case (Inl e)
    with sp ds pre SecurityGroup show ?thesis
      by (auto simp: resourceCloudStackSecurityGroupDelete_def thenDo_Inl)
  next
    case (Inr p)
    let ?c = "Call ''SecurityGroup.DeleteSecurityGroup'' p"
    have "api cs (h @ ns) ?c = Failed err n" using refuse [of ?c "h @ ns"] SecurityGroup by simp
    from delete_direct_refused [OF this, of "not_found_msg (ID d)"
        "\<lambda>err. ''Error deleting security group: '' @ err" d]
    show ?thesis using sp [unfolded Inr ds] pre SecurityGroup
      by (auto simp: resourceCloudStackSecurityGroupDelete_def thenDo_Inr intro!: exI [of _ ?c])
  qed
qed


text \<open>
  All nine kinds on remote sides that refuse the delete call because the entity does not
  exist; the disk when the lookup before the detach step fails; the network ACL list on a
  remote side that is down.
\<close>

theorem delete_gone_witness:
  "(\<exists>c. cmd c = delete_cmd Instance
        \<and> Delete Instance cs_no_entity d_42 [] = (Inr (), d_42, [(c, gone_42)]))
   \<and> (\<exists>c. cmd c = delete_cmd Network
        \<and> Delete Network cs_no_entity d_42 [] = (Inr (), d_42, [(c, gone_42)]))
   \<and> (\<exists>c. cmd c = delete_cmd VPC
        \<and> Delete VPC cs_no_entity d_42 [] = (Inr (), d_42, [(c, gone_42)]))
   \<and> (\<exists>c. cmd c = delete_cmd PrivateGateway
        \<and> Delete PrivateGateway cs_no_entity d_42 [] = (Inr (), d_42, [(c, gone_42)]))
   \<and> (\<exists>c. cmd c = delete_cmd NetworkACL
        \<and> Delete NetworkACL cs_no_entity d_42 [] =
            (Inr (), d_42, [(c, gone_42), (c, gone_42), (c, gone_42)]))
   \<and> (\<exists>c. cmd c = delete_cmd VPNCustomerGateway
        \<and> Delete VPNCustomerGateway cs_no_entity d_42 [] = (Inr (), d_42, [(c, gone_42)]))
   \<and> (\<exists>c. cmd c = delete_cmd AffinityGroup
        \<and> Delete AffinityGroup cs_no_entity d_42 [] = (Inr (), d_42, [(c, gone_42)]))
   \<and> (\<exists>c. cmd c = delete_cmd SecurityGroup
        \<and> Delete SecurityGroup cs_no_entity d_42 [] = (Inr (), d_42, [(c, gone_42)]))
   \<and> (\<exists>c. cmd c = delete_cmd Disk
        \<and> Delete Disk cs_volume_gone d_42 [] =
            (Inr (), d_42, [(GetVolumeByID d_42, Succeeded JNull), (c, gone_42)]))
   \<and> Delete Disk cs_no_entity d_42 [] =
        (Inl (Err (''CloudStack API error 431: '' @ not_found_msg ''42'')), d_42,
         [(GetVolumeByID d_42, gone_42)])
   \<and> (\<exists>c msg. cmd c = delete_cmd NetworkACL
        \<and> Delete NetworkACL cs_down d_42 [] =
            (Inl (Err msg), d_42,
             [(c, Failed ''connection refused'' (- 1)), (c, Failed ''connection refused'' (- 1)),
              (c, Failed ''connection refused'' (- 1))]))"
proof -
  define M where "M = ''CloudStack API error 431: '' @ not_found_msg ''42''"
  have g: "gone_42 = Failed M (- 1)" by (simp add: gone_42_def M_def)
  have c1: "strings_Contains M (not_found_msg (ID d_42))"
    by (simp add: not_found_msg_def d_42_def M_def)
  have c2: "\<not> strings_Contains ''connection refused'' (not_found_msg (ID d_42))"
    by (simp add: not_found_msg_def d_42_def)
  have r: "\<not> isl (Inr () :: error + unit)" "isl (Inl (Err M) :: error + unit)" by simp_all
  have refuse: "api cs_no_entity h' c = Failed M (- 1)" for h' c
    by (simp add: cs_no_entity_def M_def)
  have pre: "before_delete k cs_no_entity d_42 [] = (Inr (), d_42, [])" if "k \<noteq> Disk" for k
    using that by (cases k) (simp_all add: setProjectid_def GetOk_def d_42_def)
  have W: "\<exists>c. cmd c = delete_cmd k
             \<and> Delete k cs_no_entity d_42 [] = (Inr (), d_42, replicate (delete_attempts k) (c, gone_42))"
    if "k \<noteq> Disk" for k
  proof -
    from delete_gone [of k cs_no_entity M "- 1", OF refuse pre [OF that]] r(1) obtain c res where
      "cmd c = delete_cmd k"
      "Delete k cs_no_entity d_42 [] = (res, d_42, [] @ replicate (delete_attempts k) (c, Failed M (- 1)))"
      "strings_Contains M (not_found_msg (ID d_42)) \<longrightarrow> res = Inr ()"
      by blast
    with c1 show ?thesis unfolding g by (intro exI [of _ c]) simp
  qed
  have refuse_v: "cmd c = delete_cmd Disk \<Longrightarrow> api cs_volume_gone h' c = Failed M (- 1)"
    for h' c
    by (simp add: cs_volume_gone_def g)
  have pre_v: "before_delete Disk cs_volume_gone d_42 []
               = (Inr (), d_42, [(GetVolumeByID d_42, Succeeded JNull)])"
  proof -
    have "isAttached cs_volume_gone d_42 []
          = (Inr False, d_42, [(GetVolumeByID d_42, Succeeded JNull)])"
      by (simp add: isAttached_def thenDo_invoke cs_volume_gone_def GetVolumeByID_def
          jstr_def jfield_def)
    then show ?thesis
      by (simp add: resourceCloudStackDiskDetach_def thenDo_def [of "isAttached cs_volume_gone"])
  qed
  have V: "\<exists>c. cmd c = delete_cmd Disk
             \<and> Delete Disk cs_volume_gone d_42 [] =
                 (Inr (), d_42, [(GetVolumeByID d_42, Succeeded JNull), (c, gone_42)])"
  proof -
    from delete_gone [of Disk cs_volume_gone M "- 1", OF refuse_v pre_v] r(1) obtain c res where
      "cmd c = delete_cmd Disk"
      "Delete Disk cs_volume_gone d_42 [] =
         (res, d_42, [(GetVolumeByID d_42, Succeeded JNull)]
                     @ replicate (delete_attempts Disk) (c, Failed M (- 1)))"
      "strings_Contains M (not_found_msg (ID d_42)) \<longrightarrow> res = Inr ()"
      by blast
    with c1 show ?thesis unfolding g by (intro exI [of _ c]) simp
  qed
  have pre_d: "before_delete Disk cs_no_entity d_42 []
               = (Inl (Err M), d_42, [(GetVolumeByID d_42, Failed M (- 1))])"
  proof -
    have "isAttached cs_no_entity d_42 []
          = (Inl (Err M), d_42, [(GetVolumeByID d_42, Failed M (- 1))])"
      by (simp add: isAttached_def thenDo_invoke cs_no_entity_def M_def)
    then show ?thesis
      by (simp add: resourceCloudStackDiskDetach_def thenDo_def [of "isAttached cs_no_entity"])
  qed
  have D: "Delete Disk cs_no_entity d_42 [] =
             (Inl (Err M), d_42, [(GetVolumeByID d_42, gone_42)])"
    using delete_gone [of Disk cs_no_entity M "- 1", OF refuse pre_d] r(2) unfolding g by blast
  have refuse_n: "api cs_down h' c = Failed ''connection refused'' (- 1)" for h' c
    by (simp add: cs_down_def)
  have pre_n: "before_delete NetworkACL cs_down d_42 [] = (Inr (), d_42, [])"
    by simp
  have N: "\<exists>c msg. cmd c = delete_cmd NetworkACL
        \<and> Delete NetworkACL cs_down d_42 [] =
            (Inl (Err msg), d_42,
             [(c, Failed ''connection refused'' (- 1)), (c, Failed ''connection refused'' (- 1)),
              (c, Failed ''connection refused'' (- 1))])"
  proof -
    from delete_gone [of NetworkACL cs_down "''connection refused''" "- 1", OF refuse_n pre_n]
      r(1) obtain c res where
      "cmd c = delete_cmd NetworkACL"
      "Delete NetworkACL cs_down d_42 [] =
         (res, d_42, [] @ replicate (delete_attempts NetworkACL) (c, Failed ''connection refused'' (- 1)))"
      "\<not> strings_Contains ''connection refused'' (not_found_msg (ID d_42))
       \<longrightarrow> (\<exists>msg. res = Inl (Err msg))"
      by blast
    with c2 obtain msg where "res = Inl (Err msg)" by blast
    with \<open>cmd c = delete_cmd NetworkACL\<close>
      \<open>Delete NetworkACL cs_down d_42 [] =
         (res, d_42, [] @ replicate (delete_attempts NetworkACL) (c, Failed ''connection refused'' (- 1)))\<close>
    show ?thesis by (intro exI [of _ c] exI [of _ msg]) (simp add: numeral_3_eq_3)
  qed
  from W [of Instance] W [of Network] W [of VPC] W [of PrivateGateway] W [of NetworkACL]
    W [of VPNCustomerGateway] W [of AffinityGroup] W [of SecurityGroup] V D N
  show ?thesis unfolding M_def by (simp add: numeral_3_eq_3)
qed

subsection \<open>Create when the remote create call fails\<close>

lemma emits_InstanceRead [emits_intros]:
  "(\<And>p r. P (Call ''VirtualMachine.GetVirtualMachineByID'' p, r)) \<Longrightarrow>
   (\<And>p r. P (Call ''Volume.ListVolumes'' p, r)) \<Longrightarrow>
   emits P (resourceCloudStackInstanceRead cs)"
  unfolding resourceCloudStackInstanceRead_def by (intro emits_intros) simp_all

lemma emits_DiskRead [emits_intros]:
  "(\<And>p r. P (Call ''Volume.GetVolumeByID'' p, r)) \<Longrightarrow> emits P (resourceCloudStackDiskRead cs)"
  unfolding resourceCloudStackDiskRead_def GetVolumeByID_def by (intro emits_intros) simp_all

lemma emits_DiskAttach [emits_intros]:
  "(\<And>p r. P (Call ''Volume.GetVolumeByID'' p, r)) \<Longrightarrow>
   (\<And>p r. P (Call ''Volume.AttachVolume'' p, r)) \<Longrightarrow>
   emits P (resourceCloudStackDiskAttach cs)"
  unfolding resourceCloudStackDiskAttach_def
  by (intro emits_intros) (simp_all add: GetVolumeByID_def)

lemma emits_NetworkRead [emits_intros]:
  "(\<And>p r. P (Call ''Network.GetNetworkByID'' p, r)) \<Longrightarrow>
   (\<And>p r. P (Call ''Address.GetPublicIpAddressByID'' p, r)) \<Longrightarrow>
   emits P (resourceCloudStackNetworkRead cs)"
  unfolding resourceCloudStackNetworkRead_def by (intro emits_intros) simp_all

lemma emits_VPCRead [emits_intros]:
  "(\<And>p r. P (Call ''VPC.GetVPCByID'' p, r)) \<Longrightarrow>
   (\<And>p r. P (Call ''VPC.GetVPCOfferingByID'' p, r)) \<Longrightarrow>
   (\<And>p r. P (Call ''retrieveID'' p, r)) \<Longrightarrow>
   (\<And>p r. P (Call ''Address.ListPublicIpAddresses'' p, r)) \<Longrightarrow>
   emits P (resourceCloudStackVPCRead cs)"
  unfolding resourceCloudStackVPCRead_def by (intro emits_intros) simp_all

lemma emits_PrivateGatewayRead [emits_intros]:
  "(\<And>p r. P (Call ''VPC.GetPrivateGatewayByID'' p, r)) \<Longrightarrow>
   emits P (resourceCloudStackPrivateGatewayRead cs)"
  unfolding resourceCloudStackPrivateGatewayRead_def by (intro emits_intros) simp_all

lemma emits_NetworkACLRead [emits_intros]:
  "(\<And>p r. P (Call ''NetworkACL.GetNetworkACLListByID'' p, r)) \<Longrightarrow>
   emits P (resourceCloudStackNetworkACLRead cs)"
  unfolding resourceCloudStackNetworkACLRead_def by (intro emits_intros) simp_all

lemma emits_VPNCustomerGatewayRead [emits_intros]:
  "(\<And>p r. P (Call ''VPN.GetVpnCustomerGatewayByID'' p, r)) \<Longrightarrow>
   emits P (resourceCloudStackVPNCustomerGatewayRead cs)"
  unfolding resourceCloudStackVPNCustomerGatewayRead_def by (intro emits_intros) simp_all

lemma emits_AffinityGroupRead [emits_intros]:
  "(\<And>p r. P (Call ''AffinityGroup.GetAffinityGroupByID'' p, r)) \<Longrightarrow>
   emits P (resourceCloudStackAffinityGroupRead cs)"
  unfolding resourceCloudStackAffinityGroupRead_def by (intro emits_intros) simp_all

lemma emits_SecurityGroupRead [emits_intros]:
  "(\<And>p r. P (Call ''SecurityGroup.GetSecurityGroupByID'' p, r)) \<Longrightarrow>
   emits P (resourceCloudStackSecurityGroupRead cs)"
  unfolding resourceCloudStackSecurityGroupRead_def by (intro emits_intros) simp_all

lemma guarded_Create: "guarded (create_cmd k) (Create k cs)"
proof (cases k)
  case Instance
  show ?thesis
    unfolding Instance Create.simps create_cmd.simps resourceCloudStackInstanceCreate_def
    by (intro guarded_intros emits_intros keeps_intros) simp_all
next
  case Disk
  show ?thesis
    unfolding Disk Create.simps create_cmd.simps resourceCloudStackDiskCreate_def
    by (intro guarded_intros emits_intros keeps_intros) simp_all
next
  case Network
  show ?thesis
    unfolding Network Create.simps create_cmd.simps resourceCloudStackNetworkCreate_def
    by (intro guarded_intros emits_intros keeps_intros) simp_all
next
  case VPC
  show ?thesis
    unfolding VPC Create.simps create_cmd.simps resourceCloudStackVPCCreate_def
    by (intro guarded_intros emits_intros keeps_intros) simp_all
next
  case PrivateGateway
  show ?thesis
    unfolding PrivateGateway Create.simps create_cmd.simps resourceCloudStackPrivateGatewayCreate_def
    by (intro guarded_intros emits_intros keeps_intros) simp_all
next
  case NetworkACL
  show ?thesis
    unfolding NetworkACL Create.simps create_cmd.simps resourceCloudStackNetworkACLCreate_def
    by (intro guarded_intros emits_intros keeps_intros) simp_all
next
  case VPNCustomerGateway
  show ?thesis
    unfolding VPNCustomerGateway Create.simps create_cmd.simps resourceCloudStackVPNCustomerGatewayCreate_def
    by (intro guarded_intros emits_intros keeps_intros) simp_all
next
  case AffinityGroup
  show ?thesis
    unfolding AffinityGroup Create.simps create_cmd.simps resourceCloudStackAffinityGroupCreate_def
    by (intro guarded_intros emits_intros keeps_intros) simp_all
next
  case SecurityGroup
  show ?thesis
    unfolding SecurityGroup Create.simps create_cmd.simps resourceCloudStackSecurityGroupCreate_def
    by (intro guarded_intros emits_intros keeps_intros) simp_all
qed

text \<open>
  Claim C7. In the Create of every resource kind: a failed remote create call makes Create
  return an error and leaves the resource data, and with them the ID, as they were; and
  the ID differs from the initial one only if the remote create call has succeeded.
\<close>

theorem create_failure_sets_no_id:
  assumes "Create k cs d h = (res, d', evs)"
  shows "(\<forall>c err n. (c, Failed err n) \<in> set evs \<and> cmd c = create_cmd k \<longrightarrow>
            (\<exists>e. res = Inl (Err e)) \<and> d' = d)
       \<and> (ID d' \<noteq> ID d \<longrightarrow> (\<exists>c j. (c, Succeeded j) \<in> set evs \<and> cmd c = create_cmd k))"
  using guarded_Create [of k cs] assms unfolding guarded_def by blast

theorem create_failure_sets_no_id_witness:
  "Create Disk cs_down d_new [] =
     (Inl (Err ''Error creating the new disk data: connection refused''), d_new,
      [(Call ''Volume.CreateVolume''
          [(''name'', PStr ''data''), (''diskofferingid'', PStr []), (''zoneid'', PStr [])],
        Failed ''connection refused'' (- 1))])
   \<and> ID d_new = []
   \<and> (\<exists>res d' evs. Create NetworkACL cs_ok d_new [] = (res, d', evs) \<and> ID d' = ''7''
        \<and> (\<exists>c j. (c, Succeeded j) \<in> set evs \<and> cmd c = create_cmd NetworkACL))"
proof -
  have run: "Create Disk cs_down d_new [] =
     (Inl (Err ''Error creating the new disk data: connection refused''), d_new,
      [(Call ''Volume.CreateVolume''
          [(''name'', PStr ''data''), (''diskofferingid'', PStr []), (''zoneid'', PStr [])],
        Failed ''connection refused'' (- 1))])"
    by (simp add: resourceCloudStackDiskCreate_def retrieveID_def setProjectid_def cs_down_def
        d_new_def GetOk_def getS_def getI_def setIf_def run_defs)
  obtain res d' evs where run2: "Create NetworkACL cs_ok d_new [] = (res, d', evs)"
    by (metis prod_cases3)
  then have id': "ID d' = ''7''"
    by (auto simp add: resourceCloudStackNetworkACLCreate_def resourceCloudStackNetworkACLRead_def
        cs_ok_def d_new_def GetOk_def getS_def SetId_def dSet_def jstr_def jfield_def run_defs)
  from create_failure_sets_no_id [OF run] create_failure_sets_no_id [OF run2] run run2 id'
  show ?thesis by (auto simp: d_new_def)
qed

subsection \<open>Detaching a disk\<close>

text \<open>
  Claim C3, at the volume \<^verbatim>\<open>vol-1\<close> attached to the running machine \<^verbatim>\<open>vm-1\<close>: the direct
  detach call fails, the machine is stopped, the second detach call succeeds, the machine
  is started, and Detach returns the error of the first detach call.
\<close>

theorem detach_fallback_returns_first_error:
  "resourceCloudStackDiskDetach cs_running d_vol [] =
     (Inl (Err ''the virtual machine is running''), d_vol,
      [(GetVolumeByID d_vol,
        Succeeded (JObj [(''id'', JStr ''vol-1''), (''virtualmachineid'', JStr ''vm-1'')])),
       (DetachVolume ''vol-1'', Failed ''the virtual machine is running'' (- 1)),
       (StopVirtualMachine ''vm-1'', Succeeded JNull),
       (DetachVolume ''vol-1'', Succeeded JNull),
       (StartVirtualMachine ''vm-1'', Succeeded JNull)])"
  by (simp add: resourceCloudStackDiskDetach_def isAttached_def cs_running_def d_vol_def
      GetVolumeByID_def DetachVolume_def StopVirtualMachine_def StartVirtualMachine_def
      GetOk_def getS_def jstr_def jfield_def run_defs)

subsection \<open>Updating a private gateway\<close>

lemma emits_Get_string [emits_intros]: "emits P (Get_string keys k)"
  by (simp add: emits_def Get_string_def)

text \<open>Update never asks for the private gateway.\<close>

lemma private_gateway_update_calls:
  "emits (\<lambda>ev. cmd (fst ev) \<noteq> ''VPC.GetPrivateGatewayByID'')
     (resourceCloudStackPrivateGatewayUpdate cs)"
  unfolding resourceCloudStackPrivateGatewayUpdate_def
  by (intro emits_intros) simp_all

text \<open>
  The schema of the private gateway has no field \<^verbatim>\<open>project\<close>, so the Read of the network
  panics on its data before it calls anything: Update returns the error of the ACL
  replacement, or it panics. It never returns success.
\<close>

lemma private_gateway_update_result:
  "resourceCloudStackPrivateGatewayUpdate cs d h =
     (let c = Call ''NetworkACL.ReplaceNetworkACLList''
                [(''aclid'', PStr (getS d ''acl_id'')), (''networkid'', PStr (ID d))];
          panic = Panic ''interface conversion: interface {} is nil, not string''
      in if HasChange d ''acl_id''
         then (case api cs h c of
                 Failed err n \<Rightarrow> (Inl (Err (''Error replacing ACL: '' @ err)), d, [(c, Failed err n)])
               | Succeeded j \<Rightarrow> (Inl panic, d, [(c, Succeeded j)]))
         else (Inl panic, d, []))"
  by (simp add: resourceCloudStackPrivateGatewayUpdate_def Get_string_def privateGateway_fields_def
      run_defs split: reply.splits)

text \<open>
  Claim C9, at the private gateway 42 whose ACL has changed: Update replaces the ACL and
  then panics in the Read of the network, with the data as they were and no lookup of any
  kind made, while the Read of the private gateway on the same data and remote side
  looks the gateway up, succeeds and keeps the ID.
\<close>

theorem private_gateway_update_skips_own_read:
  "resourceCloudStackPrivateGatewayUpdate cs_gateway d_gw [] =
     (Inl (Panic ''interface conversion: interface {} is nil, not string''), d_gw,
      [(Call ''NetworkACL.ReplaceNetworkACLList''
          [(''aclid'', PStr ''acl-2''), (''networkid'', PStr ''42'')], Succeeded JNull)])
   \<and> fst (resourceCloudStackPrivateGatewayRead cs_gateway d_gw []) = Inr ()
   \<and> ID (fst (snd (resourceCloudStackPrivateGatewayRead cs_gateway d_gw []))) = ''42''
   \<and> map (cmd \<circ> fst) (snd (snd (resourceCloudStackPrivateGatewayRead cs_gateway d_gw [])))
       = [''VPC.GetPrivateGatewayByID'']"
  by (simp add: resourceCloudStackPrivateGatewayUpdate_def Get_string_def privateGateway_fields_def
      resourceCloudStackPrivateGatewayRead_def cs_gateway_def d_gw_def HasChange_def
      getS_def SetId_def dSet_def run_defs)

subsection \<open>The first network interface of an instance\<close>

named_theorems nopanic_intros

lemma nopanic_ret [nopanic_intros]: "nopanic (ret x)"
  and nopanic_fail [nopanic_intros]: "nopanic (fail (Err e))"
  and nopanic_getD [nopanic_intros]: "nopanic getD"
  and nopanic_modD [nopanic_intros]: "nopanic (modD f)"
  and nopanic_invoke [nopanic_intros]: "nopanic (invoke cs c)"
  and nopanic_invoke_unit [nopanic_intros]: "nopanic (invoke_unit cs c)"
  by (auto simp: nopanic_def getD_def invoke_apply invoke_unit_apply split: reply.splits)

lemma nopanic_thenDo [nopanic_intros]:
  "nopanic f \<Longrightarrow> (\<And>a. nopanic (g a)) \<Longrightarrow> nopanic (thenDo f g)"
  unfolding nopanic_def thenDo_def
  by (auto split: prod.splits sum.splits) (metis fst_conv)+

lemma nopanic_wrapErr [nopanic_intros]: "nopanic m \<Longrightarrow> nopanic (wrapErr f m)"
  unfolding nopanic_def
  by (auto simp: wrapErr_apply split: prod.splits sum.splits error.splits) (metis fst_conv)+

lemma nopanic_if [nopanic_intros]:
  "(b \<Longrightarrow> nopanic f) \<Longrightarrow> (\<not> b \<Longrightarrow> nopanic g) \<Longrightarrow> nopanic (if b then f else g)"
  by simp

lemma nopanic_case_reply [nopanic_intros]:
  "(\<And>err n. nopanic (f err n)) \<Longrightarrow> (\<And>j. nopanic (g j)) \<Longrightarrow>
   nopanic (case r of Failed err n \<Rightarrow> f err n | Succeeded j \<Rightarrow> g j)"
  by (simp split: reply.splits)

lemma nopanic_let [nopanic_intros]: "nopanic (f v) \<Longrightarrow> nopanic (let x = v in f x)"
  by simp

lemma nopanicD: "nopanic f \<Longrightarrow> f d h = (Inl e, d', evs) \<Longrightarrow> \<exists>m. e = Err m"
  unfolding nopanic_def by (cases e) (auto, metis fst_conv)

lemma nopanic_setTags [nopanic_intros]: "nopanic (setTags cs t)"
  unfolding setTags_def by (intro nopanic_intros)

lemma nopanic_InstanceRead [nopanic_intros]: "nopanic (resourceCloudStackInstanceRead cs)"
  unfolding resourceCloudStackInstanceRead_def by (intro nopanic_intros)

named_theorems at_call_intros

lemma at_call_here [at_call_intros]:
  assumes "\<And>r. emits (\<lambda>ev. cmd (fst ev) \<noteq> X) (g r)" "\<And>r d h. Q r (fst (g r d h))"
  shows "at_call X Q (thenDo (invoke cs (Call X p)) g)"
  unfolding at_call_def
proof (intro allI impI, elim conjE)
  fix d h res d' evs c r
  assume run: "thenDo (invoke cs (Call X p)) g d h = (res, d', evs)"
    and ev: "(c, r) \<in> set evs" "cmd c = X"
  let ?r = "api cs h (Call X p)"
  obtain r2 d2 n2 where g: "g ?r d (h @ [(Call X p, ?r)]) = (r2, d2, n2)"
    by (metis prod_cases3)
  with run have evs: "evs = (Call X p, ?r) # n2" "res = r2"
    by (auto simp: thenDo_invoke)
  from emitsD [OF assms(1) g] ev have "(c, r) \<notin> set n2" by fastforce
  with ev evs have "r = ?r" by simp
  with assms(2) [of ?r d "h @ [(Call X p, ?r)]"] g evs show "Q r res" by simp
qed

lemma at_call_quiet [at_call_intros]:
  assumes "emits (\<lambda>ev. cmd (fst ev) \<noteq> X) f" "\<And>a. at_call X Q (g a)"
  shows "at_call X Q (thenDo f g)"
  unfolding at_call_def
proof (intro allI impI, elim conjE)
  fix d h res d' evs c r
  assume run: "thenDo f g d h = (res, d', evs)"
    and ev: "(c, r) \<in> set evs" "cmd c = X"
  obtain r1 d1 n1 where f: "f d h = (r1, d1, n1)" by (metis prod_cases3)
  from emitsD [OF assms(1) f] ev have notin: "(c, r) \<notin> set n1" by fastforce
  show "Q r res"
  proof (cases r1)
    case (Inl e)
    with f run have "evs = n1" by (simp add: thenDo_Inl)
    with ev notin show ?thesis by simp
  next
    case (Inr a)
    obtain r2 d2 n2 where g: "g a d1 (h @ n1) = (r2, d2, n2)" by (metis prod_cases3)
    with f run Inr have e: "evs = n1 @ n2" "res = r2" by (simp_all add: thenDo_Inr)
    with ev notin have "(c, r) \<in> set n2" by simp
    with assms(2) [of a] g e ev show ?thesis unfolding at_call_def by blast
  qed
qed

lemma at_call_fail [at_call_intros]: "at_call X Q (fail e)"
  by (simp add: at_call_def)

lemma at_call_if [at_call_intros]:
  "(b \<Longrightarrow> at_call X Q f) \<Longrightarrow> (\<not> b \<Longrightarrow> at_call X Q g) \<Longrightarrow> at_call X Q (if b then f else g)"
  by simp

lemma at_call_case_reply [at_call_intros]:
  "(\<And>err n. at_call X Q (f err n)) \<Longrightarrow> (\<And>j. at_call X Q (g j)) \<Longrightarrow>
   at_call X Q (case r of Failed err n \<Rightarrow> f err n | Succeeded j \<Rightarrow> g j)"
  by (simp split: reply.splits)

lemma at_call_let [at_call_intros]: "at_call X Q (f v) \<Longrightarrow> at_call X Q (let x = v in f x)"
  by simp

text \<open>What Create does once the deploy call has answered.\<close>

lemma after_deploy:
  assumes "thenDo (modD (SetId i)) (\<lambda>_.
           thenDo (wrapErr w (setTags cs ''userVm'')) (\<lambda>_.
           thenDo (case jarr r ''nic'' of
                     [] \<Rightarrow> fail (Panic ''index out of range [0] with length 0'')
                   | nic0 # _ \<Rightarrow> modD (SetConnInfo [(''host'', jstr nic0 ''ipaddress''),
                                                   (''password'', jstr r ''password'')])) (\<lambda>_.
           resourceCloudStackInstanceRead cs))) d h = (res, d', evs)"
  shows "(jarr r ''nic'' = [] \<longrightarrow>
            res = Inl (Panic ''index out of range [0] with length 0'') \<or> (\<exists>m. res = Inl (Err (w m))))
       \<and> (jarr r ''nic'' \<noteq> [] \<longrightarrow> (\<forall>p. res \<noteq> Inl (Panic p)))"
proof -
  obtain r1 d1 n1 where t: "setTags cs ''userVm'' (SetId i d) h = (r1, d1, n1)"
    by (metis prod_cases3)
  show ?thesis
  proof (cases r1)
    case (Inl e)
    with nopanicD [OF nopanic_setTags] t obtain m where "e = Err m" by blast
    with Inl t assms show ?thesis
      by (auto simp: thenDo_def wrapErr_def modD_def)
  next
    case (Inr u)
    show ?thesis
    proof (cases "jarr r ''nic''")
      case Nil
      with Inr t assms show ?thesis
        by (auto simp: thenDo_def wrapErr_def modD_def)
    next
      case (Cons nic0 rest)
      obtain r2 d2 n2 where rd: "resourceCloudStackInstanceRead cs
          (SetConnInfo [(''host'', jstr nic0 ''ipaddress''), (''password'', jstr r ''password'')] d1)
          (h @ n1) = (r2, d2, n2)"
        by (metis prod_cases3)
      with Inr t assms Cons have "res = r2"
        by (auto simp: thenDo_def wrapErr_def modD_def)
      moreover have "\<forall>p. r2 \<noteq> Inl (Panic p)"
        using nopanic_InstanceRead [of cs] rd unfolding nopanic_def by (metis fst_conv)
      ultimately show ?thesis using Cons by simp
    qed
  qed
qed

lemma after_deploy_fst:
  fixes r i w cs d h
  defines "res \<equiv> fst (thenDo (modD (SetId i)) (\<lambda>_.
           thenDo (wrapErr w (setTags cs ''userVm'')) (\<lambda>_.
           thenDo (case jarr r ''nic'' of
                     [] \<Rightarrow> fail (Panic ''index out of range [0] with length 0'')
                   | nic0 # _ \<Rightarrow> modD (SetConnInfo [(''host'', jstr nic0 ''ipaddress''),
                                                   (''password'', jstr r ''password'')])) (\<lambda>_.
           resourceCloudStackInstanceRead cs))) d h)"
  shows "(jarr r ''nic'' = [] \<longrightarrow>
            res = Inl (Panic ''index out of range [0] with length 0'') \<or> (\<exists>m. res = Inl (Err (w m))))
       \<and> (jarr r ''nic'' \<noteq> [] \<longrightarrow> (\<forall>p. res \<noteq> Inl (Panic p)))"
  unfolding res_def using after_deploy [of i w cs r d h] by (metis prod.collapse)

lemma at_call_getD:
  assumes "\<And>d. at_call X (Q d) (thenDo (ret d) g)"
  shows "at_call_from X Q (thenDo getD g)"
  unfolding at_call_from_def
proof (intro allI impI)
  fix d h res d' evs c r
  assume run: "thenDo getD g d h = (res, d', evs)" and ev: "(c, r) \<in> set evs \<and> cmd c = X"
  from run have "thenDo (ret d) g d h = (res, d', evs)" by simp
  with assms [of d] ev show "Q d r res" unfolding at_call_def by blast
qed

lemma at_call_fromD:
  "at_call_from X Q f \<Longrightarrow> f d h = (res, d', evs) \<Longrightarrow> (c, r) \<in> set evs \<Longrightarrow> cmd c = X \<Longrightarrow> Q d r res"
  unfolding at_call_from_def by blast

lemma nopanic_run: "nopanic f \<Longrightarrow> f d h = (res, d', evs) \<Longrightarrow> res \<noteq> Inl (Panic p)"
  unfolding nopanic_def by (metis fst_conv)

lemma create_at_deploy:
  "at_call_from ''VirtualMachine.DeployVirtualMachine''
     (\<lambda>d r res. case r of Failed _ _ \<Rightarrow> True
        | Succeeded r \<Rightarrow>
            (jarr r ''nic'' = [] \<longrightarrow>
               res = Inl (Panic ''index out of range [0] with length 0'')
               \<or> (\<exists>m. res = Inl (Err (''Error setting tags on the new instance '' @ getS d ''name''
                                        @ '': '' @ m))))
          \<and> (jarr r ''nic'' \<noteq> [] \<longrightarrow> (\<forall>p. res \<noteq> Inl (Panic p))))
     (resourceCloudStackInstanceCreate cs)"
  unfolding resourceCloudStackInstanceCreate_def
  apply (rule at_call_getD)
  apply (simp only: thenDo_ret)
  apply (intro at_call_intros emits_intros)
                  apply simp_all
  subgoal for d r d0 h
    apply (cases r)
     apply simp
    apply (simp only: reply.case)
    apply (rule after_deploy_fst)
    done
  done

lemma attrs_dSet: "attrs (dSet k' v d) k = (if k = k' then v else attrs d k)"
  by (simp add: dSet_def)

lemma attrs_setValueOrID:
  "attrs (setValueOrID k' v i d) k = (if k = k' then VStr (if v \<noteq> [] then v else i) else attrs d k)"
  by (simp add: setValueOrID_def attrs_dSet)

lemma attrs_Let: "(\<And>y. attrs (f y) k = attrs y k) \<Longrightarrow> attrs (Let x f) k = attrs x k"
  by simp

lemma attrs_instance_read_rest:
  assumes "k \<in> {''network_id'', ''ip_address'', ''ip6_address'', ''ip6_cidr''}"
  shows "attrs (instance_read_rest vm l d) k = attrs d k"
proof -
  from assms consider "k = ''network_id''" | "k = ''ip_address''" | "k = ''ip6_address''" | "k = ''ip6_cidr''"
    by auto
  then show ?thesis
    by cases (simp_all add: instance_read_rest_def attrs_dSet attrs_setValueOrID attrs_Let)
qed

lemma attrs_instance_read_vm:
  assumes "jarr vm ''nic'' = []" "k \<in> {''network_id'', ''ip_address'', ''ip6_address'', ''ip6_cidr''}"
  shows "attrs (instance_read_vm vm d) k = attrs d k"
proof -
  from assms consider "k = ''network_id''" | "k = ''ip_address''" | "k = ''ip6_address''" | "k = ''ip6_cidr''"
    by auto
  then show ?thesis using assms(1)
    by cases (simp_all add: instance_read_vm_def attrs_dSet attrs_Let)
qed


lemma InstanceRead_apply:
  "resourceCloudStackInstanceRead cs d h =
     (let c1 = Call ''VirtualMachine.GetVirtualMachineByID''
                 [(''id'', PStr (ID d)), (''project'', PStr (getS d ''project''))];
          r1 = api cs h c1
      in case r1 of
           Failed err count \<Rightarrow>
             if count = 0 then (Inr (), SetId [] d, [(c1, r1)]) else (Inl (Err err), d, [(c1, r1)])
         | Succeeded vm \<Rightarrow>
             (let d1 = instance_read_vm vm d;
                  c2 = Call ''Volume.ListVolumes''
                         [(''type'', PStr ''ROOT''), (''virtualmachineid'', PStr (ID d))];
                  r2 = api cs (h @ [(c1, r1)]) c2
              in case r2 of
                   Failed err _ \<Rightarrow> (Inl (Err err), d1, [(c1, r1), (c2, r2)])
                 | Succeeded l \<Rightarrow> (Inr (), instance_read_rest vm l d1, [(c1, r1), (c2, r2)])))"
  by (simp add: resourceCloudStackInstanceRead_def thenDo_invoke Let_def split: reply.splits)

lemma read_nic_guard:
  assumes run: "resourceCloudStackInstanceRead cs d h = (res, d', evs)"
    and ev: "evs \<noteq> []" "hd evs = (c, Succeeded vm)"
    and nic: "jarr vm ''nic'' = []"
    and k: "k \<in> {''network_id'', ''ip_address'', ''ip6_address'', ''ip6_cidr''}"
  shows "attrs d' k = attrs d k"
proof -
  from run ev have "d' = instance_read_vm vm d \<or> (\<exists>l. d' = instance_read_rest vm l (instance_read_vm vm d))"
    unfolding InstanceRead_apply Let_def
    by (auto split: reply.splits if_splits)
  then show ?thesis
    using attrs_instance_read_vm [OF nic k] attrs_instance_read_rest [OF k] by auto
qed

text \<open>
  Claim C10. Instance Create builds the connection info from the first network interface
  of the deploy response without a length check: when the deploy call has succeeded and
  its response carries no interface, Create panics with an index out of range (unless
  setting the tags has failed before), and when it carries one, Create does not panic.
  Instance Read never panics, and when the virtual machine it has looked up carries no
  interface it leaves \<^verbatim>\<open>network_id\<close>, \<^verbatim>\<open>ip_address\<close>, \<^verbatim>\<open>ip6_address\<close> and \<^verbatim>\<open>ip6_cidr\<close>
  as they were.
\<close>

theorem instance_nic_access:
  assumes "resourceCloudStackInstanceCreate cs d h = (res, d', evs)"
    and "(c, Succeeded r) \<in> set evs" and "cmd c = ''VirtualMachine.DeployVirtualMachine''"
    and "resourceCloudStackInstanceRead cs d2 h2 = (res2, d2', evs2)"
  shows "(jarr r ''nic'' = [] \<longrightarrow>
            res = Inl (Panic ''index out of range [0] with length 0'')
            \<or> (\<exists>m. res = Inl (Err (''Error setting tags on the new instance '' @ getS d ''name''
                                     @ '': '' @ m))))
       \<and> (jarr r ''nic'' \<noteq> [] \<longrightarrow> (\<forall>p. res \<noteq> Inl (Panic p)))
       \<and> (\<forall>p. res2 \<noteq> Inl (Panic p))
       \<and> (\<forall>c2 vm k. evs2 \<noteq> [] \<and> hd evs2 = (c2, Succeeded vm) \<and> jarr vm ''nic'' = []
             \<and> k \<in> {''network_id'', ''ip_address'', ''ip6_address'', ''ip6_cidr''}
             \<longrightarrow> attrs d2' k = attrs d2 k)"
proof -
  from at_call_fromD [OF create_at_deploy assms(1,2,3)]
  have a: "(jarr r ''nic'' = [] \<longrightarrow>
            res = Inl (Panic ''index out of range [0] with length 0'')
            \<or> (\<exists>m. res = Inl (Err (''Error setting tags on the new instance '' @ getS d ''name''
                                     @ '': '' @ m))))
       \<and> (jarr r ''nic'' \<noteq> [] \<longrightarrow> (\<forall>p. res \<noteq> Inl (Panic p)))"
    by simp
  have b: "\<forall>p. res2 \<noteq> Inl (Panic p)"
    using nopanic_run [OF nopanic_InstanceRead assms(4)] by blast
  have c: "\<forall>c2 vm k. evs2 \<noteq> [] \<and> hd evs2 = (c2, Succeeded vm) \<and> jarr vm ''nic'' = []
             \<and> k \<in> {''network_id'', ''ip_address'', ''ip6_address'', ''ip6_cidr''}
             \<longrightarrow> attrs d2' k = attrs d2 k"
    using read_nic_guard [OF assms(4)] by blast
  from a b c show ?thesis by blast
qed

theorem instance_nic_access_witness:
  "fst (resourceCloudStackInstanceCreate cs_ok d_new []) =
     Inl (Panic ''index out of range [0] with length 0'')
   \<and> ID (fst (snd (resourceCloudStackInstanceCreate cs_ok d_new []))) = ''7''
   \<and> fst (resourceCloudStackInstanceRead cs_ok d_new []) = Inr ()
   \<and> attrs (fst (snd (resourceCloudStackInstanceRead cs_ok d_new []))) ''ip_address''
       = attrs d_new ''ip_address''"
proof -
  obtain res d' evs where run: "resourceCloudStackInstanceCreate cs_ok d_new [] = (res, d', evs)"
    by (metis prod_cases3)
  then have ev: "\<exists>p. (Call ''VirtualMachine.DeployVirtualMachine'' p, Succeeded (JObj [(''id'', JStr ''7'')]))
      \<in> set evs"
    and res: "res = Inl (Panic ''index out of range [0] with length 0'')" and id': "ID d' = ''7''"
    by (auto simp: resourceCloudStackInstanceCreate_def retrieveID_def retrieveTemplateID_def
        setProjectid_def setTags_def cs_ok_def d_new_def GetOk_def getS_def getM_def SetId_def
        jstr_def jarr_def jfield_def run_defs)
  then obtain p where ev': "(Call ''VirtualMachine.DeployVirtualMachine'' p,
      Succeeded (JObj [(''id'', JStr ''7'')])) \<in> set evs"
    by blast
  obtain res2 d2 evs2 where run2: "resourceCloudStackInstanceRead cs_ok d_new [] = (res2, d2, evs2)"
    by (metis prod_cases3)
  then have evs2: "evs2 \<noteq> []" "\<exists>c2. hd evs2 = (c2, Succeeded (JObj [(''id'', JStr ''7'')]))"
    and res2: "res2 = Inr ()"
    by (auto simp: resourceCloudStackInstanceRead_def cs_ok_def run_defs)
  then obtain c2 where hd2: "hd evs2 = (c2, Succeeded (JObj [(''id'', JStr ''7'')]))"
    by blast
  have nic: "jarr (JObj [(''id'', JStr ''7'')]) ''nic'' = []"
    by (simp add: jarr_def jfield_def)
  from instance_nic_access [OF run ev' _ run2] nic evs2(1) hd2
  have "attrs d2 ''ip_address'' = attrs d_new ''ip_address''"
    by auto
  with run run2 res res2 id' show ?thesis by simp
qed




subsection \<open>Updating an instance\<close>

lemma lifecycle_cmds_append [simp]:
  "lifecycle_cmds (xs @ ys) = lifecycle_cmds xs @ lifecycle_cmds ys"
  by (simp add: lifecycle_cmds_def)

lemma lifecycle_cmds_Nil [simp]: "lifecycle_cmds [] = []"
  by (simp add: lifecycle_cmds_def)

lemma lifecycle_cmds_quiet:
  "\<forall>ev \<in> set evs. \<not> lifecycle ev \<Longrightarrow> lifecycle_cmds evs = []"
  by (simp add: lifecycle_cmds_def)

lemma seq_quiet: "emits (\<lambda>ev. \<not> lifecycle ev) f \<Longrightarrow> seq [] f"
  unfolding seq_def
  by (auto dest!: emitsD simp: lifecycle_cmds_def filter_empty_conv)

lemma seq_thenDo_quiet:
  assumes "emits (\<lambda>ev. \<not> lifecycle ev) f" "\<And>a. seq L (g a)"
  shows "seq L (thenDo f g)"
  unfolding seq_def
proof (intro allI impI)
  fix d h res d' evs
  assume run: "thenDo f g d h = (res, d', evs)"
  obtain r1 d1 n1 where f: "f d h = (r1, d1, n1)" by (metis prod_cases3)
  have q: "lifecycle_cmds n1 = []"
    using emitsD [OF assms(1) f] by (intro lifecycle_cmds_quiet) blast
  show "prefix (lifecycle_cmds evs) L \<and> ((\<exists>a. res = Inr a) \<longrightarrow> lifecycle_cmds evs = L)"
  proof (cases r1)
    case (Inl e)
    with f run q show ?thesis by (auto simp add: thenDo_Inl)
  next
    case (Inr a)
    obtain r2 d2 n2 where g: "g a d1 (h @ n1) = (r2, d2, n2)" by (metis prod_cases3)
    with f run Inr have e: "evs = n1 @ n2" "res = r2" by (simp_all add: thenDo_Inr)
    from assms(2) [of a] g have
      "prefix (lifecycle_cmds n2) L \<and> ((\<exists>a. r2 = Inr a) \<longrightarrow> lifecycle_cmds n2 = L)"
      unfolding seq_def by blast
    with e q show ?thesis by simp
  qed
qed

lemma seq_thenDo_call:
  assumes "seq [x] f" "\<And>a. seq L (g a)"
  shows "seq (x # L) (thenDo f g)"
  unfolding seq_def
proof (intro allI impI)
  fix d h res d' evs
  assume run: "thenDo f g d h = (res, d', evs)"
  obtain r1 d1 n1 where f: "f d h = (r1, d1, n1)" by (metis prod_cases3)
  from assms(1) f have f1: "prefix (lifecycle_cmds n1) [x]" "(\<exists>a. r1 = Inr a) \<longrightarrow> lifecycle_cmds n1 = [x]"
    unfolding seq_def by blast+
  show "prefix (lifecycle_cmds evs) (x # L) \<and> ((\<exists>a. res = Inr a) \<longrightarrow> lifecycle_cmds evs = x # L)"
  proof (cases r1)
    case (Inl e)
    with f run have "evs = n1" "res = Inl e" by (simp_all add: thenDo_Inl)
    with f1(1) show ?thesis
      by (metis Sublist.prefix_def append.assoc append_Cons append_Nil sum.distinct(1))
  next
    case (Inr a)
    obtain r2 d2 n2 where g: "g a d1 (h @ n1) = (r2, d2, n2)" by (metis prod_cases3)
    with f run Inr have e: "evs = n1 @ n2" "res = r2" by (simp_all add: thenDo_Inr)
    from assms(2) [of a] g have
      "prefix (lifecycle_cmds n2) L \<and> ((\<exists>a. r2 = Inr a) \<longrightarrow> lifecycle_cmds n2 = L)"
      unfolding seq_def by blast
    with e f1(2) Inr show ?thesis by simp
  qed
qed

lemma seq_invoke_unit:
  "cmd c = x \<Longrightarrow> x \<in> {stop_cmd, change_cmd, start_cmd} \<Longrightarrow> seq [x] (invoke_unit cs c)"
  unfolding seq_def
  by (auto simp: invoke_unit_apply lifecycle_cmds_def lifecycle_def)

lemma seq_wrapErr: "seq L m \<Longrightarrow> seq L (wrapErr w m)"
  unfolding seq_def
  apply (intro allI impI)
  subgoal for d h res d' evs
    apply (cases "m d h")
    subgoal for r1 d1 n1
      apply (cases r1)
      subgoal for e by (cases e) (auto simp: wrapErr_apply)
      subgoal for a by (auto simp: wrapErr_apply)
      done
    done
  done

lemma seq_thenDo_end:
  assumes "seq L f" "\<And>a. emits (\<lambda>ev. \<not> lifecycle ev) (g a)"
  shows "seq L (thenDo f g)"
  unfolding seq_def
proof (intro allI impI)
  fix d h res d' evs
  assume run: "thenDo f g d h = (res, d', evs)"
  obtain r1 d1 n1 where f: "f d h = (r1, d1, n1)" by (metis prod_cases3)
  from assms(1) f have f1: "prefix (lifecycle_cmds n1) L" "(\<exists>a. r1 = Inr a) \<longrightarrow> lifecycle_cmds n1 = L"
    unfolding seq_def by blast+
  show "prefix (lifecycle_cmds evs) L \<and> ((\<exists>a. res = Inr a) \<longrightarrow> lifecycle_cmds evs = L)"
  proof (cases r1)
    case (Inl e)
    with f run have "evs = n1" "res = Inl e" by (simp_all add: thenDo_Inl)
    with f1(1) show ?thesis by simp
  next
    case (Inr a)
    obtain r2 d2 n2 where g: "g a d1 (h @ n1) = (r2, d2, n2)" by (metis prod_cases3)
    with f run Inr have e: "evs = n1 @ n2" "res = r2" by (simp_all add: thenDo_Inr)
    have "lifecycle_cmds n2 = []"
      using emitsD [OF assms(2) g] by (intro lifecycle_cmds_quiet) blast
    with e f1(2) Inr show ?thesis by simp
  qed
qed

lemma seq_getD:
  assumes "\<And>d. P d \<Longrightarrow> seq L (thenDo (ret d) g)"
  shows "seq_from P L (thenDo getD g)"
  unfolding seq_from_def
proof (intro allI impI, elim conjE)
  fix d h res d' evs
  assume P: "P d" and run: "thenDo getD g d h = (res, d', evs)"
  from run have "thenDo (ret d) g d h = (res, d', evs)" by simp
  with assms [OF P] show "prefix (lifecycle_cmds evs) L \<and> ((\<exists>a. res = Inr a) \<longrightarrow> lifecycle_cmds evs = L)"
    unfolding seq_def by blast
qed


named_theorems failstop_intros

lemma failstop_ret [failstop_intros]: "failstop (ret x)"
  and failstop_fail [failstop_intros]: "failstop (fail e)"
  and failstop_getD [failstop_intros]: "failstop getD"
  and failstop_modD [failstop_intros]: "failstop (modD f)"
  by (simp_all add: failstop_def getD_def)

lemma failstop_invoke_unit [failstop_intros]: "failstop (invoke_unit cs c)"
  by (auto simp: failstop_def invoke_unit_apply is_failed_def split: reply.splits)

lemma failstop_invoke [failstop_intros]:
  "cmd c \<notin> {stop_cmd, change_cmd, start_cmd} \<Longrightarrow> failstop (invoke cs c)"
  by (auto simp: failstop_def invoke_apply lifecycle_def)

lemma failstop_thenDo [failstop_intros]:
  assumes "failstop f" "\<And>a. failstop (g a)"
  shows "failstop (thenDo f g)"
  unfolding failstop_def
proof (intro allI impI ballI, elim conjE)
  fix d h res d' evs ev
  assume run: "thenDo f g d h = (res, d', evs)" and ev: "ev \<in> set evs" "lifecycle ev" "is_failed (snd ev)"
  obtain r1 d1 n1 where f: "f d h = (r1, d1, n1)" by (metis prod_cases3)
  from assms(1) f have f1: "\<forall>ev \<in> set n1. lifecycle ev \<and> is_failed (snd ev) \<longrightarrow>
         (\<exists>e. r1 = Inl (Err e)) \<and> last n1 = ev"
    unfolding failstop_def by blast
  show "(\<exists>e. res = Inl (Err e)) \<and> last evs = ev"
  proof (cases r1)
    case (Inl e)
    with f run have "evs = n1" "res = Inl e" by (simp_all add: thenDo_Inl)
    with f1 ev Inl show ?thesis by blast
  next
    case (Inr a)
    obtain r2 d2 n2 where g: "g a d1 (h @ n1) = (r2, d2, n2)" by (metis prod_cases3)
    with f run Inr have e: "evs = n1 @ n2" "res = r2" by (simp_all add: thenDo_Inr)
    from f1 Inr ev have "ev \<notin> set n1" by auto
    with e ev have in2: "ev \<in> set n2" by simp
    from assms(2) [of a] g in2 ev have "(\<exists>e. r2 = Inl (Err e)) \<and> last n2 = ev"
      unfolding failstop_def by blast
    moreover from in2 have "n2 \<noteq> []" by auto
    ultimately show ?thesis using e by simp
  qed
qed

lemma failstop_wrapErr [failstop_intros]: "failstop m \<Longrightarrow> failstop (wrapErr w m)"
  unfolding failstop_def
  apply (intro allI impI)
  subgoal for d h res d' evs
    apply (cases "m d h")
    subgoal for r1 d1 n1
      apply (cases r1)
      subgoal for e by (cases e) (auto simp: wrapErr_apply)
      subgoal for a by (auto simp: wrapErr_apply)
      done
    done
  done

lemma failstop_if [failstop_intros]:
  "(b \<Longrightarrow> failstop f) \<Longrightarrow> (\<not> b \<Longrightarrow> failstop g) \<Longrightarrow> failstop (if b then f else g)"
  by simp

lemma failstop_case_reply [failstop_intros]:
  "(\<And>err n. failstop (f err n)) \<Longrightarrow> (\<And>j. failstop (g j)) \<Longrightarrow>
   failstop (case r of Failed err n \<Rightarrow> f err n | Succeeded j \<Rightarrow> g j)"
  by (simp split: reply.splits)

lemma failstop_case_prod [failstop_intros]:
  "(\<And>a b. failstop (f a b)) \<Longrightarrow> failstop (case p of (a, b) \<Rightarrow> f a b)"
  by (simp split: prod.splits)

lemma failstop_case_option [failstop_intros]:
  "failstop f \<Longrightarrow> (\<And>x. failstop (g x)) \<Longrightarrow>
   failstop (case l of None \<Rightarrow> f | Some x \<Rightarrow> g x)"
  by (simp split: option.splits)

lemma failstop_let [failstop_intros]: "failstop (f v) \<Longrightarrow> failstop (let x = v in f x)"
  by simp

lemma lifecycle_simps [simp]:
  "lifecycle (Call x p, r) = (x \<in> {stop_cmd, change_cmd, start_cmd})"
  by (simp add: lifecycle_def)

lemmas cmd_defs = stop_cmd_def change_cmd_def start_cmd_def

lemma emits_updateTags [emits_intros]:
  "(\<And>p r. P (Call ''Resourcetags.DeleteTags'' p, r)) \<Longrightarrow>
   (\<And>p r. P (Call ''Resourcetags.CreateTags'' p, r)) \<Longrightarrow> emits P (updateTags cs t)"
  unfolding updateTags_def by (intro emits_intros) simp_all

lemma failstop_Update: "failstop (resourceCloudStackInstanceUpdate cs)"
  unfolding resourceCloudStackInstanceUpdate_def update_stopped_def update_name_def
    update_service_offering_def update_affinity_group_ids_def update_affinity_group_names_def
    update_keypairs_def update_user_data_def updateTags_def resourceCloudStackInstanceRead_def
    retrieveID_def setProjectid_def
  by (intro failstop_intros) (simp_all add: cmd_defs)

lemma quiet_update_name: "emits (\<lambda>ev. \<not> lifecycle ev) (update_name cs d)"
  unfolding update_name_def by (intro emits_intros) (simp_all add: cmd_defs)

lemma quiet_update_affinity_group_ids: "emits (\<lambda>ev. \<not> lifecycle ev) (update_affinity_group_ids cs d)"
  unfolding update_affinity_group_ids_def by (intro emits_intros) (simp_all add: cmd_defs)

lemma quiet_update_affinity_group_names: "emits (\<lambda>ev. \<not> lifecycle ev) (update_affinity_group_names cs d)"
  unfolding update_affinity_group_names_def by (intro emits_intros) (simp_all add: cmd_defs)

lemma quiet_update_keypairs: "emits (\<lambda>ev. \<not> lifecycle ev) (update_keypairs cs d)"
  unfolding update_keypairs_def by (intro emits_intros) (simp_all add: cmd_defs)

lemma quiet_update_user_data: "emits (\<lambda>ev. \<not> lifecycle ev) (update_user_data cs d)"
  unfolding update_user_data_def by (intro emits_intros) (simp_all add: cmd_defs)

lemma seq_update_service_offering:
  "HasChange d ''service_offering'' \<Longrightarrow> seq [change_cmd] (update_service_offering cs d)"
  unfolding update_service_offering_def
  apply simp
  apply (rule seq_thenDo_quiet)
   apply (intro emits_intros; simp add: cmd_defs)
  apply (rule seq_wrapErr)
  apply (rule seq_invoke_unit; simp add: cmd_defs)
  done

lemma seq_update_stopped:
  "HasChange d ''service_offering'' \<Longrightarrow>
   seq [stop_cmd, change_cmd, start_cmd] (update_stopped cs d)"
  unfolding update_stopped_def
  apply (rule seq_thenDo_call)
   apply (rule seq_wrapErr)
   apply (rule seq_invoke_unit; simp add: StopVirtualMachine_def stop_cmd_def)
  apply (rule seq_thenDo_quiet [OF quiet_update_name])
  apply (rule seq_thenDo_call [OF seq_update_service_offering], assumption)
  apply (rule seq_thenDo_quiet [OF quiet_update_affinity_group_ids])
  apply (rule seq_thenDo_quiet [OF quiet_update_affinity_group_names])
  apply (rule seq_thenDo_quiet [OF quiet_update_keypairs])
  apply (rule seq_thenDo_quiet [OF quiet_update_user_data])
  apply (rule seq_wrapErr)
  apply (rule seq_invoke_unit; simp add: StartVirtualMachine_def start_cmd_def)
  done

lemma seq_Update:
  "seq_from (\<lambda>d. HasChange d ''service_offering'') [stop_cmd, change_cmd, start_cmd]
     (resourceCloudStackInstanceUpdate cs)"
  unfolding resourceCloudStackInstanceUpdate_def
  apply (rule seq_getD)
  apply (simp only: thenDo_ret Let_def)
  apply (rule seq_thenDo_quiet)
   apply (intro emits_intros; simp add: cmd_defs)
  apply (rule seq_thenDo_quiet)
   apply (intro emits_intros; simp add: cmd_defs)
  apply (simp only: simp_thms if_True)
  apply (rule seq_thenDo_end [OF seq_update_stopped], assumption)
  apply (intro emits_intros; simp add: cmd_defs)
  done

lemma seq_fromD:
  "seq_from P L f \<Longrightarrow> P d \<Longrightarrow> f d h = (res, d', evs) \<Longrightarrow>
   prefix (lifecycle_cmds evs) L \<and> ((\<exists>a. res = Inr a) \<longrightarrow> lifecycle_cmds evs = L)"
  unfolding seq_from_def by blast

lemma failstopD:
  "failstop f \<Longrightarrow> f d h = (res, d', evs) \<Longrightarrow> ev \<in> set evs \<Longrightarrow> lifecycle ev \<Longrightarrow>
   is_failed (snd ev) \<Longrightarrow> (\<exists>e. res = Inl (Err e)) \<and> last evs = ev"
  unfolding failstop_def by blast


lemma prefix_of_three:
  "prefix xs [a, b, c] \<Longrightarrow> xs = [] \<or> xs = [a] \<or> xs = [a, b] \<or> xs = [a, b, c]"
  by (cases xs; simp; cases "tl xs"; simp; cases "tl (tl xs)"; auto)

text \<open>
  Claim C2. In an Update of an instance whose \<^verbatim>\<open>service_offering\<close> has changed, the calls
  of the cycle are made in the order stop, change of the service offering, start: the
  calls made are a prefix of that sequence, and all of it when Update succeeds. When the
  start call fails, Update returns an error, the failed start call is the last remote call
  of the run, and the cycle consists of one successful stop, one successful change of the
  offering and the failed start: the change is neither repeated nor undone.
\<close>

theorem update_service_offering_order:
  assumes chg: "HasChange d ''service_offering''"
    and run: "resourceCloudStackInstanceUpdate cs d h = (res, d', evs)"
  shows "prefix (lifecycle_cmds evs) [stop_cmd, change_cmd, start_cmd]
       \<and> (res = Inr () \<longrightarrow> lifecycle_cmds evs = [stop_cmd, change_cmd, start_cmd])
       \<and> (\<forall>c e n. (c, Failed e n) \<in> set evs \<and> cmd c = start_cmd \<longrightarrow>
             (\<exists>m. res = Inl (Err m)) \<and> last evs = (c, Failed e n)
             \<and> (\<exists>c1 j1 c2 j2.
                   filter lifecycle evs = [(c1, Succeeded j1), (c2, Succeeded j2), (c, Failed e n)]
                   \<and> cmd c1 = stop_cmd \<and> cmd c2 = change_cmd))"
proof -
  from seq_fromD [OF seq_Update chg run]
  have pre: "prefix (lifecycle_cmds evs) [stop_cmd, change_cmd, start_cmd]"
    and full: "(\<exists>a. res = Inr a) \<longrightarrow> lifecycle_cmds evs = [stop_cmd, change_cmd, start_cmd]"
    by auto
  have third: "(\<exists>m. res = Inl (Err m)) \<and> last evs = (c, Failed e n)
             \<and> (\<exists>c1 j1 c2 j2.
                   filter lifecycle evs = [(c1, Succeeded j1), (c2, Succeeded j2), (c, Failed e n)]
                   \<and> cmd c1 = stop_cmd \<and> cmd c2 = change_cmd)"
    if ev: "(c, Failed e n) \<in> set evs" and c: "cmd c = start_cmd" for c e n
  proof -
    have lc: "lifecycle (c, Failed e n)" using c by (simp add: lifecycle_def)
    have fl: "is_failed (snd (c, Failed e n))" by (simp add: is_failed_def)
    from failstopD [OF failstop_Update run ev lc fl]
    have res: "\<exists>m. res = Inl (Err m)" and last: "last evs = (c, Failed e n)" by auto
    let ?F = "filter lifecycle evs"
    from ev lc have inF: "(c, Failed e n) \<in> set ?F" by simp
    then have "start_cmd \<in> set (lifecycle_cmds evs)"
      using c unfolding lifecycle_cmds_def by force
    with prefix_of_three [OF pre]
    have "lifecycle_cmds evs = [stop_cmd, change_cmd, start_cmd]"
      by (auto simp: cmd_defs)
    then obtain e1 e2 e3 where F: "?F = [e1, e2, e3]"
      and cmds: "cmd (fst e1) = stop_cmd" "cmd (fst e2) = change_cmd" "cmd (fst e3) = start_cmd"
      unfolding lifecycle_cmds_def by (auto simp: map_eq_Cons_conv)
    from inF F cmds c have e3: "e3 = (c, Failed e n)"
      by (auto simp: cmd_defs)
    have "e1 \<in> set ?F" "e2 \<in> set ?F" using F by simp_all
    then have in_evs: "e1 \<in> set evs" "e2 \<in> set evs" "lifecycle e1" "lifecycle e2"
      by simp_all
    have ok1: "\<not> is_failed (snd e1)"
    proof
      assume "is_failed (snd e1)"
      from failstopD [OF failstop_Update run in_evs(1,3) this] last have "e1 = (c, Failed e n)" by simp
      with cmds c show False by (simp add: cmd_defs)
    qed
    have ok2: "\<not> is_failed (snd e2)"
    proof
      assume "is_failed (snd e2)"
      from failstopD [OF failstop_Update run in_evs(2,4) this] last have "e2 = (c, Failed e n)" by simp
      with cmds c show False by (simp add: cmd_defs)
    qed
    from ok1 obtain c1 j1 where e1: "e1 = (c1, Succeeded j1)"
      by (cases e1; cases "snd e1") (auto simp: is_failed_def)
    from ok2 obtain c2 j2 where e2: "e2 = (c2, Succeeded j2)"
      by (cases e2; cases "snd e2") (auto simp: is_failed_def)
    from F e1 e2 e3 cmds res last show ?thesis by auto
  qed
  from pre full third show ?thesis by blast
qed

theorem update_service_offering_order_witness:
  "HasChange d_upd ''service_offering''
   \<and> resourceCloudStackInstanceUpdate cs_no_start d_upd [] =
       (Inl (Err ''Error starting instance web after making changes''), d_upd,
        [(StopVirtualMachine ''vm-9'', Succeeded JNull),
         (Call ''VirtualMachine.ChangeServiceForVirtualMachine''
            [(''id'', PStr ''vm-9''), (''serviceofferingid'', PStr ''large'')], Succeeded JNull),
         (StartVirtualMachine ''vm-9'', Failed ''insufficient capacity'' (- 1))])
   \<and> fst (resourceCloudStackInstanceUpdate cs_ok d_upd []) = Inr ()
   \<and> lifecycle_cmds (snd (snd (resourceCloudStackInstanceUpdate cs_ok d_upd [])))
       = [stop_cmd, change_cmd, start_cmd]"
proof -
  have chg: "HasChange d_upd ''service_offering''"
    by (simp add: HasChange_def d_upd_def)
  have run: "resourceCloudStackInstanceUpdate cs_no_start d_upd [] =
       (Inl (Err ''Error starting instance web after making changes''), d_upd,
        [(StopVirtualMachine ''vm-9'', Succeeded JNull),
         (Call ''VirtualMachine.ChangeServiceForVirtualMachine''
            [(''id'', PStr ''vm-9''), (''serviceofferingid'', PStr ''large'')], Succeeded JNull),
         (StartVirtualMachine ''vm-9'', Failed ''insufficient capacity'' (- 1))])"
    by (simp add: resourceCloudStackInstanceUpdate_def update_stopped_def update_name_def
        update_service_offering_def update_affinity_group_ids_def
        update_affinity_group_names_def update_keypairs_def update_user_data_def
        retrieveID_def cs_no_start_def d_upd_def HasChange_def getS_def
        StopVirtualMachine_def StartVirtualMachine_def run_defs)
  obtain res d' evs where run2: "resourceCloudStackInstanceUpdate cs_ok d_upd [] = (res, d', evs)"
    by (metis prod_cases3)
  then have res: "res = Inr ()"
    by (auto simp add: resourceCloudStackInstanceUpdate_def update_stopped_def update_name_def
        update_service_offering_def update_affinity_group_ids_def
        update_affinity_group_names_def update_keypairs_def update_user_data_def
        resourceCloudStackInstanceRead_def
        retrieveID_def cs_ok_def d_upd_def HasChange_def getS_def
        StopVirtualMachine_def StartVirtualMachine_def run_defs)
  from update_service_offering_order [OF chg run] update_service_offering_order [OF chg run2]
    chg run run2 res
  show ?thesis by simp
qed


subsection \<open>Mutually exclusive fields\<close>

lemma conflicts_member:
  "(k, s) \<in> set sm \<Longrightarrow> config k \<noteq> None \<Longrightarrow> k' \<in> set (ConflictsWith s) \<Longrightarrow> config k' \<noteq> None \<Longrightarrow>
   (k, k') \<in> set (conflicts sm config)"
  unfolding conflicts_def by force

lemma conflicts_with_keypair:
  "\<exists>s. map_of instance_Schema ''keypair'' = Some s \<and> ConflictsWith s = [''keypairs'']"
  by (simp add: instance_Schema_def schema_of_def)

lemma conflicts_with_keypairs:
  "\<exists>s. map_of instance_Schema ''keypairs'' = Some s \<and> ConflictsWith s = [''keypair'']"
  by (simp add: instance_Schema_def schema_of_def)

lemma conflicts_with_affinity_group_ids:
  "\<exists>s. map_of instance_Schema ''affinity_group_ids'' = Some s
       \<and> ConflictsWith s = [''affinity_group_names'']"
  by (simp add: instance_Schema_def schema_of_def)

lemma conflicts_with_affinity_group_names:
  "\<exists>s. map_of instance_Schema ''affinity_group_names'' = Some s
       \<and> ConflictsWith s = [''affinity_group_ids'']"
  by (simp add: instance_Schema_def schema_of_def)

lemma conflicts_with_security_group_ids:
  "\<exists>s. map_of instance_Schema ''security_group_ids'' = Some s
       \<and> ConflictsWith s = [''security_group_names'']"
  by (simp add: instance_Schema_def schema_of_def)

lemma conflicts_with_security_group_names:
  "\<exists>s. map_of instance_Schema ''security_group_names'' = Some s
       \<and> ConflictsWith s = [''security_group_ids'']"
  by (simp add: instance_Schema_def schema_of_def)

lemma instance_conflict_declared:
  assumes "(a, b) \<in> {(''keypair'', ''keypairs''), (''affinity_group_ids'', ''affinity_group_names''),
                     (''security_group_ids'', ''security_group_names'')}"
  shows "(\<exists>s. (a, s) \<in> set instance_Schema \<and> b \<in> set (ConflictsWith s))
       \<and> (\<exists>s. (b, s) \<in> set instance_Schema \<and> a \<in> set (ConflictsWith s))"
proof -
  from assms consider "a = ''keypair'' \<and> b = ''keypairs''"
    | "a = ''affinity_group_ids'' \<and> b = ''affinity_group_names''"
    | "a = ''security_group_ids'' \<and> b = ''security_group_names''"
    by blast
  then show ?thesis
  proof cases
    case 1
    with conflicts_with_keypair conflicts_with_keypairs show ?thesis
      by (metis list.set_intros(1) map_of_SomeD)
  next
    case 2
    with conflicts_with_affinity_group_ids conflicts_with_affinity_group_names show ?thesis
      by (metis list.set_intros(1) map_of_SomeD)
  next
    case 3
    with conflicts_with_security_group_ids conflicts_with_security_group_names show ?thesis
      by (metis list.set_intros(1) map_of_SomeD)
  qed
qed

text \<open>
  Claim C8. A configuration of an instance that supplies both \<^verbatim>\<open>keypair\<close> and
  \<^verbatim>\<open>keypairs\<close>, or both \<^verbatim>\<open>affinity_group_ids\<close> and \<^verbatim>\<open>affinity_group_names\<close>, or both
  \<^verbatim>\<open>security_group_ids\<close> and \<^verbatim>\<open>security_group_names\<close>, is rejected by validation: the
  error lists the pair in both directions, the resource data are untouched and no remote
  call is made. The schema declares each of the three conflicts on both of its fields.
\<close>

theorem exclusive_pairs_rejected:
  assumes pair: "(a, b) \<in> {(''keypair'', ''keypairs''), (''affinity_group_ids'', ''affinity_group_names''),
                     (''security_group_ids'', ''security_group_names'')}"
    and both: "config a \<noteq> None" "config b \<noteq> None"
  shows "\<exists>ps. (a, b) \<in> set ps \<and> (b, a) \<in> set ps
            \<and> validated_InstanceCreate cs config d h = (Inl (Err (conflict_message ps)), d, [])"
proof -
  from instance_conflict_declared [OF pair] obtain s s' where
    s: "(a, s) \<in> set instance_Schema" "b \<in> set (ConflictsWith s)"
    and s': "(b, s') \<in> set instance_Schema" "a \<in> set (ConflictsWith s')"
    by blast
  let ?ps = "conflicts instance_Schema config"
  have "(a, b) \<in> set ?ps" "(b, a) \<in> set ?ps"
    using conflicts_member [OF s(1) both(1) s(2) both(2)]
      conflicts_member [OF s'(1) both(2) s'(2) both(1)] by simp_all
  moreover from this have "?ps \<noteq> []" by auto
  then have "validated_InstanceCreate cs config d h = (Inl (Err (conflict_message ?ps)), d, [])"
    by (auto simp: validated_InstanceCreate_def split: list.splits)
  ultimately show ?thesis by blast
qed

theorem exclusive_pairs_rejected_witness:
  "config_both_keypairs ''keypair'' \<noteq> None \<and> config_both_keypairs ''keypairs'' \<noteq> None
   \<and> (\<exists>m. validated_InstanceCreate cs_ok config_both_keypairs d_new [] = (Inl (Err m), d_new, []))"
proof -
  have both: "config_both_keypairs ''keypair'' \<noteq> None" "config_both_keypairs ''keypairs'' \<noteq> None"
    by (simp_all add: config_both_keypairs_def)
  from exclusive_pairs_rejected
         [of "''keypair''" "''keypairs''" config_both_keypairs cs_ok d_new "[]"] both
  show ?thesis
    by auto
qed


subsection \<open>User data\<close>

lemma getUserData_hello: "getUserData ''hello'' = (''aGVsbG8='', None)"
  by (simp add: getUserData_def DecodeString_def EncodeToString_def decodeMap_def encode_def
      encodeStd_def padChar_def is_newline_def)

text \<open>
  Claim C6. \<^verbatim>\<open>getUserData\<close> never returns an error; an input that does not decode as
  standard base64 comes back base64 encoded, an input that decodes comes back unchanged;
  \<^verbatim>\<open>hello\<close> becomes \<^verbatim>\<open>aGVsbG8=\<close>.
\<close>

theorem getUserData_normalises:
  "snd (getUserData s) = None
   \<and> (DecodeString s = None \<longrightarrow> fst (getUserData s) = EncodeToString s)
   \<and> (DecodeString s \<noteq> None \<longrightarrow> fst (getUserData s) = s)
   \<and> getUserData ''hello'' = (''aGVsbG8='', None)"
  using getUserData_hello by (auto simp: getUserData_def)

theorem getUserData_normalises_witness:
  "DecodeString ''hello'' = None \<and> fst (getUserData ''hello'') = EncodeToString ''hello''
   \<and> DecodeString ''aGVsbG8='' \<noteq> None \<and> fst (getUserData ''aGVsbG8='') = ''aGVsbG8=''"
proof -
  have a: "DecodeString ''hello'' = None"
    by (simp add: DecodeString_def decodeMap_def encodeStd_def padChar_def is_newline_def)
  have b: "DecodeString ''aGVsbG8='' \<noteq> None"
    by (simp add: DecodeString_def decodeMap_def encodeStd_def padChar_def is_newline_def)
  from a b getUserData_normalises [of "''hello''"] getUserData_normalises [of "''aGVsbG8=''"]
  show ?thesis by blast
qed

subsection \<open>Defaults derived from the CIDR\<close>


































text \<open>Its mask is that of a prefix of at most 32 bits.\<close>

lemma net_ParseCIDR_mask:
  assumes "net_ParseCIDR s = Some (ip, msk)"
  shows "\<exists>n. n \<le> 32 \<and> msk = CIDRMask n"
  using assms
  by (auto simp: net_ParseCIDR_def not_less split: option.splits if_splits)






end
